theory Spec2Isabelle
  imports Main "HOL-Library.Word" "HOL-Library.Signed_Division"
begin

unbundle bit_operations_syntax

section \<open>utflite: data model\<close>

text \<open>
  The embedding follows \<^verbatim>\<open>src/utflite.c\<close>.  A C \<^verbatim>\<open>char\<close> read through
  \<^verbatim>\<open>(unsigned char)\<close> is an \<open>8 word\<close>, a \<^verbatim>\<open>uint32_t\<close> codepoint is a
  \<open>32 word\<close>, and a C \<^verbatim>\<open>int\<close> (lengths, offsets, counts, return values) is an \<open>int\<close>:
  lengths are taken to lie well inside the 32-bit range, where none of the library's sums
  overflows, so that range is not modelled.

  The parameter that the C source calls \<^verbatim>\<open>length\<close> is written \<open>len\<close>, and the
  local variables \<^verbatim>\<open>curr\<close> and \<^verbatim>\<open>next\<close> of \<^verbatim>\<open>utflite_prev_grapheme\<close> are written
  \<open>cur\<close> and \<open>nxt\<close>; otherwise names are those of the source.

  A \<^verbatim>\<open>const char *\<close> is an address into a flat byte memory; \<^verbatim>\<open>NULL\<close> is the
  address 0, \<^verbatim>\<open>text + offset\<close> is address addition and \<^verbatim>\<open>text[i]\<close> reads the memory
  at \<open>text + i\<close>.  The memory is total, so a read outside the caller's buffer (undefined
  behaviour in C) reads whatever the memory holds there.
\<close>

type_synonym byte = "8 word"
type_synonym addr = int
type_synonym memory = "addr \<Rightarrow> byte"

definition NULL :: addr where
  "NULL = 0"

definition UTFLITE_REPLACEMENT_CHAR :: "32 word" where
  "UTFLITE_REPLACEMENT_CHAR = 0xFFFD"

definition UTFLITE_MAX_BYTES :: int where
  "UTFLITE_MAX_BYTES = 4"

text \<open>\<^verbatim>\<open>struct utflite_unicode_range { uint32_t start; uint32_t end; }\<close>\<close>

record utflite_unicode_range =
  r_start :: "32 word"
  r_end :: "32 word"

text \<open>\<^verbatim>\<open>enum gcb_property\<close>\<close>

datatype gcb_property =
    GCB_OTHER
  | GCB_CR
  | GCB_LF
  | GCB_CONTROL
  | GCB_EXTEND
  | GCB_ZWJ
  | GCB_REGIONAL_INDICATOR
  | GCB_PREPEND
  | GCB_SPACING_MARK
  | GCB_L
  | GCB_V
  | GCB_T
  | GCB_LV
  | GCB_LVT

definition HANGUL_SBASE :: "32 word" where
  "HANGUL_SBASE = 0xAC00"

definition HANGUL_SEND :: "32 word" where
  "HANGUL_SEND = 0xD7A3"

definition HANGUL_TCOUNT :: "32 word" where
  "HANGUL_TCOUNT = 28"

definition GRAPHEME_MAX_BACKTRACK :: int where
  "GRAPHEME_MAX_BACKTRACK = 128"

text \<open>\<^verbatim>\<open>struct gcb_range { uint32_t start; uint32_t end; uint8_t property; }\<close>; the
  property byte always holds a value of the enum, which the table stores directly.\<close>

record gcb_range =
  g_start :: "32 word"
  g_end :: "32 word"
  g_property :: gcb_property

section \<open>Unicode property tables\<close>

definition ZERO_WIDTH_RANGES :: "utflite_unicode_range list" where
  "ZERO_WIDTH_RANGES =
    [
     \<lparr>r_start = 0x0300, r_end = 0x036F\<rparr>, \<lparr>r_start = 0x0483, r_end = 0x0489\<rparr>,
     \<lparr>r_start = 0x0591, r_end = 0x05BD\<rparr>, \<lparr>r_start = 0x05BF, r_end = 0x05BF\<rparr>,
     \<lparr>r_start = 0x05C1, r_end = 0x05C2\<rparr>, \<lparr>r_start = 0x05C4, r_end = 0x05C5\<rparr>,
     \<lparr>r_start = 0x05C7, r_end = 0x05C7\<rparr>, \<lparr>r_start = 0x0600, r_end = 0x0605\<rparr>,
     \<lparr>r_start = 0x0610, r_end = 0x061A\<rparr>, \<lparr>r_start = 0x061C, r_end = 0x061C\<rparr>,
     \<lparr>r_start = 0x064B, r_end = 0x065F\<rparr>, \<lparr>r_start = 0x0670, r_end = 0x0670\<rparr>,
     \<lparr>r_start = 0x06D6, r_end = 0x06DD\<rparr>, \<lparr>r_start = 0x06DF, r_end = 0x06E4\<rparr>,
     \<lparr>r_start = 0x06E7, r_end = 0x06E8\<rparr>, \<lparr>r_start = 0x06EA, r_end = 0x06ED\<rparr>,
     \<lparr>r_start = 0x070F, r_end = 0x070F\<rparr>, \<lparr>r_start = 0x0711, r_end = 0x0711\<rparr>,
     \<lparr>r_start = 0x0730, r_end = 0x074A\<rparr>, \<lparr>r_start = 0x07A6, r_end = 0x07B0\<rparr>,
     \<lparr>r_start = 0x07EB, r_end = 0x07F3\<rparr>, \<lparr>r_start = 0x07FD, r_end = 0x07FD\<rparr>,
     \<lparr>r_start = 0x0816, r_end = 0x0819\<rparr>, \<lparr>r_start = 0x081B, r_end = 0x0823\<rparr>,
     \<lparr>r_start = 0x0825, r_end = 0x0827\<rparr>, \<lparr>r_start = 0x0829, r_end = 0x082D\<rparr>,
     \<lparr>r_start = 0x0859, r_end = 0x085B\<rparr>, \<lparr>r_start = 0x0890, r_end = 0x0891\<rparr>,
     \<lparr>r_start = 0x0897, r_end = 0x089F\<rparr>, \<lparr>r_start = 0x08CA, r_end = 0x0902\<rparr>,
     \<lparr>r_start = 0x093A, r_end = 0x093A\<rparr>, \<lparr>r_start = 0x093C, r_end = 0x093C\<rparr>,
     \<lparr>r_start = 0x0941, r_end = 0x0948\<rparr>, \<lparr>r_start = 0x094D, r_end = 0x094D\<rparr>,
     \<lparr>r_start = 0x0951, r_end = 0x0957\<rparr>, \<lparr>r_start = 0x0962, r_end = 0x0963\<rparr>,
     \<lparr>r_start = 0x0981, r_end = 0x0981\<rparr>, \<lparr>r_start = 0x09BC, r_end = 0x09BC\<rparr>,
     \<lparr>r_start = 0x09C1, r_end = 0x09C4\<rparr>, \<lparr>r_start = 0x09CD, r_end = 0x09CD\<rparr>,
     \<lparr>r_start = 0x09E2, r_end = 0x09E3\<rparr>, \<lparr>r_start = 0x09FE, r_end = 0x09FE\<rparr>,
     \<lparr>r_start = 0x0A01, r_end = 0x0A02\<rparr>, \<lparr>r_start = 0x0A3C, r_end = 0x0A3C\<rparr>,
     \<lparr>r_start = 0x0A41, r_end = 0x0A42\<rparr>, \<lparr>r_start = 0x0A47, r_end = 0x0A48\<rparr>,
     \<lparr>r_start = 0x0A4B, r_end = 0x0A4D\<rparr>, \<lparr>r_start = 0x0A51, r_end = 0x0A51\<rparr>,
     \<lparr>r_start = 0x0A70, r_end = 0x0A71\<rparr>, \<lparr>r_start = 0x0A75, r_end = 0x0A75\<rparr>,
     \<lparr>r_start = 0x0A81, r_end = 0x0A82\<rparr>, \<lparr>r_start = 0x0ABC, r_end = 0x0ABC\<rparr>,
     \<lparr>r_start = 0x0AC1, r_end = 0x0AC5\<rparr>, \<lparr>r_start = 0x0AC7, r_end = 0x0AC8\<rparr>,
     \<lparr>r_start = 0x0ACD, r_end = 0x0ACD\<rparr>, \<lparr>r_start = 0x0AE2, r_end = 0x0AE3\<rparr>,
     \<lparr>r_start = 0x0AFA, r_end = 0x0AFF\<rparr>, \<lparr>r_start = 0x0B01, r_end = 0x0B01\<rparr>,
     \<lparr>r_start = 0x0B3C, r_end = 0x0B3C\<rparr>, \<lparr>r_start = 0x0B3F, r_end = 0x0B3F\<rparr>,
     \<lparr>r_start = 0x0B41, r_end = 0x0B44\<rparr>, \<lparr>r_start = 0x0B4D, r_end = 0x0B4D\<rparr>,
     \<lparr>r_start = 0x0B55, r_end = 0x0B56\<rparr>, \<lparr>r_start = 0x0B62, r_end = 0x0B63\<rparr>,
     \<lparr>r_start = 0x0B82, r_end = 0x0B82\<rparr>, \<lparr>r_start = 0x0BC0, r_end = 0x0BC0\<rparr>,
     \<lparr>r_start = 0x0BCD, r_end = 0x0BCD\<rparr>, \<lparr>r_start = 0x0C00, r_end = 0x0C00\<rparr>,
     \<lparr>r_start = 0x0C04, r_end = 0x0C04\<rparr>, \<lparr>r_start = 0x0C3C, r_end = 0x0C3C\<rparr>,
     \<lparr>r_start = 0x0C3E, r_end = 0x0C40\<rparr>, \<lparr>r_start = 0x0C46, r_end = 0x0C48\<rparr>,
     \<lparr>r_start = 0x0C4A, r_end = 0x0C4D\<rparr>, \<lparr>r_start = 0x0C55, r_end = 0x0C56\<rparr>,
     \<lparr>r_start = 0x0C62, r_end = 0x0C63\<rparr>, \<lparr>r_start = 0x0C81, r_end = 0x0C81\<rparr>,
     \<lparr>r_start = 0x0CBC, r_end = 0x0CBC\<rparr>, \<lparr>r_start = 0x0CBF, r_end = 0x0CBF\<rparr>,
     \<lparr>r_start = 0x0CC6, r_end = 0x0CC6\<rparr>, \<lparr>r_start = 0x0CCC, r_end = 0x0CCD\<rparr>,
     \<lparr>r_start = 0x0CE2, r_end = 0x0CE3\<rparr>, \<lparr>r_start = 0x0D00, r_end = 0x0D01\<rparr>,
     \<lparr>r_start = 0x0D3B, r_end = 0x0D3C\<rparr>, \<lparr>r_start = 0x0D41, r_end = 0x0D44\<rparr>,
     \<lparr>r_start = 0x0D4D, r_end = 0x0D4D\<rparr>, \<lparr>r_start = 0x0D62, r_end = 0x0D63\<rparr>,
     \<lparr>r_start = 0x0D81, r_end = 0x0D81\<rparr>, \<lparr>r_start = 0x0DCA, r_end = 0x0DCA\<rparr>,
     \<lparr>r_start = 0x0DD2, r_end = 0x0DD4\<rparr>, \<lparr>r_start = 0x0DD6, r_end = 0x0DD6\<rparr>,
     \<lparr>r_start = 0x0E31, r_end = 0x0E31\<rparr>, \<lparr>r_start = 0x0E34, r_end = 0x0E3A\<rparr>,
     \<lparr>r_start = 0x0E47, r_end = 0x0E4E\<rparr>, \<lparr>r_start = 0x0EB1, r_end = 0x0EB1\<rparr>,
     \<lparr>r_start = 0x0EB4, r_end = 0x0EBC\<rparr>, \<lparr>r_start = 0x0EC8, r_end = 0x0ECE\<rparr>,
     \<lparr>r_start = 0x0F18, r_end = 0x0F19\<rparr>, \<lparr>r_start = 0x0F35, r_end = 0x0F35\<rparr>,
     \<lparr>r_start = 0x0F37, r_end = 0x0F37\<rparr>, \<lparr>r_start = 0x0F39, r_end = 0x0F39\<rparr>,
     \<lparr>r_start = 0x0F71, r_end = 0x0F7E\<rparr>, \<lparr>r_start = 0x0F80, r_end = 0x0F84\<rparr>,
     \<lparr>r_start = 0x0F86, r_end = 0x0F87\<rparr>, \<lparr>r_start = 0x0F8D, r_end = 0x0F97\<rparr>,
     \<lparr>r_start = 0x0F99, r_end = 0x0FBC\<rparr>, \<lparr>r_start = 0x0FC6, r_end = 0x0FC6\<rparr>,
     \<lparr>r_start = 0x102D, r_end = 0x1030\<rparr>, \<lparr>r_start = 0x1032, r_end = 0x1037\<rparr>,
     \<lparr>r_start = 0x1039, r_end = 0x103A\<rparr>, \<lparr>r_start = 0x103D, r_end = 0x103E\<rparr>,
     \<lparr>r_start = 0x1058, r_end = 0x1059\<rparr>, \<lparr>r_start = 0x105E, r_end = 0x1060\<rparr>,
     \<lparr>r_start = 0x1071, r_end = 0x1074\<rparr>, \<lparr>r_start = 0x1082, r_end = 0x1082\<rparr>,
     \<lparr>r_start = 0x1085, r_end = 0x1086\<rparr>, \<lparr>r_start = 0x108D, r_end = 0x108D\<rparr>,
     \<lparr>r_start = 0x109D, r_end = 0x109D\<rparr>, \<lparr>r_start = 0x135D, r_end = 0x135F\<rparr>,
     \<lparr>r_start = 0x1712, r_end = 0x1714\<rparr>, \<lparr>r_start = 0x1732, r_end = 0x1733\<rparr>,
     \<lparr>r_start = 0x1752, r_end = 0x1753\<rparr>, \<lparr>r_start = 0x1772, r_end = 0x1773\<rparr>,
     \<lparr>r_start = 0x17B4, r_end = 0x17B5\<rparr>, \<lparr>r_start = 0x17B7, r_end = 0x17BD\<rparr>,
     \<lparr>r_start = 0x17C6, r_end = 0x17C6\<rparr>, \<lparr>r_start = 0x17C9, r_end = 0x17D3\<rparr>,
     \<lparr>r_start = 0x17DD, r_end = 0x17DD\<rparr>, \<lparr>r_start = 0x180B, r_end = 0x180F\<rparr>,
     \<lparr>r_start = 0x1885, r_end = 0x1886\<rparr>, \<lparr>r_start = 0x18A9, r_end = 0x18A9\<rparr>,
     \<lparr>r_start = 0x1920, r_end = 0x1922\<rparr>, \<lparr>r_start = 0x1927, r_end = 0x1928\<rparr>,
     \<lparr>r_start = 0x1932, r_end = 0x1932\<rparr>, \<lparr>r_start = 0x1939, r_end = 0x193B\<rparr>,
     \<lparr>r_start = 0x1A17, r_end = 0x1A18\<rparr>, \<lparr>r_start = 0x1A1B, r_end = 0x1A1B\<rparr>,
     \<lparr>r_start = 0x1A56, r_end = 0x1A56\<rparr>, \<lparr>r_start = 0x1A58, r_end = 0x1A5E\<rparr>,
     \<lparr>r_start = 0x1A60, r_end = 0x1A60\<rparr>, \<lparr>r_start = 0x1A62, r_end = 0x1A62\<rparr>,
     \<lparr>r_start = 0x1A65, r_end = 0x1A6C\<rparr>, \<lparr>r_start = 0x1A73, r_end = 0x1A7C\<rparr>,
     \<lparr>r_start = 0x1A7F, r_end = 0x1A7F\<rparr>, \<lparr>r_start = 0x1AB0, r_end = 0x1ADD\<rparr>,
     \<lparr>r_start = 0x1AE0, r_end = 0x1AEB\<rparr>, \<lparr>r_start = 0x1B00, r_end = 0x1B03\<rparr>,
     \<lparr>r_start = 0x1B34, r_end = 0x1B34\<rparr>, \<lparr>r_start = 0x1B36, r_end = 0x1B3A\<rparr>,
     \<lparr>r_start = 0x1B3C, r_end = 0x1B3C\<rparr>, \<lparr>r_start = 0x1B42, r_end = 0x1B42\<rparr>,
     \<lparr>r_start = 0x1B6B, r_end = 0x1B73\<rparr>, \<lparr>r_start = 0x1B80, r_end = 0x1B81\<rparr>,
     \<lparr>r_start = 0x1BA2, r_end = 0x1BA5\<rparr>, \<lparr>r_start = 0x1BA8, r_end = 0x1BA9\<rparr>,
     \<lparr>r_start = 0x1BAB, r_end = 0x1BAD\<rparr>, \<lparr>r_start = 0x1BE6, r_end = 0x1BE6\<rparr>,
     \<lparr>r_start = 0x1BE8, r_end = 0x1BE9\<rparr>, \<lparr>r_start = 0x1BED, r_end = 0x1BED\<rparr>,
     \<lparr>r_start = 0x1BEF, r_end = 0x1BF1\<rparr>, \<lparr>r_start = 0x1C2C, r_end = 0x1C33\<rparr>,
     \<lparr>r_start = 0x1C36, r_end = 0x1C37\<rparr>, \<lparr>r_start = 0x1CD0, r_end = 0x1CD2\<rparr>,
     \<lparr>r_start = 0x1CD4, r_end = 0x1CE0\<rparr>, \<lparr>r_start = 0x1CE2, r_end = 0x1CE8\<rparr>,
     \<lparr>r_start = 0x1CED, r_end = 0x1CED\<rparr>, \<lparr>r_start = 0x1CF4, r_end = 0x1CF4\<rparr>,
     \<lparr>r_start = 0x1CF8, r_end = 0x1CF9\<rparr>, \<lparr>r_start = 0x1DC0, r_end = 0x1DFF\<rparr>,
     \<lparr>r_start = 0x200B, r_end = 0x200F\<rparr>, \<lparr>r_start = 0x202A, r_end = 0x202E\<rparr>,
     \<lparr>r_start = 0x2060, r_end = 0x2064\<rparr>, \<lparr>r_start = 0x2066, r_end = 0x206F\<rparr>,
     \<lparr>r_start = 0x20D0, r_end = 0x20F0\<rparr>, \<lparr>r_start = 0x2CEF, r_end = 0x2CF1\<rparr>,
     \<lparr>r_start = 0x2D7F, r_end = 0x2D7F\<rparr>, \<lparr>r_start = 0x2DE0, r_end = 0x2DFF\<rparr>,
     \<lparr>r_start = 0x302A, r_end = 0x302D\<rparr>, \<lparr>r_start = 0x3099, r_end = 0x309A\<rparr>,
     \<lparr>r_start = 0xA66F, r_end = 0xA672\<rparr>, \<lparr>r_start = 0xA674, r_end = 0xA67D\<rparr>,
     \<lparr>r_start = 0xA69E, r_end = 0xA69F\<rparr>, \<lparr>r_start = 0xA6F0, r_end = 0xA6F1\<rparr>,
     \<lparr>r_start = 0xA802, r_end = 0xA802\<rparr>, \<lparr>r_start = 0xA806, r_end = 0xA806\<rparr>,
     \<lparr>r_start = 0xA80B, r_end = 0xA80B\<rparr>, \<lparr>r_start = 0xA825, r_end = 0xA826\<rparr>,
     \<lparr>r_start = 0xA82C, r_end = 0xA82C\<rparr>, \<lparr>r_start = 0xA8C4, r_end = 0xA8C5\<rparr>,
     \<lparr>r_start = 0xA8E0, r_end = 0xA8F1\<rparr>, \<lparr>r_start = 0xA8FF, r_end = 0xA8FF\<rparr>,
     \<lparr>r_start = 0xA926, r_end = 0xA92D\<rparr>, \<lparr>r_start = 0xA947, r_end = 0xA951\<rparr>,
     \<lparr>r_start = 0xA980, r_end = 0xA982\<rparr>, \<lparr>r_start = 0xA9B3, r_end = 0xA9B3\<rparr>,
     \<lparr>r_start = 0xA9B6, r_end = 0xA9B9\<rparr>, \<lparr>r_start = 0xA9BC, r_end = 0xA9BD\<rparr>,
     \<lparr>r_start = 0xA9E5, r_end = 0xA9E5\<rparr>, \<lparr>r_start = 0xAA29, r_end = 0xAA2E\<rparr>,
     \<lparr>r_start = 0xAA31, r_end = 0xAA32\<rparr>, \<lparr>r_start = 0xAA35, r_end = 0xAA36\<rparr>,
     \<lparr>r_start = 0xAA43, r_end = 0xAA43\<rparr>, \<lparr>r_start = 0xAA4C, r_end = 0xAA4C\<rparr>,
     \<lparr>r_start = 0xAA7C, r_end = 0xAA7C\<rparr>, \<lparr>r_start = 0xAAB0, r_end = 0xAAB0\<rparr>,
     \<lparr>r_start = 0xAAB2, r_end = 0xAAB4\<rparr>, \<lparr>r_start = 0xAAB7, r_end = 0xAAB8\<rparr>,
     \<lparr>r_start = 0xAABE, r_end = 0xAABF\<rparr>, \<lparr>r_start = 0xAAC1, r_end = 0xAAC1\<rparr>,
     \<lparr>r_start = 0xAAEC, r_end = 0xAAED\<rparr>, \<lparr>r_start = 0xAAF6, r_end = 0xAAF6\<rparr>,
     \<lparr>r_start = 0xABE5, r_end = 0xABE5\<rparr>, \<lparr>r_start = 0xABE8, r_end = 0xABE8\<rparr>,
     \<lparr>r_start = 0xABED, r_end = 0xABED\<rparr>, \<lparr>r_start = 0xFB1E, r_end = 0xFB1E\<rparr>,
     \<lparr>r_start = 0xFE00, r_end = 0xFE0F\<rparr>, \<lparr>r_start = 0xFE20, r_end = 0xFE2F\<rparr>,
     \<lparr>r_start = 0xFEFF, r_end = 0xFEFF\<rparr>, \<lparr>r_start = 0xFFF9, r_end = 0xFFFB\<rparr>,
     \<lparr>r_start = 0x101FD, r_end = 0x101FD\<rparr>, \<lparr>r_start = 0x102E0, r_end = 0x102E0\<rparr>,
     \<lparr>r_start = 0x10376, r_end = 0x1037A\<rparr>, \<lparr>r_start = 0x10A01, r_end = 0x10A03\<rparr>,
     \<lparr>r_start = 0x10A05, r_end = 0x10A06\<rparr>, \<lparr>r_start = 0x10A0C, r_end = 0x10A0F\<rparr>,
     \<lparr>r_start = 0x10A38, r_end = 0x10A3A\<rparr>, \<lparr>r_start = 0x10A3F, r_end = 0x10A3F\<rparr>,
     \<lparr>r_start = 0x10AE5, r_end = 0x10AE6\<rparr>, \<lparr>r_start = 0x10D24, r_end = 0x10D27\<rparr>,
     \<lparr>r_start = 0x10D69, r_end = 0x10D6D\<rparr>, \<lparr>r_start = 0x10EAB, r_end = 0x10EAC\<rparr>,
     \<lparr>r_start = 0x10EFA, r_end = 0x10EFF\<rparr>, \<lparr>r_start = 0x10F46, r_end = 0x10F50\<rparr>,
     \<lparr>r_start = 0x10F82, r_end = 0x10F85\<rparr>, \<lparr>r_start = 0x11001, r_end = 0x11001\<rparr>,
     \<lparr>r_start = 0x11038, r_end = 0x11046\<rparr>, \<lparr>r_start = 0x11070, r_end = 0x11070\<rparr>,
     \<lparr>r_start = 0x11073, r_end = 0x11074\<rparr>, \<lparr>r_start = 0x1107F, r_end = 0x11081\<rparr>,
     \<lparr>r_start = 0x110B3, r_end = 0x110B6\<rparr>, \<lparr>r_start = 0x110B9, r_end = 0x110BA\<rparr>,
     \<lparr>r_start = 0x110BD, r_end = 0x110BD\<rparr>, \<lparr>r_start = 0x110C2, r_end = 0x110C2\<rparr>,
     \<lparr>r_start = 0x110CD, r_end = 0x110CD\<rparr>, \<lparr>r_start = 0x11100, r_end = 0x11102\<rparr>,
     \<lparr>r_start = 0x11127, r_end = 0x1112B\<rparr>, \<lparr>r_start = 0x1112D, r_end = 0x11134\<rparr>,
     \<lparr>r_start = 0x11173, r_end = 0x11173\<rparr>, \<lparr>r_start = 0x11180, r_end = 0x11181\<rparr>,
     \<lparr>r_start = 0x111B6, r_end = 0x111BE\<rparr>, \<lparr>r_start = 0x111C9, r_end = 0x111CC\<rparr>,
     \<lparr>r_start = 0x111CF, r_end = 0x111CF\<rparr>, \<lparr>r_start = 0x1122F, r_end = 0x11231\<rparr>,
     \<lparr>r_start = 0x11234, r_end = 0x11234\<rparr>, \<lparr>r_start = 0x11236, r_end = 0x11237\<rparr>,
     \<lparr>r_start = 0x1123E, r_end = 0x1123E\<rparr>, \<lparr>r_start = 0x11241, r_end = 0x11241\<rparr>,
     \<lparr>r_start = 0x112DF, r_end = 0x112DF\<rparr>, \<lparr>r_start = 0x112E3, r_end = 0x112EA\<rparr>,
     \<lparr>r_start = 0x11300, r_end = 0x11301\<rparr>, \<lparr>r_start = 0x1133B, r_end = 0x1133C\<rparr>,
     \<lparr>r_start = 0x11340, r_end = 0x11340\<rparr>, \<lparr>r_start = 0x11366, r_end = 0x1136C\<rparr>,
     \<lparr>r_start = 0x11370, r_end = 0x11374\<rparr>, \<lparr>r_start = 0x113BB, r_end = 0x113C0\<rparr>,
     \<lparr>r_start = 0x113CE, r_end = 0x113CE\<rparr>, \<lparr>r_start = 0x113D0, r_end = 0x113D0\<rparr>,
     \<lparr>r_start = 0x113D2, r_end = 0x113D2\<rparr>, \<lparr>r_start = 0x113E1, r_end = 0x113E2\<rparr>,
     \<lparr>r_start = 0x11438, r_end = 0x1143F\<rparr>, \<lparr>r_start = 0x11442, r_end = 0x11444\<rparr>,
     \<lparr>r_start = 0x11446, r_end = 0x11446\<rparr>, \<lparr>r_start = 0x1145E, r_end = 0x1145E\<rparr>,
     \<lparr>r_start = 0x114B3, r_end = 0x114B8\<rparr>, \<lparr>r_start = 0x114BA, r_end = 0x114BA\<rparr>,
     \<lparr>r_start = 0x114BF, r_end = 0x114C0\<rparr>, \<lparr>r_start = 0x114C2, r_end = 0x114C3\<rparr>,
     \<lparr>r_start = 0x115B2, r_end = 0x115B5\<rparr>, \<lparr>r_start = 0x115BC, r_end = 0x115BD\<rparr>,
     \<lparr>r_start = 0x115BF, r_end = 0x115C0\<rparr>, \<lparr>r_start = 0x115DC, r_end = 0x115DD\<rparr>,
     \<lparr>r_start = 0x11633, r_end = 0x1163A\<rparr>, \<lparr>r_start = 0x1163D, r_end = 0x1163D\<rparr>,
     \<lparr>r_start = 0x1163F, r_end = 0x11640\<rparr>, \<lparr>r_start = 0x116AB, r_end = 0x116AB\<rparr>,
     \<lparr>r_start = 0x116AD, r_end = 0x116AD\<rparr>, \<lparr>r_start = 0x116B0, r_end = 0x116B5\<rparr>,
     \<lparr>r_start = 0x116B7, r_end = 0x116B7\<rparr>, \<lparr>r_start = 0x1171D, r_end = 0x1171D\<rparr>,
     \<lparr>r_start = 0x1171F, r_end = 0x1171F\<rparr>, \<lparr>r_start = 0x11722, r_end = 0x11725\<rparr>,
     \<lparr>r_start = 0x11727, r_end = 0x1172B\<rparr>, \<lparr>r_start = 0x1182F, r_end = 0x11837\<rparr>,
     \<lparr>r_start = 0x11839, r_end = 0x1183A\<rparr>, \<lparr>r_start = 0x1193B, r_end = 0x1193C\<rparr>,
     \<lparr>r_start = 0x1193E, r_end = 0x1193E\<rparr>, \<lparr>r_start = 0x11943, r_end = 0x11943\<rparr>,
     \<lparr>r_start = 0x119D4, r_end = 0x119D7\<rparr>, \<lparr>r_start = 0x119DA, r_end = 0x119DB\<rparr>,
     \<lparr>r_start = 0x119E0, r_end = 0x119E0\<rparr>, \<lparr>r_start = 0x11A01, r_end = 0x11A0A\<rparr>,
     \<lparr>r_start = 0x11A33, r_end = 0x11A38\<rparr>, \<lparr>r_start = 0x11A3B, r_end = 0x11A3E\<rparr>,
     \<lparr>r_start = 0x11A47, r_end = 0x11A47\<rparr>, \<lparr>r_start = 0x11A51, r_end = 0x11A56\<rparr>,
     \<lparr>r_start = 0x11A59, r_end = 0x11A5B\<rparr>, \<lparr>r_start = 0x11A8A, r_end = 0x11A96\<rparr>,
     \<lparr>r_start = 0x11A98, r_end = 0x11A99\<rparr>, \<lparr>r_start = 0x11B60, r_end = 0x11B60\<rparr>,
     \<lparr>r_start = 0x11B62, r_end = 0x11B64\<rparr>, \<lparr>r_start = 0x11B66, r_end = 0x11B66\<rparr>,
     \<lparr>r_start = 0x11C30, r_end = 0x11C36\<rparr>, \<lparr>r_start = 0x11C38, r_end = 0x11C3D\<rparr>,
     \<lparr>r_start = 0x11C3F, r_end = 0x11C3F\<rparr>, \<lparr>r_start = 0x11C92, r_end = 0x11CA7\<rparr>,
     \<lparr>r_start = 0x11CAA, r_end = 0x11CB0\<rparr>, \<lparr>r_start = 0x11CB2, r_end = 0x11CB3\<rparr>,
     \<lparr>r_start = 0x11CB5, r_end = 0x11CB6\<rparr>, \<lparr>r_start = 0x11D31, r_end = 0x11D36\<rparr>,
     \<lparr>r_start = 0x11D3A, r_end = 0x11D3A\<rparr>, \<lparr>r_start = 0x11D3C, r_end = 0x11D3D\<rparr>,
     \<lparr>r_start = 0x11D3F, r_end = 0x11D45\<rparr>, \<lparr>r_start = 0x11D47, r_end = 0x11D47\<rparr>,
     \<lparr>r_start = 0x11D90, r_end = 0x11D91\<rparr>, \<lparr>r_start = 0x11D95, r_end = 0x11D95\<rparr>,
     \<lparr>r_start = 0x11D97, r_end = 0x11D97\<rparr>, \<lparr>r_start = 0x11EF3, r_end = 0x11EF4\<rparr>,
     \<lparr>r_start = 0x11F00, r_end = 0x11F01\<rparr>, \<lparr>r_start = 0x11F36, r_end = 0x11F3A\<rparr>,
     \<lparr>r_start = 0x11F40, r_end = 0x11F40\<rparr>, \<lparr>r_start = 0x11F42, r_end = 0x11F42\<rparr>,
     \<lparr>r_start = 0x11F5A, r_end = 0x11F5A\<rparr>, \<lparr>r_start = 0x13430, r_end = 0x13440\<rparr>,
     \<lparr>r_start = 0x13447, r_end = 0x13455\<rparr>, \<lparr>r_start = 0x1611E, r_end = 0x16129\<rparr>,
     \<lparr>r_start = 0x1612D, r_end = 0x1612F\<rparr>, \<lparr>r_start = 0x16AF0, r_end = 0x16AF4\<rparr>,
     \<lparr>r_start = 0x16B30, r_end = 0x16B36\<rparr>, \<lparr>r_start = 0x16F4F, r_end = 0x16F4F\<rparr>,
     \<lparr>r_start = 0x16F8F, r_end = 0x16F92\<rparr>, \<lparr>r_start = 0x16FE4, r_end = 0x16FE4\<rparr>,
     \<lparr>r_start = 0x1BC9D, r_end = 0x1BC9E\<rparr>, \<lparr>r_start = 0x1BCA0, r_end = 0x1BCA3\<rparr>,
     \<lparr>r_start = 0x1CF00, r_end = 0x1CF2D\<rparr>, \<lparr>r_start = 0x1CF30, r_end = 0x1CF46\<rparr>,
     \<lparr>r_start = 0x1D167, r_end = 0x1D169\<rparr>, \<lparr>r_start = 0x1D173, r_end = 0x1D182\<rparr>,
     \<lparr>r_start = 0x1D185, r_end = 0x1D18B\<rparr>, \<lparr>r_start = 0x1D1AA, r_end = 0x1D1AD\<rparr>,
     \<lparr>r_start = 0x1D242, r_end = 0x1D244\<rparr>, \<lparr>r_start = 0x1DA00, r_end = 0x1DA36\<rparr>,
     \<lparr>r_start = 0x1DA3B, r_end = 0x1DA6C\<rparr>, \<lparr>r_start = 0x1DA75, r_end = 0x1DA75\<rparr>,
     \<lparr>r_start = 0x1DA84, r_end = 0x1DA84\<rparr>, \<lparr>r_start = 0x1DA9B, r_end = 0x1DA9F\<rparr>,
     \<lparr>r_start = 0x1DAA1, r_end = 0x1DAAF\<rparr>, \<lparr>r_start = 0x1E000, r_end = 0x1E006\<rparr>,
     \<lparr>r_start = 0x1E008, r_end = 0x1E018\<rparr>, \<lparr>r_start = 0x1E01B, r_end = 0x1E021\<rparr>,
     \<lparr>r_start = 0x1E023, r_end = 0x1E024\<rparr>, \<lparr>r_start = 0x1E026, r_end = 0x1E02A\<rparr>,
     \<lparr>r_start = 0x1E08F, r_end = 0x1E08F\<rparr>, \<lparr>r_start = 0x1E130, r_end = 0x1E136\<rparr>,
     \<lparr>r_start = 0x1E2AE, r_end = 0x1E2AE\<rparr>, \<lparr>r_start = 0x1E2EC, r_end = 0x1E2EF\<rparr>,
     \<lparr>r_start = 0x1E4EC, r_end = 0x1E4EF\<rparr>, \<lparr>r_start = 0x1E5EE, r_end = 0x1E5EF\<rparr>,
     \<lparr>r_start = 0x1E6E3, r_end = 0x1E6E3\<rparr>, \<lparr>r_start = 0x1E6E6, r_end = 0x1E6E6\<rparr>,
     \<lparr>r_start = 0x1E6EE, r_end = 0x1E6EF\<rparr>, \<lparr>r_start = 0x1E6F5, r_end = 0x1E6F5\<rparr>,
     \<lparr>r_start = 0x1E8D0, r_end = 0x1E8D6\<rparr>, \<lparr>r_start = 0x1E944, r_end = 0x1E94A\<rparr>,
     \<lparr>r_start = 0xE0001, r_end = 0xE0001\<rparr>, \<lparr>r_start = 0xE0020, r_end = 0xE007F\<rparr>,
     \<lparr>r_start = 0xE0100, r_end = 0xE01EF\<rparr>
    ]"

definition DOUBLE_WIDTH_RANGES :: "utflite_unicode_range list" where
  "DOUBLE_WIDTH_RANGES =
    [
     \<lparr>r_start = 0x00A9, r_end = 0x00A9\<rparr>, \<lparr>r_start = 0x00AE, r_end = 0x00AE\<rparr>,
     \<lparr>r_start = 0x1100, r_end = 0x115F\<rparr>, \<lparr>r_start = 0x203C, r_end = 0x203C\<rparr>,
     \<lparr>r_start = 0x2049, r_end = 0x2049\<rparr>, \<lparr>r_start = 0x2122, r_end = 0x2122\<rparr>,
     \<lparr>r_start = 0x2139, r_end = 0x2139\<rparr>, \<lparr>r_start = 0x2194, r_end = 0x2199\<rparr>,
     \<lparr>r_start = 0x21A9, r_end = 0x21AA\<rparr>, \<lparr>r_start = 0x231A, r_end = 0x231B\<rparr>,
     \<lparr>r_start = 0x2328, r_end = 0x232A\<rparr>, \<lparr>r_start = 0x23CF, r_end = 0x23CF\<rparr>,
     \<lparr>r_start = 0x23E9, r_end = 0x23F3\<rparr>, \<lparr>r_start = 0x23F8, r_end = 0x23FA\<rparr>,
     \<lparr>r_start = 0x24C2, r_end = 0x24C2\<rparr>, \<lparr>r_start = 0x25AA, r_end = 0x25AB\<rparr>,
     \<lparr>r_start = 0x25B6, r_end = 0x25B6\<rparr>, \<lparr>r_start = 0x25C0, r_end = 0x25C0\<rparr>,
     \<lparr>r_start = 0x25FB, r_end = 0x25FE\<rparr>, \<lparr>r_start = 0x2600, r_end = 0x2604\<rparr>,
     \<lparr>r_start = 0x260E, r_end = 0x260E\<rparr>, \<lparr>r_start = 0x2611, r_end = 0x2611\<rparr>,
     \<lparr>r_start = 0x2614, r_end = 0x2615\<rparr>, \<lparr>r_start = 0x2618, r_end = 0x2618\<rparr>,
     \<lparr>r_start = 0x261D, r_end = 0x261D\<rparr>, \<lparr>r_start = 0x2620, r_end = 0x2620\<rparr>,
     \<lparr>r_start = 0x2622, r_end = 0x2623\<rparr>, \<lparr>r_start = 0x2626, r_end = 0x2626\<rparr>,
     \<lparr>r_start = 0x262A, r_end = 0x262A\<rparr>, \<lparr>r_start = 0x262E, r_end = 0x263A\<rparr>,
     \<lparr>r_start = 0x2640, r_end = 0x2640\<rparr>, \<lparr>r_start = 0x2642, r_end = 0x2642\<rparr>,
     \<lparr>r_start = 0x2648, r_end = 0x2653\<rparr>, \<lparr>r_start = 0x265F, r_end = 0x2660\<rparr>,
     \<lparr>r_start = 0x2663, r_end = 0x2663\<rparr>, \<lparr>r_start = 0x2665, r_end = 0x2666\<rparr>,
     \<lparr>r_start = 0x2668, r_end = 0x2668\<rparr>, \<lparr>r_start = 0x267B, r_end = 0x267B\<rparr>,
     \<lparr>r_start = 0x267E, r_end = 0x267F\<rparr>, \<lparr>r_start = 0x268A, r_end = 0x268F\<rparr>,
     \<lparr>r_start = 0x2692, r_end = 0x2697\<rparr>, \<lparr>r_start = 0x2699, r_end = 0x2699\<rparr>,
     \<lparr>r_start = 0x269B, r_end = 0x269C\<rparr>, \<lparr>r_start = 0x26A0, r_end = 0x26A1\<rparr>,
     \<lparr>r_start = 0x26A7, r_end = 0x26A7\<rparr>, \<lparr>r_start = 0x26AA, r_end = 0x26AB\<rparr>,
     \<lparr>r_start = 0x26B0, r_end = 0x26B1\<rparr>, \<lparr>r_start = 0x26BD, r_end = 0x26BE\<rparr>,
     \<lparr>r_start = 0x26C4, r_end = 0x26C5\<rparr>, \<lparr>r_start = 0x26C8, r_end = 0x26C8\<rparr>,
     \<lparr>r_start = 0x26CE, r_end = 0x26CF\<rparr>, \<lparr>r_start = 0x26D1, r_end = 0x26D1\<rparr>,
     \<lparr>r_start = 0x26D3, r_end = 0x26D4\<rparr>, \<lparr>r_start = 0x26E9, r_end = 0x26EA\<rparr>,
     \<lparr>r_start = 0x26F0, r_end = 0x26F5\<rparr>, \<lparr>r_start = 0x26F7, r_end = 0x26FA\<rparr>,
     \<lparr>r_start = 0x26FD, r_end = 0x26FD\<rparr>, \<lparr>r_start = 0x2702, r_end = 0x2702\<rparr>,
     \<lparr>r_start = 0x2705, r_end = 0x2705\<rparr>, \<lparr>r_start = 0x2708, r_end = 0x270D\<rparr>,
     \<lparr>r_start = 0x270F, r_end = 0x270F\<rparr>, \<lparr>r_start = 0x2712, r_end = 0x2712\<rparr>,
     \<lparr>r_start = 0x2714, r_end = 0x2714\<rparr>, \<lparr>r_start = 0x2716, r_end = 0x2716\<rparr>,
     \<lparr>r_start = 0x271D, r_end = 0x271D\<rparr>, \<lparr>r_start = 0x2721, r_end = 0x2721\<rparr>,
     \<lparr>r_start = 0x2728, r_end = 0x2728\<rparr>, \<lparr>r_start = 0x2733, r_end = 0x2734\<rparr>,
     \<lparr>r_start = 0x2744, r_end = 0x2744\<rparr>, \<lparr>r_start = 0x2747, r_end = 0x2747\<rparr>,
     \<lparr>r_start = 0x274C, r_end = 0x274C\<rparr>, \<lparr>r_start = 0x274E, r_end = 0x274E\<rparr>,
     \<lparr>r_start = 0x2753, r_end = 0x2755\<rparr>, \<lparr>r_start = 0x2757, r_end = 0x2757\<rparr>,
     \<lparr>r_start = 0x2763, r_end = 0x2764\<rparr>, \<lparr>r_start = 0x2795, r_end = 0x2797\<rparr>,
     \<lparr>r_start = 0x27A1, r_end = 0x27A1\<rparr>, \<lparr>r_start = 0x27B0, r_end = 0x27B0\<rparr>,
     \<lparr>r_start = 0x27BF, r_end = 0x27BF\<rparr>, \<lparr>r_start = 0x2934, r_end = 0x2935\<rparr>,
     \<lparr>r_start = 0x2B05, r_end = 0x2B07\<rparr>, \<lparr>r_start = 0x2B1B, r_end = 0x2B1C\<rparr>,
     \<lparr>r_start = 0x2B50, r_end = 0x2B50\<rparr>, \<lparr>r_start = 0x2B55, r_end = 0x2B55\<rparr>,
     \<lparr>r_start = 0x2E80, r_end = 0x2E99\<rparr>, \<lparr>r_start = 0x2E9B, r_end = 0x2EF3\<rparr>,
     \<lparr>r_start = 0x2F00, r_end = 0x2FD5\<rparr>, \<lparr>r_start = 0x2FF0, r_end = 0x303E\<rparr>,
     \<lparr>r_start = 0x3041, r_end = 0x3096\<rparr>, \<lparr>r_start = 0x3099, r_end = 0x30FF\<rparr>,
     \<lparr>r_start = 0x3105, r_end = 0x312F\<rparr>, \<lparr>r_start = 0x3131, r_end = 0x318E\<rparr>,
     \<lparr>r_start = 0x3190, r_end = 0x31E5\<rparr>, \<lparr>r_start = 0x31EF, r_end = 0x321E\<rparr>,
     \<lparr>r_start = 0x3220, r_end = 0x3247\<rparr>, \<lparr>r_start = 0x3250, r_end = 0xA48C\<rparr>,
     \<lparr>r_start = 0xA490, r_end = 0xA4C6\<rparr>, \<lparr>r_start = 0xA960, r_end = 0xA97C\<rparr>,
     \<lparr>r_start = 0xAC00, r_end = 0xD7A3\<rparr>, \<lparr>r_start = 0xF900, r_end = 0xFAFF\<rparr>,
     \<lparr>r_start = 0xFE10, r_end = 0xFE19\<rparr>, \<lparr>r_start = 0xFE30, r_end = 0xFE52\<rparr>,
     \<lparr>r_start = 0xFE54, r_end = 0xFE66\<rparr>, \<lparr>r_start = 0xFE68, r_end = 0xFE6B\<rparr>,
     \<lparr>r_start = 0xFF01, r_end = 0xFF60\<rparr>, \<lparr>r_start = 0xFFE0, r_end = 0xFFE6\<rparr>,
     \<lparr>r_start = 0x16FE0, r_end = 0x16FE4\<rparr>, \<lparr>r_start = 0x16FF0, r_end = 0x16FF6\<rparr>,
     \<lparr>r_start = 0x17000, r_end = 0x18CD5\<rparr>, \<lparr>r_start = 0x18CFF, r_end = 0x18D1E\<rparr>,
     \<lparr>r_start = 0x18D80, r_end = 0x18DF2\<rparr>, \<lparr>r_start = 0x1AFF0, r_end = 0x1AFF3\<rparr>,
     \<lparr>r_start = 0x1AFF5, r_end = 0x1AFFB\<rparr>, \<lparr>r_start = 0x1AFFD, r_end = 0x1AFFE\<rparr>,
     \<lparr>r_start = 0x1B000, r_end = 0x1B122\<rparr>, \<lparr>r_start = 0x1B132, r_end = 0x1B132\<rparr>,
     \<lparr>r_start = 0x1B150, r_end = 0x1B152\<rparr>, \<lparr>r_start = 0x1B155, r_end = 0x1B155\<rparr>,
     \<lparr>r_start = 0x1B164, r_end = 0x1B167\<rparr>, \<lparr>r_start = 0x1B170, r_end = 0x1B2FB\<rparr>,
     \<lparr>r_start = 0x1D300, r_end = 0x1D356\<rparr>, \<lparr>r_start = 0x1D360, r_end = 0x1D376\<rparr>,
     \<lparr>r_start = 0x1F004, r_end = 0x1F004\<rparr>, \<lparr>r_start = 0x1F02C, r_end = 0x1F02F\<rparr>,
     \<lparr>r_start = 0x1F094, r_end = 0x1F09F\<rparr>, \<lparr>r_start = 0x1F0AF, r_end = 0x1F0B0\<rparr>,
     \<lparr>r_start = 0x1F0C0, r_end = 0x1F0C0\<rparr>, \<lparr>r_start = 0x1F0CF, r_end = 0x1F0D0\<rparr>,
     \<lparr>r_start = 0x1F0F6, r_end = 0x1F0FF\<rparr>, \<lparr>r_start = 0x1F170, r_end = 0x1F171\<rparr>,
     \<lparr>r_start = 0x1F17E, r_end = 0x1F17F\<rparr>, \<lparr>r_start = 0x1F18E, r_end = 0x1F18E\<rparr>,
     \<lparr>r_start = 0x1F191, r_end = 0x1F19A\<rparr>, \<lparr>r_start = 0x1F1AE, r_end = 0x1F1E5\<rparr>,
     \<lparr>r_start = 0x1F200, r_end = 0x1F321\<rparr>, \<lparr>r_start = 0x1F324, r_end = 0x1F393\<rparr>,
     \<lparr>r_start = 0x1F396, r_end = 0x1F397\<rparr>, \<lparr>r_start = 0x1F399, r_end = 0x1F39B\<rparr>,
     \<lparr>r_start = 0x1F39E, r_end = 0x1F3F0\<rparr>, \<lparr>r_start = 0x1F3F3, r_end = 0x1F3F5\<rparr>,
     \<lparr>r_start = 0x1F3F7, r_end = 0x1F4FD\<rparr>, \<lparr>r_start = 0x1F4FF, r_end = 0x1F53D\<rparr>,
     \<lparr>r_start = 0x1F549, r_end = 0x1F54E\<rparr>, \<lparr>r_start = 0x1F550, r_end = 0x1F567\<rparr>,
     \<lparr>r_start = 0x1F56F, r_end = 0x1F570\<rparr>, \<lparr>r_start = 0x1F573, r_end = 0x1F57A\<rparr>,
     \<lparr>r_start = 0x1F587, r_end = 0x1F587\<rparr>, \<lparr>r_start = 0x1F58A, r_end = 0x1F58D\<rparr>,
     \<lparr>r_start = 0x1F590, r_end = 0x1F590\<rparr>, \<lparr>r_start = 0x1F595, r_end = 0x1F596\<rparr>,
     \<lparr>r_start = 0x1F5A4, r_end = 0x1F5A5\<rparr>, \<lparr>r_start = 0x1F5A8, r_end = 0x1F5A8\<rparr>,
     \<lparr>r_start = 0x1F5B1, r_end = 0x1F5B2\<rparr>, \<lparr>r_start = 0x1F5BC, r_end = 0x1F5BC\<rparr>,
     \<lparr>r_start = 0x1F5C2, r_end = 0x1F5C4\<rparr>, \<lparr>r_start = 0x1F5D1, r_end = 0x1F5D3\<rparr>,
     \<lparr>r_start = 0x1F5DC, r_end = 0x1F5DE\<rparr>, \<lparr>r_start = 0x1F5E1, r_end = 0x1F5E1\<rparr>,
     \<lparr>r_start = 0x1F5E3, r_end = 0x1F5E3\<rparr>, \<lparr>r_start = 0x1F5E8, r_end = 0x1F5E8\<rparr>,
     \<lparr>r_start = 0x1F5EF, r_end = 0x1F5EF\<rparr>, \<lparr>r_start = 0x1F5F3, r_end = 0x1F5F3\<rparr>,
     \<lparr>r_start = 0x1F5FA, r_end = 0x1F64F\<rparr>, \<lparr>r_start = 0x1F680, r_end = 0x1F6C5\<rparr>,
     \<lparr>r_start = 0x1F6CB, r_end = 0x1F6D2\<rparr>, \<lparr>r_start = 0x1F6D5, r_end = 0x1F6E5\<rparr>,
     \<lparr>r_start = 0x1F6E9, r_end = 0x1F6E9\<rparr>, \<lparr>r_start = 0x1F6EB, r_end = 0x1F6F0\<rparr>,
     \<lparr>r_start = 0x1F6F3, r_end = 0x1F6FF\<rparr>, \<lparr>r_start = 0x1F7DA, r_end = 0x1F7FF\<rparr>,
     \<lparr>r_start = 0x1F80C, r_end = 0x1F80F\<rparr>, \<lparr>r_start = 0x1F848, r_end = 0x1F84F\<rparr>,
     \<lparr>r_start = 0x1F85A, r_end = 0x1F85F\<rparr>, \<lparr>r_start = 0x1F888, r_end = 0x1F88F\<rparr>,
     \<lparr>r_start = 0x1F8AE, r_end = 0x1F8AF\<rparr>, \<lparr>r_start = 0x1F8BC, r_end = 0x1F8BF\<rparr>,
     \<lparr>r_start = 0x1F8C2, r_end = 0x1F8CF\<rparr>, \<lparr>r_start = 0x1F8D9, r_end = 0x1F8FF\<rparr>,
     \<lparr>r_start = 0x1F90C, r_end = 0x1F93A\<rparr>, \<lparr>r_start = 0x1F93C, r_end = 0x1F945\<rparr>,
     \<lparr>r_start = 0x1F947, r_end = 0x1F9FF\<rparr>, \<lparr>r_start = 0x1FA58, r_end = 0x1FA5F\<rparr>,
     \<lparr>r_start = 0x1FA6E, r_end = 0x1FAFF\<rparr>, \<lparr>r_start = 0x1FC00, r_end = 0x1FFFD\<rparr>,
     \<lparr>r_start = 0x20000, r_end = 0x2FFFD\<rparr>, \<lparr>r_start = 0x30000, r_end = 0x3FFFD\<rparr>
    ]"

definition GCB_RANGES :: "gcb_range list" where
  "GCB_RANGES =
    [
     \<lparr>g_start = 0x0000, g_end = 0x0009, g_property = GCB_CONTROL\<rparr>,
     \<lparr>g_start = 0x000A, g_end = 0x000A, g_property = GCB_LF\<rparr>,
     \<lparr>g_start = 0x000B, g_end = 0x000C, g_property = GCB_CONTROL\<rparr>,
     \<lparr>g_start = 0x000D, g_end = 0x000D, g_property = GCB_CR\<rparr>,
     \<lparr>g_start = 0x000E, g_end = 0x001F, g_property = GCB_CONTROL\<rparr>,
     \<lparr>g_start = 0x007F, g_end = 0x009F, g_property = GCB_CONTROL\<rparr>,
     \<lparr>g_start = 0x00AD, g_end = 0x00AD, g_property = GCB_CONTROL\<rparr>,
     \<lparr>g_start = 0x0300, g_end = 0x036F, g_property = GCB_EXTEND\<rparr>,
     \<lparr>g_start = 0x0483, g_end = 0x0489, g_property = GCB_EXTEND\<rparr>,
     \<lparr>g_start = 0x0591, g_end = 0x05BD, g_property = GCB_EXTEND\<rparr>,
     \<lparr>g_start = 0x05BF, g_end = 0x05BF, g_property = GCB_EXTEND\<rparr>,
     \<lparr>g_start = 0x05C1, g_end = 0x05C2, g_property = GCB_EXTEND\<rparr>,
     \<lparr>g_start = 0x05C4, g_end = 0x05C5, g_property = GCB_EXTEND\<rparr>,
     \<lparr>g_start = 0x05C7, g_end = 0x05C7, g_property = GCB_EXTEND\<rparr>,
     \<lparr>g_start = 0x0600, g_end = 0x0605, g_property = GCB_PREPEND\<rparr>,
     \<lparr>g_start = 0x0610, g_end = 0x061A, g_property = GCB_EXTEND\<rparr>,
     \<lparr>g_start = 0x061C, g_end = 0x061C, g_property = GCB_CONTROL\<rparr>,
     \<lparr>g_start = 0x064B, g_end = 0x065F, g_property = GCB_EXTEND\<rparr>,
     \<lparr>g_start = 0x0670, g_end = 0x0670, g_property = GCB_EXTEND\<rparr>,
     \<lparr>g_start = 0x06D6, g_end = 0x06DC, g_property = GCB_EXTEND\<rparr>,
     \<lparr>g_start = 0x06DD, g_end = 0x06DD, g_property = GCB_PREPEND\<rparr>,
     \<lparr>g_start = 0x06DF, g_end = 0x06E4, g_property = GCB_EXTEND\<rparr>,
     \<lparr>g_start = 0x06E7, g_end = 0x06E8, g_property = GCB_EXTEND\<rparr>,
     \<lparr>g_start = 0x06EA, g_end = 0x06ED, g_property = GCB_EXTEND\<rparr>,
     \<lparr>g_start = 0x070F, g_end = 0x070F, g_property = GCB_PREPEND\<rparr>,
     \<lparr>g_start = 0x0711, g_end = 0x0711, g_property = GCB_EXTEND\<rparr>,
     \<lparr>g_start = 0x0730, g_end = 0x074A, g_property = GCB_EXTEND\<rparr>,
     \<lparr>g_start = 0x07A6, g_end = 0x07B0, g_property = GCB_EXTEND\<rparr>,
     \<lparr>g_start = 0x07EB, g_end = 0x07F3, g_property = GCB_EXTEND\<rparr>,
     \<lparr>g_start = 0x07FD, g_end = 0x07FD, g_property = GCB_EXTEND\<rparr>,
     \<lparr>g_start = 0x0816, g_end = 0x0819, g_property = GCB_EXTEND\<rparr>,
     \<lparr>g_start = 0x081B, g_end = 0x0823, g_property = GCB_EXTEND\<rparr>,
     \<lparr>g_start = 0x0825, g_end = 0x0827, g_property = GCB_EXTEND\<rparr>,
     \<lparr>g_start = 0x0829, g_end = 0x082D, g_property = GCB_EXTEND\<rparr>,
     \<lparr>g_start = 0x0859, g_end = 0x085B, g_property = GCB_EXTEND\<rparr>,
     \<lparr>g_start = 0x0890, g_end = 0x0891, g_property = GCB_PREPEND\<rparr>,
     \<lparr>g_start = 0x0897, g_end = 0x089F, g_property = GCB_EXTEND\<rparr>,
     \<lparr>g_start = 0x08CA, g_end = 0x08E1, g_property = GCB_EXTEND\<rparr>,
     \<lparr>g_start = 0x08E2, g_end = 0x08E2, g_property = GCB_PREPEND\<rparr>,
     \<lparr>g_start = 0x08E3, g_end = 0x0902, g_property = GCB_EXTEND\<rparr>,
     \<lparr>g_start = 0x0903, g_end = 0x0903, g_property = GCB_SPACING_MARK\<rparr>,
     \<lparr>g_start = 0x093A, g_end = 0x093A, g_property = GCB_EXTEND\<rparr>,
     \<lparr>g_start = 0x093B, g_end = 0x093B, g_property = GCB_SPACING_MARK\<rparr>,
     \<lparr>g_start = 0x093C, g_end = 0x093C, g_property = GCB_EXTEND\<rparr>,
     \<lparr>g_start = 0x093E, g_end = 0x0940, g_property = GCB_SPACING_MARK\<rparr>,
     \<lparr>g_start = 0x0941, g_end = 0x0948, g_property = GCB_EXTEND\<rparr>,
     \<lparr>g_start = 0x0949, g_end = 0x094C, g_property = GCB_SPACING_MARK\<rparr>,
     \<lparr>g_start = 0x094D, g_end = 0x094D, g_property = GCB_EXTEND\<rparr>,
     \<lparr>g_start = 0x094E, g_end = 0x094F, g_property = GCB_SPACING_MARK\<rparr>,
     \<lparr>g_start = 0x0951, g_end = 0x0957, g_property = GCB_EXTEND\<rparr>,
     \<lparr>g_start = 0x0962, g_end = 0x0963, g_property = GCB_EXTEND\<rparr>,
     \<lparr>g_start = 0x0981, g_end = 0x0981, g_property = GCB_EXTEND\<rparr>,
     \<lparr>g_start = 0x0982, g_end = 0x0983, g_property = GCB_SPACING_MARK\<rparr>,
     \<lparr>g_start = 0x09BC, g_end = 0x09BC, g_property = GCB_EXTEND\<rparr>,
     \<lparr>g_start = 0x09BE, g_end = 0x09BE, g_property = GCB_EXTEND\<rparr>,
     \<lparr>g_start = 0x09BF, g_end = 0x09C0, g_property = GCB_SPACING_MARK\<rparr>,
     \<lparr>g_start = 0x09C1, g_end = 0x09C4, g_property = GCB_EXTEND\<rparr>,
     \<lparr>g_start = 0x09C7, g_end = 0x09C8, g_property = GCB_SPACING_MARK\<rparr>,
     \<lparr>g_start = 0x09CB, g_end = 0x09CC, g_property = GCB_SPACING_MARK\<rparr>,
     \<lparr>g_start = 0x09CD, g_end = 0x09CD, g_property = GCB_EXTEND\<rparr>,
     \<lparr>g_start = 0x09D7, g_end = 0x09D7, g_property = GCB_EXTEND\<rparr>,
     \<lparr>g_start = 0x09E2, g_end = 0x09E3, g_property = GCB_EXTEND\<rparr>,
     \<lparr>g_start = 0x09FE, g_end = 0x09FE, g_property = GCB_EXTEND\<rparr>,
     \<lparr>g_start = 0x0A01, g_end = 0x0A02, g_property = GCB_EXTEND\<rparr>,
     \<lparr>g_start = 0x0A03, g_end = 0x0A03, g_property = GCB_SPACING_MARK\<rparr>,
     \<lparr>g_start = 0x0A3C, g_end = 0x0A3C, g_property = GCB_EXTEND\<rparr>,
     \<lparr>g_start = 0x0A3E, g_end = 0x0A40, g_property = GCB_SPACING_MARK\<rparr>,
     \<lparr>g_start = 0x0A41, g_end = 0x0A42, g_property = GCB_EXTEND\<rparr>,
     \<lparr>g_start = 0x0A47, g_end = 0x0A48, g_property = GCB_EXTEND\<rparr>,
     \<lparr>g_start = 0x0A4B, g_end = 0x0A4D, g_property = GCB_EXTEND\<rparr>,
     \<lparr>g_start = 0x0A51, g_end = 0x0A51, g_property = GCB_EXTEND\<rparr>,
     \<lparr>g_start = 0x0A70, g_end = 0x0A71, g_property = GCB_EXTEND\<rparr>,
     \<lparr>g_start = 0x0A75, g_end = 0x0A75, g_property = GCB_EXTEND\<rparr>,
     \<lparr>g_start = 0x0A81, g_end = 0x0A82, g_property = GCB_EXTEND\<rparr>,
     \<lparr>g_start = 0x0A83, g_end = 0x0A83, g_property = GCB_SPACING_MARK\<rparr>,
     \<lparr>g_start = 0x0ABC, g_end = 0x0ABC, g_property = GCB_EXTEND\<rparr>,
     \<lparr>g_start = 0x0ABE, g_end = 0x0AC0, g_property = GCB_SPACING_MARK\<rparr>,
     \<lparr>g_start = 0x0AC1, g_end = 0x0AC5, g_property = GCB_EXTEND\<rparr>,
     \<lparr>g_start = 0x0AC7, g_end = 0x0AC8, g_property = GCB_EXTEND\<rparr>,
     \<lparr>g_start = 0x0AC9, g_end = 0x0AC9, g_property = GCB_SPACING_MARK\<rparr>,
     \<lparr>g_start = 0x0ACB, g_end = 0x0ACC, g_property = GCB_SPACING_MARK\<rparr>,
     \<lparr>g_start = 0x0ACD, g_end = 0x0ACD, g_property = GCB_EXTEND\<rparr>,
     \<lparr>g_start = 0x0AE2, g_end = 0x0AE3, g_property = GCB_EXTEND\<rparr>,
     \<lparr>g_start = 0x0AFA, g_end = 0x0AFF, g_property = GCB_EXTEND\<rparr>,
     \<lparr>g_start = 0x0B01, g_end = 0x0B01, g_property = GCB_EXTEND\<rparr>,
     \<lparr>g_start = 0x0B02, g_end = 0x0B03, g_property = GCB_SPACING_MARK\<rparr>,
     \<lparr>g_start = 0x0B3C, g_end = 0x0B3C, g_property = GCB_EXTEND\<rparr>,
     \<lparr>g_start = 0x0B3E, g_end = 0x0B3F, g_property = GCB_EXTEND\<rparr>,
     \<lparr>g_start = 0x0B40, g_end = 0x0B40, g_property = GCB_SPACING_MARK\<rparr>,
     \<lparr>g_start = 0x0B41, g_end = 0x0B44, g_property = GCB_EXTEND\<rparr>,
     \<lparr>g_start = 0x0B47, g_end = 0x0B48, g_property = GCB_SPACING_MARK\<rparr>,
     \<lparr>g_start = 0x0B4B, g_end = 0x0B4C, g_property = GCB_SPACING_MARK\<rparr>,
     \<lparr>g_start = 0x0B4D, g_end = 0x0B4D, g_property = GCB_EXTEND\<rparr>,
     \<lparr>g_start = 0x0B55, g_end = 0x0B57, g_property = GCB_EXTEND\<rparr>,
     \<lparr>g_start = 0x0B62, g_end = 0x0B63, g_property = GCB_EXTEND\<rparr>,
     \<lparr>g_start = 0x0B82, g_end = 0x0B82, g_property = GCB_EXTEND\<rparr>,
     \<lparr>g_start = 0x0BBE, g_end = 0x0BBE, g_property = GCB_EXTEND\<rparr>,
     \<lparr>g_start = 0x0BBF, g_end = 0x0BBF, g_property = GCB_SPACING_MARK\<rparr>,
     \<lparr>g_start = 0x0BC0, g_end = 0x0BC0, g_property = GCB_EXTEND\<rparr>,
     \<lparr>g_start = 0x0BC1, g_end = 0x0BC2, g_property = GCB_SPACING_MARK\<rparr>,
     \<lparr>g_start = 0x0BC6, g_end = 0x0BC8, g_property = GCB_SPACING_MARK\<rparr>,
     \<lparr>g_start = 0x0BCA, g_end = 0x0BCC, g_property = GCB_SPACING_MARK\<rparr>,
     \<lparr>g_start = 0x0BCD, g_end = 0x0BCD, g_property = GCB_EXTEND\<rparr>,
     \<lparr>g_start = 0x0BD7, g_end = 0x0BD7, g_property = GCB_EXTEND\<rparr>,
     \<lparr>g_start = 0x0C00, g_end = 0x0C00, g_property = GCB_EXTEND\<rparr>,
     \<lparr>g_start = 0x0C01, g_end = 0x0C03, g_property = GCB_SPACING_MARK\<rparr>,
     \<lparr>g_start = 0x0C04, g_end = 0x0C04, g_property = GCB_EXTEND\<rparr>,
     \<lparr>g_start = 0x0C3C, g_end = 0x0C3C, g_property = GCB_EXTEND\<rparr>,
     \<lparr>g_start = 0x0C3E, g_end = 0x0C40, g_property = GCB_EXTEND\<rparr>,
     \<lparr>g_start = 0x0C41, g_end = 0x0C44, g_property = GCB_SPACING_MARK\<rparr>,
     \<lparr>g_start = 0x0C46, g_end = 0x0C48, g_property = GCB_EXTEND\<rparr>,
     \<lparr>g_start = 0x0C4A, g_end = 0x0C4D, g_property = GCB_EXTEND\<rparr>,
     \<lparr>g_start = 0x0C55, g_end = 0x0C56, g_property = GCB_EXTEND\<rparr>,
     \<lparr>g_start = 0x0C62, g_end = 0x0C63, g_property = GCB_EXTEND\<rparr>,
     \<lparr>g_start = 0x0C81, g_end = 0x0C81, g_property = GCB_EXTEND\<rparr>,
     \<lparr>g_start = 0x0C82, g_end = 0x0C83, g_property = GCB_SPACING_MARK\<rparr>,
     \<lparr>g_start = 0x0CBC, g_end = 0x0CBC, g_property = GCB_EXTEND\<rparr>,
     \<lparr>g_start = 0x0CBE, g_end = 0x0CBE, g_property = GCB_SPACING_MARK\<rparr>,
     \<lparr>g_start = 0x0CBF, g_end = 0x0CC2, g_property = GCB_EXTEND\<rparr>,
     \<lparr>g_start = 0x0CC3, g_end = 0x0CC4, g_property = GCB_SPACING_MARK\<rparr>,
     \<lparr>g_start = 0x0CC6, g_end = 0x0CCB, g_property = GCB_EXTEND\<rparr>,
     \<lparr>g_start = 0x0CCC, g_end = 0x0CCD, g_property = GCB_EXTEND\<rparr>,
     \<lparr>g_start = 0x0CD5, g_end = 0x0CD6, g_property = GCB_EXTEND\<rparr>,
     \<lparr>g_start = 0x0CE2, g_end = 0x0CE3, g_property = GCB_EXTEND\<rparr>,
     \<lparr>g_start = 0x0CF3, g_end = 0x0CF3, g_property = GCB_SPACING_MARK\<rparr>,
     \<lparr>g_start = 0x0D00, g_end = 0x0D01, g_property = GCB_EXTEND\<rparr>,
     \<lparr>g_start = 0x0D02, g_end = 0x0D03, g_property = GCB_SPACING_MARK\<rparr>,
     \<lparr>g_start = 0x0D3B, g_end = 0x0D3C, g_property = GCB_EXTEND\<rparr>,
     \<lparr>g_start = 0x0D3E, g_end = 0x0D3E, g_property = GCB_EXTEND\<rparr>,
     \<lparr>g_start = 0x0D3F, g_end = 0x0D40, g_property = GCB_SPACING_MARK\<rparr>,
     \<lparr>g_start = 0x0D41, g_end = 0x0D44, g_property = GCB_EXTEND\<rparr>,
     \<lparr>g_start = 0x0D46, g_end = 0x0D48, g_property = GCB_SPACING_MARK\<rparr>,
     \<lparr>g_start = 0x0D4A, g_end = 0x0D4C, g_property = GCB_SPACING_MARK\<rparr>,
     \<lparr>g_start = 0x0D4D, g_end = 0x0D4D, g_property = GCB_EXTEND\<rparr>,
     \<lparr>g_start = 0x0D4E, g_end = 0x0D4E, g_property = GCB_PREPEND\<rparr>,
     \<lparr>g_start = 0x0D57, g_end = 0x0D57, g_property = GCB_EXTEND\<rparr>,
     \<lparr>g_start = 0x0D62, g_end = 0x0D63, g_property = GCB_EXTEND\<rparr>,
     \<lparr>g_start = 0x0D81, g_end = 0x0D81, g_property = GCB_EXTEND\<rparr>,
     \<lparr>g_start = 0x0D82, g_end = 0x0D83, g_property = GCB_SPACING_MARK\<rparr>,
     \<lparr>g_start = 0x0DCA, g_end = 0x0DCA, g_property = GCB_EXTEND\<rparr>,
     \<lparr>g_start = 0x0DCF, g_end = 0x0DCF, g_property = GCB_EXTEND\<rparr>,
     \<lparr>g_start = 0x0DD0, g_end = 0x0DD1, g_property = GCB_SPACING_MARK\<rparr>,
     \<lparr>g_start = 0x0DD2, g_end = 0x0DD6, g_property = GCB_EXTEND\<rparr>,
     \<lparr>g_start = 0x0DD8, g_end = 0x0DDF, g_property = GCB_SPACING_MARK\<rparr>,
     \<lparr>g_start = 0x0DF2, g_end = 0x0DF3, g_property = GCB_SPACING_MARK\<rparr>,
     \<lparr>g_start = 0x0E31, g_end = 0x0E31, g_property = GCB_EXTEND\<rparr>,
     \<lparr>g_start = 0x0E33, g_end = 0x0E33, g_property = GCB_SPACING_MARK\<rparr>,
     \<lparr>g_start = 0x0E34, g_end = 0x0E3A, g_property = GCB_EXTEND\<rparr>,
     \<lparr>g_start = 0x0E47, g_end = 0x0E4E, g_property = GCB_EXTEND\<rparr>,
     \<lparr>g_start = 0x0EB1, g_end = 0x0EB1, g_property = GCB_EXTEND\<rparr>,
     \<lparr>g_start = 0x0EB3, g_end = 0x0EB3, g_property = GCB_SPACING_MARK\<rparr>,
     \<lparr>g_start = 0x0EB4, g_end = 0x0EBC, g_property = GCB_EXTEND\<rparr>,
     \<lparr>g_start = 0x0EC8, g_end = 0x0ECE, g_property = GCB_EXTEND\<rparr>,
     \<lparr>g_start = 0x0F18, g_end = 0x0F19, g_property = GCB_EXTEND\<rparr>,
     \<lparr>g_start = 0x0F35, g_end = 0x0F35, g_property = GCB_EXTEND\<rparr>,
     \<lparr>g_start = 0x0F37, g_end = 0x0F37, g_property = GCB_EXTEND\<rparr>,
     \<lparr>g_start = 0x0F39, g_end = 0x0F39, g_property = GCB_EXTEND\<rparr>,
     \<lparr>g_start = 0x0F3E, g_end = 0x0F3F, g_property = GCB_SPACING_MARK\<rparr>,
     \<lparr>g_start = 0x0F71, g_end = 0x0F7E, g_property = GCB_EXTEND\<rparr>,
     \<lparr>g_start = 0x0F7F, g_end = 0x0F7F, g_property = GCB_SPACING_MARK\<rparr>,
     \<lparr>g_start = 0x0F80, g_end = 0x0F84, g_property = GCB_EXTEND\<rparr>,
     \<lparr>g_start = 0x0F86, g_end = 0x0F87, g_property = GCB_EXTEND\<rparr>,
     \<lparr>g_start = 0x0F8D, g_end = 0x0F97, g_property = GCB_EXTEND\<rparr>,
     \<lparr>g_start = 0x0F99, g_end = 0x0FBC, g_property = GCB_EXTEND\<rparr>,
     \<lparr>g_start = 0x0FC6, g_end = 0x0FC6, g_property = GCB_EXTEND\<rparr>,
     \<lparr>g_start = 0x102D, g_end = 0x1030, g_property = GCB_EXTEND\<rparr>,
     \<lparr>g_start = 0x1031, g_end = 0x1031, g_property = GCB_SPACING_MARK\<rparr>,
     \<lparr>g_start = 0x1032, g_end = 0x1037, g_property = GCB_EXTEND\<rparr>,
     \<lparr>g_start = 0x1039, g_end = 0x103A, g_property = GCB_EXTEND\<rparr>,
     \<lparr>g_start = 0x103B, g_end = 0x103C, g_property = GCB_SPACING_MARK\<rparr>,
     \<lparr>g_start = 0x103D, g_end = 0x103E, g_property = GCB_EXTEND\<rparr>,
     \<lparr>g_start = 0x1056, g_end = 0x1057, g_property = GCB_SPACING_MARK\<rparr>,
     \<lparr>g_start = 0x1058, g_end = 0x1059, g_property = GCB_EXTEND\<rparr>,
     \<lparr>g_start = 0x105E, g_end = 0x1060, g_property = GCB_EXTEND\<rparr>,
     \<lparr>g_start = 0x1071, g_end = 0x1074, g_property = GCB_EXTEND\<rparr>,
     \<lparr>g_start = 0x1082, g_end = 0x1082, g_property = GCB_EXTEND\<rparr>,
     \<lparr>g_start = 0x1084, g_end = 0x1084, g_property = GCB_SPACING_MARK\<rparr>,
     \<lparr>g_start = 0x1085, g_end = 0x1086, g_property = GCB_EXTEND\<rparr>,
     \<lparr>g_start = 0x108D, g_end = 0x108D, g_property = GCB_EXTEND\<rparr>,
     \<lparr>g_start = 0x109D, g_end = 0x109D, g_property = GCB_EXTEND\<rparr>,
     \<lparr>g_start = 0x1100, g_end = 0x115F, g_property = GCB_L\<rparr>,
     \<lparr>g_start = 0x1160, g_end = 0x11A7, g_property = GCB_V\<rparr>,
     \<lparr>g_start = 0x11A8, g_end = 0x11FF, g_property = GCB_T\<rparr>,
     \<lparr>g_start = 0x135D, g_end = 0x135F, g_property = GCB_EXTEND\<rparr>,
     \<lparr>g_start = 0x1712, g_end = 0x1715, g_property = GCB_EXTEND\<rparr>,
     \<lparr>g_start = 0x1732, g_end = 0x1734, g_property = GCB_EXTEND\<rparr>,
     \<lparr>g_start = 0x1752, g_end = 0x1753, g_property = GCB_EXTEND\<rparr>,
     \<lparr>g_start = 0x1772, g_end = 0x1773, g_property = GCB_EXTEND\<rparr>,
     \<lparr>g_start = 0x17B4, g_end = 0x17B5, g_property = GCB_EXTEND\<rparr>,
     \<lparr>g_start = 0x17B6, g_end = 0x17B6, g_property = GCB_SPACING_MARK\<rparr>,
     \<lparr>g_start = 0x17B7, g_end = 0x17BD, g_property = GCB_EXTEND\<rparr>,
     \<lparr>g_start = 0x17BE, g_end = 0x17C5, g_property = GCB_SPACING_MARK\<rparr>,
     \<lparr>g_start = 0x17C6, g_end = 0x17C6, g_property = GCB_EXTEND\<rparr>,
     \<lparr>g_start = 0x17C7, g_end = 0x17C8, g_property = GCB_SPACING_MARK\<rparr>,
     \<lparr>g_start = 0x17C9, g_end = 0x17D3, g_property = GCB_EXTEND\<rparr>,
     \<lparr>g_start = 0x17DD, g_end = 0x17DD, g_property = GCB_EXTEND\<rparr>,
     \<lparr>g_start = 0x180B, g_end = 0x180D, g_property = GCB_EXTEND\<rparr>,
     \<lparr>g_start = 0x180E, g_end = 0x180E, g_property = GCB_CONTROL\<rparr>,
     \<lparr>g_start = 0x180F, g_end = 0x180F, g_property = GCB_EXTEND\<rparr>,
     \<lparr>g_start = 0x1885, g_end = 0x1886, g_property = GCB_EXTEND\<rparr>,
     \<lparr>g_start = 0x18A9, g_end = 0x18A9, g_property = GCB_EXTEND\<rparr>,
     \<lparr>g_start = 0x1920, g_end = 0x1922, g_property = GCB_EXTEND\<rparr>,
     \<lparr>g_start = 0x1923, g_end = 0x1926, g_property = GCB_SPACING_MARK\<rparr>,
     \<lparr>g_start = 0x1927, g_end = 0x1928, g_property = GCB_EXTEND\<rparr>,
     \<lparr>g_start = 0x1929, g_end = 0x192B, g_property = GCB_SPACING_MARK\<rparr>,
     \<lparr>g_start = 0x1930, g_end = 0x1931, g_property = GCB_SPACING_MARK\<rparr>,
     \<lparr>g_start = 0x1932, g_end = 0x1932, g_property = GCB_EXTEND\<rparr>,
     \<lparr>g_start = 0x1933, g_end = 0x1938, g_property = GCB_SPACING_MARK\<rparr>,
     \<lparr>g_start = 0x1939, g_end = 0x193B, g_property = GCB_EXTEND\<rparr>,
     \<lparr>g_start = 0x1A17, g_end = 0x1A18, g_property = GCB_EXTEND\<rparr>,
     \<lparr>g_start = 0x1A19, g_end = 0x1A1A, g_property = GCB_SPACING_MARK\<rparr>,
     \<lparr>g_start = 0x1A1B, g_end = 0x1A1B, g_property = GCB_EXTEND\<rparr>,
     \<lparr>g_start = 0x1A55, g_end = 0x1A55, g_property = GCB_SPACING_MARK\<rparr>,
     \<lparr>g_start = 0x1A56, g_end = 0x1A56, g_property = GCB_EXTEND\<rparr>,
     \<lparr>g_start = 0x1A57, g_end = 0x1A57, g_property = GCB_SPACING_MARK\<rparr>,
     \<lparr>g_start = 0x1A58, g_end = 0x1A60, g_property = GCB_EXTEND\<rparr>,
     \<lparr>g_start = 0x1A62, g_end = 0x1A62, g_property = GCB_EXTEND\<rparr>,
     \<lparr>g_start = 0x1A65, g_end = 0x1A6C, g_property = GCB_EXTEND\<rparr>,
     \<lparr>g_start = 0x1A6D, g_end = 0x1A72, g_property = GCB_SPACING_MARK\<rparr>,
     \<lparr>g_start = 0x1A73, g_end = 0x1A7F, g_property = GCB_EXTEND\<rparr>,
     \<lparr>g_start = 0x1AB0, g_end = 0x1AEB, g_property = GCB_EXTEND\<rparr>,
     \<lparr>g_start = 0x1B00, g_end = 0x1B03, g_property = GCB_EXTEND\<rparr>,
     \<lparr>g_start = 0x1B04, g_end = 0x1B04, g_property = GCB_SPACING_MARK\<rparr>,
     \<lparr>g_start = 0x1B34, g_end = 0x1B3C, g_property = GCB_EXTEND\<rparr>,
     \<lparr>g_start = 0x1B3D, g_end = 0x1B41, g_property = GCB_SPACING_MARK\<rparr>,
     \<lparr>g_start = 0x1B42, g_end = 0x1B44, g_property = GCB_EXTEND\<rparr>,
     \<lparr>g_start = 0x1B6B, g_end = 0x1B73, g_property = GCB_EXTEND\<rparr>,
     \<lparr>g_start = 0x1B80, g_end = 0x1B81, g_property = GCB_EXTEND\<rparr>,
     \<lparr>g_start = 0x1B82, g_end = 0x1B82, g_property = GCB_SPACING_MARK\<rparr>,
     \<lparr>g_start = 0x1BA1, g_end = 0x1BA1, g_property = GCB_SPACING_MARK\<rparr>,
     \<lparr>g_start = 0x1BA2, g_end = 0x1BA5, g_property = GCB_EXTEND\<rparr>,
     \<lparr>g_start = 0x1BA6, g_end = 0x1BA7, g_property = GCB_SPACING_MARK\<rparr>,
     \<lparr>g_start = 0x1BA8, g_end = 0x1BAD, g_property = GCB_EXTEND\<rparr>,
     \<lparr>g_start = 0x1BE6, g_end = 0x1BE6, g_property = GCB_EXTEND\<rparr>,
     \<lparr>g_start = 0x1BE7, g_end = 0x1BE7, g_property = GCB_SPACING_MARK\<rparr>,
     \<lparr>g_start = 0x1BE8, g_end = 0x1BE9, g_property = GCB_EXTEND\<rparr>,
     \<lparr>g_start = 0x1BEA, g_end = 0x1BEC, g_property = GCB_SPACING_MARK\<rparr>,
     \<lparr>g_start = 0x1BED, g_end = 0x1BED, g_property = GCB_EXTEND\<rparr>,
     \<lparr>g_start = 0x1BEE, g_end = 0x1BEE, g_property = GCB_SPACING_MARK\<rparr>,
     \<lparr>g_start = 0x1BEF, g_end = 0x1BF3, g_property = GCB_EXTEND\<rparr>,
     \<lparr>g_start = 0x1C24, g_end = 0x1C2B, g_property = GCB_SPACING_MARK\<rparr>,
     \<lparr>g_start = 0x1C2C, g_end = 0x1C33, g_property = GCB_EXTEND\<rparr>,
     \<lparr>g_start = 0x1C34, g_end = 0x1C35, g_property = GCB_SPACING_MARK\<rparr>,
     \<lparr>g_start = 0x1C36, g_end = 0x1C37, g_property = GCB_EXTEND\<rparr>,
     \<lparr>g_start = 0x1CD0, g_end = 0x1CD2, g_property = GCB_EXTEND\<rparr>,
     \<lparr>g_start = 0x1CD4, g_end = 0x1CE0, g_property = GCB_EXTEND\<rparr>,
     \<lparr>g_start = 0x1CE1, g_end = 0x1CE1, g_property = GCB_SPACING_MARK\<rparr>,
     \<lparr>g_start = 0x1CE2, g_end = 0x1CE8, g_property = GCB_EXTEND\<rparr>,
     \<lparr>g_start = 0x1CED, g_end = 0x1CED, g_property = GCB_EXTEND\<rparr>,
     \<lparr>g_start = 0x1CF4, g_end = 0x1CF4, g_property = GCB_EXTEND\<rparr>,
     \<lparr>g_start = 0x1CF7, g_end = 0x1CF7, g_property = GCB_SPACING_MARK\<rparr>,
     \<lparr>g_start = 0x1CF8, g_end = 0x1CF9, g_property = GCB_EXTEND\<rparr>,
     \<lparr>g_start = 0x1DC0, g_end = 0x1DFF, g_property = GCB_EXTEND\<rparr>,
     \<lparr>g_start = 0x200B, g_end = 0x200B, g_property = GCB_CONTROL\<rparr>,
     \<lparr>g_start = 0x200C, g_end = 0x200C, g_property = GCB_EXTEND\<rparr>,
     \<lparr>g_start = 0x200D, g_end = 0x200D, g_property = GCB_ZWJ\<rparr>,
     \<lparr>g_start = 0x200E, g_end = 0x200F, g_property = GCB_CONTROL\<rparr>,
     \<lparr>g_start = 0x2028, g_end = 0x202E, g_property = GCB_CONTROL\<rparr>,
     \<lparr>g_start = 0x2060, g_end = 0x206F, g_property = GCB_CONTROL\<rparr>,
     \<lparr>g_start = 0x20D0, g_end = 0x20F0, g_property = GCB_EXTEND\<rparr>,
     \<lparr>g_start = 0x2CEF, g_end = 0x2CF1, g_property = GCB_EXTEND\<rparr>,
     \<lparr>g_start = 0x2D7F, g_end = 0x2D7F, g_property = GCB_EXTEND\<rparr>,
     \<lparr>g_start = 0x2DE0, g_end = 0x2DFF, g_property = GCB_EXTEND\<rparr>,
     \<lparr>g_start = 0x302A, g_end = 0x302F, g_property = GCB_EXTEND\<rparr>,
     \<lparr>g_start = 0x3099, g_end = 0x309A, g_property = GCB_EXTEND\<rparr>,
     \<lparr>g_start = 0xA66F, g_end = 0xA672, g_property = GCB_EXTEND\<rparr>,
     \<lparr>g_start = 0xA674, g_end = 0xA67D, g_property = GCB_EXTEND\<rparr>,
     \<lparr>g_start = 0xA69E, g_end = 0xA69F, g_property = GCB_EXTEND\<rparr>,
     \<lparr>g_start = 0xA6F0, g_end = 0xA6F1, g_property = GCB_EXTEND\<rparr>,
     \<lparr>g_start = 0xA802, g_end = 0xA802, g_property = GCB_EXTEND\<rparr>,
     \<lparr>g_start = 0xA806, g_end = 0xA806, g_property = GCB_EXTEND\<rparr>,
     \<lparr>g_start = 0xA80B, g_end = 0xA80B, g_property = GCB_EXTEND\<rparr>,
     \<lparr>g_start = 0xA823, g_end = 0xA824, g_property = GCB_SPACING_MARK\<rparr>,
     \<lparr>g_start = 0xA825, g_end = 0xA826, g_property = GCB_EXTEND\<rparr>,
     \<lparr>g_start = 0xA827, g_end = 0xA827, g_property = GCB_SPACING_MARK\<rparr>,
     \<lparr>g_start = 0xA82C, g_end = 0xA82C, g_property = GCB_EXTEND\<rparr>,
     \<lparr>g_start = 0xA880, g_end = 0xA881, g_property = GCB_SPACING_MARK\<rparr>,
     \<lparr>g_start = 0xA8B4, g_end = 0xA8C3, g_property = GCB_SPACING_MARK\<rparr>,
     \<lparr>g_start = 0xA8C4, g_end = 0xA8C5, g_property = GCB_EXTEND\<rparr>,
     \<lparr>g_start = 0xA8E0, g_end = 0xA8F1, g_property = GCB_EXTEND\<rparr>,
     \<lparr>g_start = 0xA8FF, g_end = 0xA8FF, g_property = GCB_EXTEND\<rparr>,
     \<lparr>g_start = 0xA926, g_end = 0xA92D, g_property = GCB_EXTEND\<rparr>,
     \<lparr>g_start = 0xA947, g_end = 0xA951, g_property = GCB_EXTEND\<rparr>,
     \<lparr>g_start = 0xA952, g_end = 0xA952, g_property = GCB_SPACING_MARK\<rparr>,
     \<lparr>g_start = 0xA953, g_end = 0xA953, g_property = GCB_EXTEND\<rparr>,
     \<lparr>g_start = 0xA960, g_end = 0xA97C, g_property = GCB_L\<rparr>,
     \<lparr>g_start = 0xA980, g_end = 0xA982, g_property = GCB_EXTEND\<rparr>,
     \<lparr>g_start = 0xA983, g_end = 0xA983, g_property = GCB_SPACING_MARK\<rparr>,
     \<lparr>g_start = 0xA9B3, g_end = 0xA9B3, g_property = GCB_EXTEND\<rparr>,
     \<lparr>g_start = 0xA9B4, g_end = 0xA9B5, g_property = GCB_SPACING_MARK\<rparr>,
     \<lparr>g_start = 0xA9B6, g_end = 0xA9B9, g_property = GCB_EXTEND\<rparr>,
     \<lparr>g_start = 0xA9BA, g_end = 0xA9BB, g_property = GCB_SPACING_MARK\<rparr>,
     \<lparr>g_start = 0xA9BC, g_end = 0xA9C0, g_property = GCB_EXTEND\<rparr>,
     \<lparr>g_start = 0xA9E5, g_end = 0xA9E5, g_property = GCB_EXTEND\<rparr>,
     \<lparr>g_start = 0xAA29, g_end = 0xAA2E, g_property = GCB_EXTEND\<rparr>,
     \<lparr>g_start = 0xAA2F, g_end = 0xAA30, g_property = GCB_SPACING_MARK\<rparr>,
     \<lparr>g_start = 0xAA31, g_end = 0xAA32, g_property = GCB_EXTEND\<rparr>,
     \<lparr>g_start = 0xAA33, g_end = 0xAA34, g_property = GCB_SPACING_MARK\<rparr>,
     \<lparr>g_start = 0xAA35, g_end = 0xAA36, g_property = GCB_EXTEND\<rparr>,
     \<lparr>g_start = 0xAA43, g_end = 0xAA43, g_property = GCB_EXTEND\<rparr>,
     \<lparr>g_start = 0xAA4C, g_end = 0xAA4C, g_property = GCB_EXTEND\<rparr>,
     \<lparr>g_start = 0xAA4D, g_end = 0xAA4D, g_property = GCB_SPACING_MARK\<rparr>,
     \<lparr>g_start = 0xAA7C, g_end = 0xAA7C, g_property = GCB_EXTEND\<rparr>,
     \<lparr>g_start = 0xAAB0, g_end = 0xAAB0, g_property = GCB_EXTEND\<rparr>,
     \<lparr>g_start = 0xAAB2, g_end = 0xAAB4, g_property = GCB_EXTEND\<rparr>,
     \<lparr>g_start = 0xAAB7, g_end = 0xAAB8, g_property = GCB_EXTEND\<rparr>,
     \<lparr>g_start = 0xAABE, g_end = 0xAAC1, g_property = GCB_EXTEND\<rparr>,
     \<lparr>g_start = 0xAAEB, g_end = 0xAAEB, g_property = GCB_SPACING_MARK\<rparr>,
     \<lparr>g_start = 0xAAEC, g_end = 0xAAED, g_property = GCB_EXTEND\<rparr>,
     \<lparr>g_start = 0xAAEE, g_end = 0xAAEF, g_property = GCB_SPACING_MARK\<rparr>,
     \<lparr>g_start = 0xAAF5, g_end = 0xAAF5, g_property = GCB_SPACING_MARK\<rparr>,
     \<lparr>g_start = 0xAAF6, g_end = 0xAAF6, g_property = GCB_EXTEND\<rparr>,
     \<lparr>g_start = 0xABE3, g_end = 0xABE4, g_property = GCB_SPACING_MARK\<rparr>,
     \<lparr>g_start = 0xABE5, g_end = 0xABE5, g_property = GCB_EXTEND\<rparr>,
     \<lparr>g_start = 0xABE6, g_end = 0xABE7, g_property = GCB_SPACING_MARK\<rparr>,
     \<lparr>g_start = 0xABE8, g_end = 0xABE8, g_property = GCB_EXTEND\<rparr>,
     \<lparr>g_start = 0xABE9, g_end = 0xABEA, g_property = GCB_SPACING_MARK\<rparr>,
     \<lparr>g_start = 0xABEC, g_end = 0xABEC, g_property = GCB_SPACING_MARK\<rparr>,
     \<lparr>g_start = 0xABED, g_end = 0xABED, g_property = GCB_EXTEND\<rparr>,
     \<lparr>g_start = 0xD7B0, g_end = 0xD7C6, g_property = GCB_V\<rparr>,
     \<lparr>g_start = 0xD7CB, g_end = 0xD7FB, g_property = GCB_T\<rparr>,
     \<lparr>g_start = 0xFB1E, g_end = 0xFB1E, g_property = GCB_EXTEND\<rparr>,
     \<lparr>g_start = 0xFE00, g_end = 0xFE0F, g_property = GCB_EXTEND\<rparr>,
     \<lparr>g_start = 0xFE20, g_end = 0xFE2F, g_property = GCB_EXTEND\<rparr>,
     \<lparr>g_start = 0xFEFF, g_end = 0xFEFF, g_property = GCB_CONTROL\<rparr>,
     \<lparr>g_start = 0xFF9E, g_end = 0xFF9F, g_property = GCB_EXTEND\<rparr>,
     \<lparr>g_start = 0xFFF0, g_end = 0xFFFB, g_property = GCB_CONTROL\<rparr>,
     \<lparr>g_start = 0x101FD, g_end = 0x101FD, g_property = GCB_EXTEND\<rparr>,
     \<lparr>g_start = 0x102E0, g_end = 0x102E0, g_property = GCB_EXTEND\<rparr>,
     \<lparr>g_start = 0x10376, g_end = 0x1037A, g_property = GCB_EXTEND\<rparr>,
     \<lparr>g_start = 0x10A01, g_end = 0x10A03, g_property = GCB_EXTEND\<rparr>,
     \<lparr>g_start = 0x10A05, g_end = 0x10A06, g_property = GCB_EXTEND\<rparr>,
     \<lparr>g_start = 0x10A0C, g_end = 0x10A0F, g_property = GCB_EXTEND\<rparr>,
     \<lparr>g_start = 0x10A38, g_end = 0x10A3F, g_property = GCB_EXTEND\<rparr>,
     \<lparr>g_start = 0x10AE5, g_end = 0x10AE6, g_property = GCB_EXTEND\<rparr>,
     \<lparr>g_start = 0x10D24, g_end = 0x10D27, g_property = GCB_EXTEND\<rparr>,
     \<lparr>g_start = 0x10D69, g_end = 0x10D6D, g_property = GCB_EXTEND\<rparr>,
     \<lparr>g_start = 0x10EAB, g_end = 0x10EAC, g_property = GCB_EXTEND\<rparr>,
     \<lparr>g_start = 0x10EFA, g_end = 0x10EFF, g_property = GCB_EXTEND\<rparr>,
     \<lparr>g_start = 0x10F46, g_end = 0x10F50, g_property = GCB_EXTEND\<rparr>,
     \<lparr>g_start = 0x10F82, g_end = 0x10F85, g_property = GCB_EXTEND\<rparr>,
     \<lparr>g_start = 0x11000, g_end = 0x11000, g_property = GCB_SPACING_MARK\<rparr>,
     \<lparr>g_start = 0x11001, g_end = 0x11001, g_property = GCB_EXTEND\<rparr>,
     \<lparr>g_start = 0x11002, g_end = 0x11002, g_property = GCB_SPACING_MARK\<rparr>,
     \<lparr>g_start = 0x11038, g_end = 0x11046, g_property = GCB_EXTEND\<rparr>,
     \<lparr>g_start = 0x11070, g_end = 0x11070, g_property = GCB_EXTEND\<rparr>,
     \<lparr>g_start = 0x11073, g_end = 0x11074, g_property = GCB_EXTEND\<rparr>,
     \<lparr>g_start = 0x1107F, g_end = 0x11081, g_property = GCB_EXTEND\<rparr>,
     \<lparr>g_start = 0x11082, g_end = 0x11082, g_property = GCB_SPACING_MARK\<rparr>,
     \<lparr>g_start = 0x110B0, g_end = 0x110B2, g_property = GCB_SPACING_MARK\<rparr>,
     \<lparr>g_start = 0x110B3, g_end = 0x110B6, g_property = GCB_EXTEND\<rparr>,
     \<lparr>g_start = 0x110B7, g_end = 0x110B8, g_property = GCB_SPACING_MARK\<rparr>,
     \<lparr>g_start = 0x110B9, g_end = 0x110BA, g_property = GCB_EXTEND\<rparr>,
     \<lparr>g_start = 0x110BD, g_end = 0x110BD, g_property = GCB_PREPEND\<rparr>,
     \<lparr>g_start = 0x110C2, g_end = 0x110C2, g_property = GCB_EXTEND\<rparr>,
     \<lparr>g_start = 0x110CD, g_end = 0x110CD, g_property = GCB_PREPEND\<rparr>,
     \<lparr>g_start = 0x11100, g_end = 0x11102, g_property = GCB_EXTEND\<rparr>,
     \<lparr>g_start = 0x11127, g_end = 0x1112B, g_property = GCB_EXTEND\<rparr>,
     \<lparr>g_start = 0x1112C, g_end = 0x1112C, g_property = GCB_SPACING_MARK\<rparr>,
     \<lparr>g_start = 0x1112D, g_end = 0x11134, g_property = GCB_EXTEND\<rparr>,
     \<lparr>g_start = 0x11145, g_end = 0x11146, g_property = GCB_SPACING_MARK\<rparr>,
     \<lparr>g_start = 0x11173, g_end = 0x11173, g_property = GCB_EXTEND\<rparr>,
     \<lparr>g_start = 0x11180, g_end = 0x11181, g_property = GCB_EXTEND\<rparr>,
     \<lparr>g_start = 0x11182, g_end = 0x11182, g_property = GCB_SPACING_MARK\<rparr>,
     \<lparr>g_start = 0x111B3, g_end = 0x111B5, g_property = GCB_SPACING_MARK\<rparr>,
     \<lparr>g_start = 0x111B6, g_end = 0x111BF, g_property = GCB_EXTEND\<rparr>,
     \<lparr>g_start = 0x111C0, g_end = 0x111C0, g_property = GCB_EXTEND\<rparr>,
     \<lparr>g_start = 0x111C2, g_end = 0x111C3, g_property = GCB_PREPEND\<rparr>,
     \<lparr>g_start = 0x111C9, g_end = 0x111CF, g_property = GCB_EXTEND\<rparr>,
     \<lparr>g_start = 0x1122C, g_end = 0x1122E, g_property = GCB_SPACING_MARK\<rparr>,
     \<lparr>g_start = 0x1122F, g_end = 0x11231, g_property = GCB_EXTEND\<rparr>,
     \<lparr>g_start = 0x11232, g_end = 0x11233, g_property = GCB_SPACING_MARK\<rparr>,
     \<lparr>g_start = 0x11234, g_end = 0x11237, g_property = GCB_EXTEND\<rparr>,
     \<lparr>g_start = 0x1123E, g_end = 0x1123E, g_property = GCB_EXTEND\<rparr>,
     \<lparr>g_start = 0x11241, g_end = 0x11241, g_property = GCB_EXTEND\<rparr>,
     \<lparr>g_start = 0x112DF, g_end = 0x112DF, g_property = GCB_EXTEND\<rparr>,
     \<lparr>g_start = 0x112E0, g_end = 0x112E2, g_property = GCB_SPACING_MARK\<rparr>,
     \<lparr>g_start = 0x112E3, g_end = 0x112EA, g_property = GCB_EXTEND\<rparr>,
     \<lparr>g_start = 0x11300, g_end = 0x11301, g_property = GCB_EXTEND\<rparr>,
     \<lparr>g_start = 0x11302, g_end = 0x11303, g_property = GCB_SPACING_MARK\<rparr>,
     \<lparr>g_start = 0x1133B, g_end = 0x1133C, g_property = GCB_EXTEND\<rparr>,
     \<lparr>g_start = 0x1133E, g_end = 0x1133E, g_property = GCB_EXTEND\<rparr>,
     \<lparr>g_start = 0x1133F, g_end = 0x1133F, g_property = GCB_SPACING_MARK\<rparr>,
     \<lparr>g_start = 0x11340, g_end = 0x11340, g_property = GCB_EXTEND\<rparr>,
     \<lparr>g_start = 0x11341, g_end = 0x11344, g_property = GCB_SPACING_MARK\<rparr>,
     \<lparr>g_start = 0x11347, g_end = 0x11348, g_property = GCB_SPACING_MARK\<rparr>,
     \<lparr>g_start = 0x1134B, g_end = 0x1134D, g_property = GCB_EXTEND\<rparr>,
     \<lparr>g_start = 0x11357, g_end = 0x11357, g_property = GCB_EXTEND\<rparr>,
     \<lparr>g_start = 0x11362, g_end = 0x11363, g_property = GCB_SPACING_MARK\<rparr>,
     \<lparr>g_start = 0x11366, g_end = 0x11374, g_property = GCB_EXTEND\<rparr>,
     \<lparr>g_start = 0x113B8, g_end = 0x113C0, g_property = GCB_EXTEND\<rparr>,
     \<lparr>g_start = 0x113B9, g_end = 0x113BA, g_property = GCB_SPACING_MARK\<rparr>,
     \<lparr>g_start = 0x113C2, g_end = 0x113D2, g_property = GCB_EXTEND\<rparr>,
     \<lparr>g_start = 0x113CA, g_end = 0x113CD, g_property = GCB_SPACING_MARK\<rparr>,
     \<lparr>g_start = 0x113D1, g_end = 0x113D1, g_property = GCB_PREPEND\<rparr>,
     \<lparr>g_start = 0x113E1, g_end = 0x113E2, g_property = GCB_EXTEND\<rparr>,
     \<lparr>g_start = 0x11435, g_end = 0x11437, g_property = GCB_SPACING_MARK\<rparr>,
     \<lparr>g_start = 0x11438, g_end = 0x1143F, g_property = GCB_EXTEND\<rparr>,
     \<lparr>g_start = 0x11440, g_end = 0x11441, g_property = GCB_SPACING_MARK\<rparr>,
     \<lparr>g_start = 0x11442, g_end = 0x11446, g_property = GCB_EXTEND\<rparr>,
     \<lparr>g_start = 0x11445, g_end = 0x11445, g_property = GCB_SPACING_MARK\<rparr>,
     \<lparr>g_start = 0x1145E, g_end = 0x1145E, g_property = GCB_EXTEND\<rparr>,
     \<lparr>g_start = 0x114B0, g_end = 0x114B2, g_property = GCB_SPACING_MARK\<rparr>,
     \<lparr>g_start = 0x114B3, g_end = 0x114B8, g_property = GCB_EXTEND\<rparr>,
     \<lparr>g_start = 0x114B9, g_end = 0x114B9, g_property = GCB_SPACING_MARK\<rparr>,
     \<lparr>g_start = 0x114BA, g_end = 0x114BA, g_property = GCB_EXTEND\<rparr>,
     \<lparr>g_start = 0x114BB, g_end = 0x114BE, g_property = GCB_SPACING_MARK\<rparr>,
     \<lparr>g_start = 0x114BF, g_end = 0x114C3, g_property = GCB_EXTEND\<rparr>,
     \<lparr>g_start = 0x114C1, g_end = 0x114C1, g_property = GCB_SPACING_MARK\<rparr>,
     \<lparr>g_start = 0x115AF, g_end = 0x115B1, g_property = GCB_SPACING_MARK\<rparr>,
     \<lparr>g_start = 0x115B2, g_end = 0x115B5, g_property = GCB_EXTEND\<rparr>,
     \<lparr>g_start = 0x115B8, g_end = 0x115BB, g_property = GCB_SPACING_MARK\<rparr>,
     \<lparr>g_start = 0x115BC, g_end = 0x115C0, g_property = GCB_EXTEND\<rparr>,
     \<lparr>g_start = 0x115BE, g_end = 0x115BE, g_property = GCB_SPACING_MARK\<rparr>,
     \<lparr>g_start = 0x115DC, g_end = 0x115DD, g_property = GCB_EXTEND\<rparr>,
     \<lparr>g_start = 0x11630, g_end = 0x11632, g_property = GCB_SPACING_MARK\<rparr>,
     \<lparr>g_start = 0x11633, g_end = 0x1163A, g_property = GCB_EXTEND\<rparr>,
     \<lparr>g_start = 0x1163B, g_end = 0x1163C, g_property = GCB_SPACING_MARK\<rparr>,
     \<lparr>g_start = 0x1163D, g_end = 0x11640, g_property = GCB_EXTEND\<rparr>,
     \<lparr>g_start = 0x1163E, g_end = 0x1163E, g_property = GCB_SPACING_MARK\<rparr>,
     \<lparr>g_start = 0x116AB, g_end = 0x116AB, g_property = GCB_EXTEND\<rparr>,
     \<lparr>g_start = 0x116AC, g_end = 0x116AC, g_property = GCB_SPACING_MARK\<rparr>,
     \<lparr>g_start = 0x116AD, g_end = 0x116B7, g_property = GCB_EXTEND\<rparr>,
     \<lparr>g_start = 0x116AE, g_end = 0x116AF, g_property = GCB_SPACING_MARK\<rparr>,
     \<lparr>g_start = 0x1171D, g_end = 0x1171F, g_property = GCB_EXTEND\<rparr>,
     \<lparr>g_start = 0x1171E, g_end = 0x1171E, g_property = GCB_SPACING_MARK\<rparr>,
     \<lparr>g_start = 0x11722, g_end = 0x11725, g_property = GCB_EXTEND\<rparr>,
     \<lparr>g_start = 0x11726, g_end = 0x11726, g_property = GCB_SPACING_MARK\<rparr>,
     \<lparr>g_start = 0x11727, g_end = 0x1172B, g_property = GCB_EXTEND\<rparr>,
     \<lparr>g_start = 0x1182C, g_end = 0x1182E, g_property = GCB_SPACING_MARK\<rparr>,
     \<lparr>g_start = 0x1182F, g_end = 0x11837, g_property = GCB_EXTEND\<rparr>,
     \<lparr>g_start = 0x11838, g_end = 0x11838, g_property = GCB_SPACING_MARK\<rparr>,
     \<lparr>g_start = 0x11839, g_end = 0x1183A, g_property = GCB_EXTEND\<rparr>,
     \<lparr>g_start = 0x11930, g_end = 0x11935, g_property = GCB_SPACING_MARK\<rparr>,
     \<lparr>g_start = 0x11937, g_end = 0x11938, g_property = GCB_SPACING_MARK\<rparr>,
     \<lparr>g_start = 0x1193B, g_end = 0x1193E, g_property = GCB_EXTEND\<rparr>,
     \<lparr>g_start = 0x1193F, g_end = 0x1193F, g_property = GCB_PREPEND\<rparr>,
     \<lparr>g_start = 0x11940, g_end = 0x11940, g_property = GCB_SPACING_MARK\<rparr>,
     \<lparr>g_start = 0x11941, g_end = 0x11941, g_property = GCB_PREPEND\<rparr>,
     \<lparr>g_start = 0x11942, g_end = 0x11943, g_property = GCB_EXTEND\<rparr>,
     \<lparr>g_start = 0x119D1, g_end = 0x119D3, g_property = GCB_SPACING_MARK\<rparr>,
     \<lparr>g_start = 0x119D4, g_end = 0x119DB, g_property = GCB_EXTEND\<rparr>,
     \<lparr>g_start = 0x119DC, g_end = 0x119DF, g_property = GCB_SPACING_MARK\<rparr>,
     \<lparr>g_start = 0x119E0, g_end = 0x119E0, g_property = GCB_EXTEND\<rparr>,
     \<lparr>g_start = 0x119E4, g_end = 0x119E4, g_property = GCB_SPACING_MARK\<rparr>,
     \<lparr>g_start = 0x11A01, g_end = 0x11A0A, g_property = GCB_EXTEND\<rparr>,
     \<lparr>g_start = 0x11A33, g_end = 0x11A38, g_property = GCB_EXTEND\<rparr>,
     \<lparr>g_start = 0x11A39, g_end = 0x11A39, g_property = GCB_SPACING_MARK\<rparr>,
     \<lparr>g_start = 0x11A3B, g_end = 0x11A47, g_property = GCB_EXTEND\<rparr>,
     \<lparr>g_start = 0x11A51, g_end = 0x11A56, g_property = GCB_EXTEND\<rparr>,
     \<lparr>g_start = 0x11A57, g_end = 0x11A58, g_property = GCB_SPACING_MARK\<rparr>,
     \<lparr>g_start = 0x11A59, g_end = 0x11A5B, g_property = GCB_EXTEND\<rparr>,
     \<lparr>g_start = 0x11A84, g_end = 0x11A89, g_property = GCB_PREPEND\<rparr>,
     \<lparr>g_start = 0x11A8A, g_end = 0x11A99, g_property = GCB_EXTEND\<rparr>,
     \<lparr>g_start = 0x11A97, g_end = 0x11A97, g_property = GCB_SPACING_MARK\<rparr>,
     \<lparr>g_start = 0x11B60, g_end = 0x11B67, g_property = GCB_EXTEND\<rparr>,
     \<lparr>g_start = 0x11C2F, g_end = 0x11C2F, g_property = GCB_SPACING_MARK\<rparr>,
     \<lparr>g_start = 0x11C30, g_end = 0x11C3F, g_property = GCB_EXTEND\<rparr>,
     \<lparr>g_start = 0x11C3E, g_end = 0x11C3E, g_property = GCB_SPACING_MARK\<rparr>,
     \<lparr>g_start = 0x11C92, g_end = 0x11CB6, g_property = GCB_EXTEND\<rparr>,
     \<lparr>g_start = 0x11CA9, g_end = 0x11CA9, g_property = GCB_SPACING_MARK\<rparr>,
     \<lparr>g_start = 0x11CB1, g_end = 0x11CB1, g_property = GCB_SPACING_MARK\<rparr>,
     \<lparr>g_start = 0x11CB4, g_end = 0x11CB4, g_property = GCB_SPACING_MARK\<rparr>,
     \<lparr>g_start = 0x11D31, g_end = 0x11D47, g_property = GCB_EXTEND\<rparr>,
     \<lparr>g_start = 0x11D46, g_end = 0x11D46, g_property = GCB_PREPEND\<rparr>,
     \<lparr>g_start = 0x11D8A, g_end = 0x11D8E, g_property = GCB_SPACING_MARK\<rparr>,
     \<lparr>g_start = 0x11D90, g_end = 0x11D97, g_property = GCB_EXTEND\<rparr>,
     \<lparr>g_start = 0x11D93, g_end = 0x11D94, g_property = GCB_SPACING_MARK\<rparr>,
     \<lparr>g_start = 0x11D96, g_end = 0x11D96, g_property = GCB_SPACING_MARK\<rparr>,
     \<lparr>g_start = 0x11EF3, g_end = 0x11EF6, g_property = GCB_EXTEND\<rparr>,
     \<lparr>g_start = 0x11EF5, g_end = 0x11EF6, g_property = GCB_SPACING_MARK\<rparr>,
     \<lparr>g_start = 0x11F00, g_end = 0x11F01, g_property = GCB_EXTEND\<rparr>,
     \<lparr>g_start = 0x11F02, g_end = 0x11F02, g_property = GCB_PREPEND\<rparr>,
     \<lparr>g_start = 0x11F03, g_end = 0x11F03, g_property = GCB_SPACING_MARK\<rparr>,
     \<lparr>g_start = 0x11F34, g_end = 0x11F35, g_property = GCB_SPACING_MARK\<rparr>,
     \<lparr>g_start = 0x11F36, g_end = 0x11F42, g_property = GCB_EXTEND\<rparr>,
     \<lparr>g_start = 0x11F3E, g_end = 0x11F3F, g_property = GCB_SPACING_MARK\<rparr>,
     \<lparr>g_start = 0x11F5A, g_end = 0x11F5A, g_property = GCB_EXTEND\<rparr>,
     \<lparr>g_start = 0x13430, g_end = 0x1343F, g_property = GCB_CONTROL\<rparr>,
     \<lparr>g_start = 0x13440, g_end = 0x13455, g_property = GCB_EXTEND\<rparr>,
     \<lparr>g_start = 0x1611E, g_end = 0x1612F, g_property = GCB_EXTEND\<rparr>,
     \<lparr>g_start = 0x1612A, g_end = 0x1612C, g_property = GCB_SPACING_MARK\<rparr>,
     \<lparr>g_start = 0x16AF0, g_end = 0x16AF4, g_property = GCB_EXTEND\<rparr>,
     \<lparr>g_start = 0x16B30, g_end = 0x16B36, g_property = GCB_EXTEND\<rparr>,
     \<lparr>g_start = 0x16D63, g_end = 0x16D63, g_property = GCB_V\<rparr>,
     \<lparr>g_start = 0x16D67, g_end = 0x16D6A, g_property = GCB_V\<rparr>,
     \<lparr>g_start = 0x16F4F, g_end = 0x16F4F, g_property = GCB_EXTEND\<rparr>,
     \<lparr>g_start = 0x16F51, g_end = 0x16F87, g_property = GCB_SPACING_MARK\<rparr>,
     \<lparr>g_start = 0x16F8F, g_end = 0x16F92, g_property = GCB_EXTEND\<rparr>,
     \<lparr>g_start = 0x16FE4, g_end = 0x16FE4, g_property = GCB_EXTEND\<rparr>,
     \<lparr>g_start = 0x16FF0, g_end = 0x16FF1, g_property = GCB_EXTEND\<rparr>,
     \<lparr>g_start = 0x1BC9D, g_end = 0x1BC9E, g_property = GCB_EXTEND\<rparr>,
     \<lparr>g_start = 0x1BCA0, g_end = 0x1BCA3, g_property = GCB_CONTROL\<rparr>,
     \<lparr>g_start = 0x1CF00, g_end = 0x1CF46, g_property = GCB_EXTEND\<rparr>,
     \<lparr>g_start = 0x1D165, g_end = 0x1D172, g_property = GCB_EXTEND\<rparr>,
     \<lparr>g_start = 0x1D173, g_end = 0x1D17A, g_property = GCB_CONTROL\<rparr>,
     \<lparr>g_start = 0x1D17B, g_end = 0x1D1AD, g_property = GCB_EXTEND\<rparr>,
     \<lparr>g_start = 0x1D242, g_end = 0x1D244, g_property = GCB_EXTEND\<rparr>,
     \<lparr>g_start = 0x1DA00, g_end = 0x1DA36, g_property = GCB_EXTEND\<rparr>,
     \<lparr>g_start = 0x1DA3B, g_end = 0x1DA6C, g_property = GCB_EXTEND\<rparr>,
     \<lparr>g_start = 0x1DA75, g_end = 0x1DA75, g_property = GCB_EXTEND\<rparr>,
     \<lparr>g_start = 0x1DA84, g_end = 0x1DA84, g_property = GCB_EXTEND\<rparr>,
     \<lparr>g_start = 0x1DA9B, g_end = 0x1DAAF, g_property = GCB_EXTEND\<rparr>,
     \<lparr>g_start = 0x1E000, g_end = 0x1E02A, g_property = GCB_EXTEND\<rparr>,
     \<lparr>g_start = 0x1E08F, g_end = 0x1E08F, g_property = GCB_EXTEND\<rparr>,
     \<lparr>g_start = 0x1E130, g_end = 0x1E136, g_property = GCB_EXTEND\<rparr>,
     \<lparr>g_start = 0x1E2AE, g_end = 0x1E2AE, g_property = GCB_EXTEND\<rparr>,
     \<lparr>g_start = 0x1E2EC, g_end = 0x1E2EF, g_property = GCB_EXTEND\<rparr>,
     \<lparr>g_start = 0x1E4EC, g_end = 0x1E4EF, g_property = GCB_EXTEND\<rparr>,
     \<lparr>g_start = 0x1E5EE, g_end = 0x1E5EF, g_property = GCB_EXTEND\<rparr>,
     \<lparr>g_start = 0x1E6E3, g_end = 0x1E6F5, g_property = GCB_EXTEND\<rparr>,
     \<lparr>g_start = 0x1E8D0, g_end = 0x1E8D6, g_property = GCB_EXTEND\<rparr>,
     \<lparr>g_start = 0x1E944, g_end = 0x1E94A, g_property = GCB_EXTEND\<rparr>,
     \<lparr>g_start = 0x1F1E6, g_end = 0x1F1FF, g_property = GCB_REGIONAL_INDICATOR\<rparr>,
     \<lparr>g_start = 0x1F3FB, g_end = 0x1F3FF, g_property = GCB_EXTEND\<rparr>,
     \<lparr>g_start = 0xE0000, g_end = 0xE0FFF, g_property = GCB_CONTROL\<rparr>,
     \<lparr>g_start = 0xE0020, g_end = 0xE007F, g_property = GCB_EXTEND\<rparr>,
     \<lparr>g_start = 0xE0100, g_end = 0xE01EF, g_property = GCB_EXTEND\<rparr>
    ]"

definition INCB_LINKERS :: "32 word list" where
  "INCB_LINKERS =
    [
     0x094D, 0x09CD, 0x0ACD, 0x0B4D, 0x0C4D, 0x0D4D, 0x1039, 0x103A,
     0x1714, 0x1715, 0x17D2, 0x1A60, 0x1B44, 0x1BAA, 0x1BAB, 0xA806,
     0xA8C4, 0xA9C0, 0xAAF6, 0x10A3F, 0x11046, 0x110B9, 0x11133, 0x11134,
     0x111C0, 0x11235, 0x1134D, 0x11442, 0x114C2, 0x115BF, 0x1163F, 0x116B6,
     0x1172B, 0x11839, 0x119E0, 0x11A34, 0x11A47, 0x11A99, 0x11C3F, 0x11D45,
     0x11D97, 0x11F41, 0x11F42
    ]"

definition INCB_CONSONANTS :: "utflite_unicode_range list" where
  "INCB_CONSONANTS =
    [
     \<lparr>r_start = 0x0915, r_end = 0x0939\<rparr>, \<lparr>r_start = 0x0958, r_end = 0x095F\<rparr>,
     \<lparr>r_start = 0x0978, r_end = 0x097F\<rparr>, \<lparr>r_start = 0x0995, r_end = 0x09A8\<rparr>,
     \<lparr>r_start = 0x09AA, r_end = 0x09B0\<rparr>, \<lparr>r_start = 0x09B2, r_end = 0x09B2\<rparr>,
     \<lparr>r_start = 0x09B6, r_end = 0x09B9\<rparr>, \<lparr>r_start = 0x09DC, r_end = 0x09DD\<rparr>,
     \<lparr>r_start = 0x09DF, r_end = 0x09E1\<rparr>, \<lparr>r_start = 0x09F0, r_end = 0x09F1\<rparr>,
     \<lparr>r_start = 0x0A15, r_end = 0x0A28\<rparr>, \<lparr>r_start = 0x0A2A, r_end = 0x0A30\<rparr>,
     \<lparr>r_start = 0x0A32, r_end = 0x0A33\<rparr>, \<lparr>r_start = 0x0A35, r_end = 0x0A36\<rparr>,
     \<lparr>r_start = 0x0A38, r_end = 0x0A39\<rparr>, \<lparr>r_start = 0x0A59, r_end = 0x0A5C\<rparr>,
     \<lparr>r_start = 0x0A5E, r_end = 0x0A5E\<rparr>, \<lparr>r_start = 0x0A72, r_end = 0x0A74\<rparr>,
     \<lparr>r_start = 0x0A95, r_end = 0x0AA8\<rparr>, \<lparr>r_start = 0x0AAA, r_end = 0x0AB0\<rparr>,
     \<lparr>r_start = 0x0AB2, r_end = 0x0AB3\<rparr>, \<lparr>r_start = 0x0AB5, r_end = 0x0AB9\<rparr>,
     \<lparr>r_start = 0x0AE0, r_end = 0x0AE1\<rparr>, \<lparr>r_start = 0x0B15, r_end = 0x0B28\<rparr>,
     \<lparr>r_start = 0x0B2A, r_end = 0x0B30\<rparr>, \<lparr>r_start = 0x0B32, r_end = 0x0B33\<rparr>,
     \<lparr>r_start = 0x0B35, r_end = 0x0B39\<rparr>, \<lparr>r_start = 0x0B5C, r_end = 0x0B5D\<rparr>,
     \<lparr>r_start = 0x0B5F, r_end = 0x0B61\<rparr>, \<lparr>r_start = 0x0B71, r_end = 0x0B71\<rparr>,
     \<lparr>r_start = 0x0B95, r_end = 0x0B95\<rparr>, \<lparr>r_start = 0x0B99, r_end = 0x0B9A\<rparr>,
     \<lparr>r_start = 0x0B9C, r_end = 0x0B9C\<rparr>, \<lparr>r_start = 0x0B9E, r_end = 0x0B9F\<rparr>,
     \<lparr>r_start = 0x0BA3, r_end = 0x0BA4\<rparr>, \<lparr>r_start = 0x0BA8, r_end = 0x0BAA\<rparr>,
     \<lparr>r_start = 0x0BAE, r_end = 0x0BB9\<rparr>, \<lparr>r_start = 0x0C15, r_end = 0x0C28\<rparr>,
     \<lparr>r_start = 0x0C2A, r_end = 0x0C39\<rparr>, \<lparr>r_start = 0x0C58, r_end = 0x0C5A\<rparr>,
     \<lparr>r_start = 0x0C5D, r_end = 0x0C5D\<rparr>, \<lparr>r_start = 0x0C60, r_end = 0x0C61\<rparr>,
     \<lparr>r_start = 0x0C95, r_end = 0x0CA8\<rparr>, \<lparr>r_start = 0x0CAA, r_end = 0x0CB3\<rparr>,
     \<lparr>r_start = 0x0CB5, r_end = 0x0CB9\<rparr>, \<lparr>r_start = 0x0CDD, r_end = 0x0CDE\<rparr>,
     \<lparr>r_start = 0x0CE0, r_end = 0x0CE1\<rparr>, \<lparr>r_start = 0x0D15, r_end = 0x0D3A\<rparr>,
     \<lparr>r_start = 0x0D54, r_end = 0x0D56\<rparr>, \<lparr>r_start = 0x0D5F, r_end = 0x0D61\<rparr>,
     \<lparr>r_start = 0x0D7A, r_end = 0x0D7F\<rparr>, \<lparr>r_start = 0x1000, r_end = 0x1025\<rparr>,
     \<lparr>r_start = 0x1027, r_end = 0x1027\<rparr>, \<lparr>r_start = 0x1029, r_end = 0x102A\<rparr>,
     \<lparr>r_start = 0x1050, r_end = 0x1055\<rparr>, \<lparr>r_start = 0x105A, r_end = 0x105D\<rparr>,
     \<lparr>r_start = 0x1061, r_end = 0x1061\<rparr>, \<lparr>r_start = 0x1065, r_end = 0x1066\<rparr>,
     \<lparr>r_start = 0x106E, r_end = 0x1070\<rparr>, \<lparr>r_start = 0x1075, r_end = 0x1081\<rparr>,
     \<lparr>r_start = 0x108E, r_end = 0x108E\<rparr>, \<lparr>r_start = 0x1703, r_end = 0x170C\<rparr>,
     \<lparr>r_start = 0x170E, r_end = 0x1711\<rparr>, \<lparr>r_start = 0x1780, r_end = 0x17A2\<rparr>,
     \<lparr>r_start = 0x17A5, r_end = 0x17A7\<rparr>, \<lparr>r_start = 0x17A9, r_end = 0x17B3\<rparr>,
     \<lparr>r_start = 0x1901, r_end = 0x1922\<rparr>, \<lparr>r_start = 0x1930, r_end = 0x1931\<rparr>,
     \<lparr>r_start = 0x1950, r_end = 0x196D\<rparr>, \<lparr>r_start = 0x1980, r_end = 0x19A9\<rparr>,
     \<lparr>r_start = 0x19C1, r_end = 0x19C7\<rparr>, \<lparr>r_start = 0x1A00, r_end = 0x1A16\<rparr>,
     \<lparr>r_start = 0x1A20, r_end = 0x1A4C\<rparr>, \<lparr>r_start = 0x1B05, r_end = 0x1B33\<rparr>,
     \<lparr>r_start = 0x1B83, r_end = 0x1BA0\<rparr>, \<lparr>r_start = 0xA807, r_end = 0xA80A\<rparr>,
     \<lparr>r_start = 0xA80C, r_end = 0xA822\<rparr>, \<lparr>r_start = 0xA882, r_end = 0xA8B3\<rparr>,
     \<lparr>r_start = 0xA90A, r_end = 0xA925\<rparr>, \<lparr>r_start = 0xA930, r_end = 0xA946\<rparr>,
     \<lparr>r_start = 0xA989, r_end = 0xA98B\<rparr>, \<lparr>r_start = 0xA98D, r_end = 0xA9B2\<rparr>,
     \<lparr>r_start = 0xAA00, r_end = 0xAA28\<rparr>, \<lparr>r_start = 0xAA60, r_end = 0xAA6F\<rparr>,
     \<lparr>r_start = 0xAA71, r_end = 0xAA76\<rparr>, \<lparr>r_start = 0xAAE0, r_end = 0xAAEA\<rparr>,
     \<lparr>r_start = 0x10A00, r_end = 0x10A00\<rparr>, \<lparr>r_start = 0x10A10, r_end = 0x10A13\<rparr>,
     \<lparr>r_start = 0x10A15, r_end = 0x10A17\<rparr>, \<lparr>r_start = 0x10A19, r_end = 0x10A35\<rparr>,
     \<lparr>r_start = 0x11005, r_end = 0x11037\<rparr>, \<lparr>r_start = 0x11071, r_end = 0x11072\<rparr>,
     \<lparr>r_start = 0x11075, r_end = 0x11075\<rparr>, \<lparr>r_start = 0x11083, r_end = 0x110AF\<rparr>,
     \<lparr>r_start = 0x11107, r_end = 0x1112B\<rparr>, \<lparr>r_start = 0x11150, r_end = 0x11172\<rparr>,
     \<lparr>r_start = 0x11183, r_end = 0x111B2\<rparr>, \<lparr>r_start = 0x111C1, r_end = 0x111C4\<rparr>,
     \<lparr>r_start = 0x11200, r_end = 0x11211\<rparr>, \<lparr>r_start = 0x11213, r_end = 0x1122B\<rparr>,
     \<lparr>r_start = 0x1123F, r_end = 0x11240\<rparr>, \<lparr>r_start = 0x11284, r_end = 0x11286\<rparr>,
     \<lparr>r_start = 0x11288, r_end = 0x11288\<rparr>, \<lparr>r_start = 0x1128A, r_end = 0x1128D\<rparr>,
     \<lparr>r_start = 0x1128F, r_end = 0x1129D\<rparr>, \<lparr>r_start = 0x1129F, r_end = 0x112A8\<rparr>,
     \<lparr>r_start = 0x11305, r_end = 0x1130C\<rparr>, \<lparr>r_start = 0x1130F, r_end = 0x11310\<rparr>,
     \<lparr>r_start = 0x11313, r_end = 0x11328\<rparr>, \<lparr>r_start = 0x1132A, r_end = 0x11330\<rparr>,
     \<lparr>r_start = 0x11332, r_end = 0x11333\<rparr>, \<lparr>r_start = 0x11335, r_end = 0x11339\<rparr>,
     \<lparr>r_start = 0x1135D, r_end = 0x11361\<rparr>, \<lparr>r_start = 0x11400, r_end = 0x11434\<rparr>,
     \<lparr>r_start = 0x11447, r_end = 0x1144A\<rparr>, \<lparr>r_start = 0x11481, r_end = 0x114AF\<rparr>,
     \<lparr>r_start = 0x114C4, r_end = 0x114C5\<rparr>, \<lparr>r_start = 0x114C7, r_end = 0x114C7\<rparr>,
     \<lparr>r_start = 0x11580, r_end = 0x115AE\<rparr>, \<lparr>r_start = 0x115D8, r_end = 0x115DB\<rparr>,
     \<lparr>r_start = 0x11600, r_end = 0x1162F\<rparr>, \<lparr>r_start = 0x11644, r_end = 0x11644\<rparr>,
     \<lparr>r_start = 0x11680, r_end = 0x116AA\<rparr>, \<lparr>r_start = 0x116B8, r_end = 0x116B8\<rparr>,
     \<lparr>r_start = 0x11700, r_end = 0x1171A\<rparr>, \<lparr>r_start = 0x11800, r_end = 0x1182B\<rparr>,
     \<lparr>r_start = 0x11912, r_end = 0x11935\<rparr>, \<lparr>r_start = 0x11937, r_end = 0x11938\<rparr>,
     \<lparr>r_start = 0x119A0, r_end = 0x119A7\<rparr>, \<lparr>r_start = 0x119AA, r_end = 0x119D0\<rparr>,
     \<lparr>r_start = 0x11A0B, r_end = 0x11A32\<rparr>, \<lparr>r_start = 0x11A5C, r_end = 0x11A89\<rparr>,
     \<lparr>r_start = 0x11C00, r_end = 0x11C08\<rparr>, \<lparr>r_start = 0x11C0A, r_end = 0x11C2E\<rparr>,
     \<lparr>r_start = 0x11C72, r_end = 0x11C8F\<rparr>, \<lparr>r_start = 0x11D00, r_end = 0x11D06\<rparr>,
     \<lparr>r_start = 0x11D08, r_end = 0x11D09\<rparr>, \<lparr>r_start = 0x11D0B, r_end = 0x11D30\<rparr>,
     \<lparr>r_start = 0x11D60, r_end = 0x11D65\<rparr>, \<lparr>r_start = 0x11D67, r_end = 0x11D68\<rparr>,
     \<lparr>r_start = 0x11D6A, r_end = 0x11D89\<rparr>, \<lparr>r_start = 0x11EE0, r_end = 0x11EF2\<rparr>,
     \<lparr>r_start = 0x11F02, r_end = 0x11F02\<rparr>, \<lparr>r_start = 0x11F04, r_end = 0x11F10\<rparr>,
     \<lparr>r_start = 0x11F12, r_end = 0x11F33\<rparr>
    ]"

definition ZERO_WIDTH_COUNT :: int where
  "ZERO_WIDTH_COUNT = int (length ZERO_WIDTH_RANGES)"

definition DOUBLE_WIDTH_COUNT :: int where
  "DOUBLE_WIDTH_COUNT = int (length DOUBLE_WIDTH_RANGES)"

definition GCB_RANGE_COUNT :: int where
  "GCB_RANGE_COUNT = int (length GCB_RANGES)"

definition INCB_LINKER_COUNT :: int where
  "INCB_LINKER_COUNT = int (length INCB_LINKERS)"

definition INCB_CONSONANT_COUNT :: int where
  "INCB_CONSONANT_COUNT = int (length INCB_CONSONANTS)"

section \<open>Range and property lookup\<close>

text \<open>C's \<^verbatim>\<open>/\<close> on \<^verbatim>\<open>int\<close> truncates towards zero (\<open>sdiv\<close>); between two
  indices with \<open>low \<le> high\<close> the midpoint stays between them.\<close>

lemma sdiv2_between:
  fixes low high :: int
  assumes "low \<le> high"
  shows "low \<le> (low + high) sdiv 2 \<and> (low + high) sdiv 2 \<le> high"
proof (cases "0 \<le> low + high")
  case True
  then have "(low + high) sdiv 2 = (low + high) div 2"
    by (simp add: signed_divide_int_def sgn_if)
  with assms show ?thesis by linarith
next
  case False
  then have "(low + high) sdiv 2 = - ((- (low + high)) div 2)"
    by (simp add: signed_divide_int_def sgn_if)
  with assms False show ?thesis by linarith
qed

text \<open>\<^verbatim>\<open>unicode_range_contains\<close>: the \<^verbatim>\<open>while (low <= high)\<close> loop, then the
  function.  \<^verbatim>\<open>ranges[mid]\<close> is \<open>ranges ! nat mid\<close>; every caller passes the table's
  own element count, so \<open>mid\<close> is an index of the table.\<close>

function unicode_range_contains_loop ::
    "32 word \<Rightarrow> utflite_unicode_range list \<Rightarrow> int \<Rightarrow> int \<Rightarrow> int" where
  "unicode_range_contains_loop codepoint ranges low high =
     (if low \<le> high then
        (let mid = (low + high) sdiv 2 in
         if codepoint < r_start (ranges ! nat mid) then
           unicode_range_contains_loop codepoint ranges low (mid - 1)
         else if codepoint > r_end (ranges ! nat mid) then
           unicode_range_contains_loop codepoint ranges (mid + 1) high
         else 1)
      else 0)"
  by pat_completeness auto
termination
proof (relation "measure (\<lambda>(codepoint, ranges, low, high). nat (high - low + 1))")
  show "wf (measure (\<lambda>(codepoint, ranges, low, high). nat (high - low + 1)))"
    by simp
next
  fix codepoint :: "32 word" and ranges :: "utflite_unicode_range list"
    and low high mid :: int
  assume "low \<le> high" "mid = (low + high) sdiv 2"
  then show "((codepoint, ranges, low, mid - 1), (codepoint, ranges, low, high))
    \<in> measure (\<lambda>(codepoint, ranges, low, high). nat (high - low + 1))"
    using sdiv2_between [of low high] by simp
next
  fix codepoint :: "32 word" and ranges :: "utflite_unicode_range list"
    and low high mid :: int
  assume "low \<le> high" "mid = (low + high) sdiv 2"
  then show "((codepoint, ranges, mid + 1, high), (codepoint, ranges, low, high))
    \<in> measure (\<lambda>(codepoint, ranges, low, high). nat (high - low + 1))"
    using sdiv2_between [of low high] by simp
qed

declare unicode_range_contains_loop.simps [simp del]

definition unicode_range_contains ::
    "32 word \<Rightarrow> utflite_unicode_range list \<Rightarrow> int \<Rightarrow> int" where
  "unicode_range_contains codepoint ranges count =
     unicode_range_contains_loop codepoint ranges 0 (count - 1)"

text \<open>\<^verbatim>\<open>get_gcb\<close>: Hangul syllables first, then the binary search in
  \<^verbatim>\<open>GCB_RANGES\<close>.\<close>

function get_gcb_loop :: "32 word \<Rightarrow> int \<Rightarrow> int \<Rightarrow> gcb_property" where
  "get_gcb_loop cp low high =
     (if low \<le> high then
        (let mid = (low + high) sdiv 2 in
         if cp < g_start (GCB_RANGES ! nat mid) then get_gcb_loop cp low (mid - 1)
         else if cp > g_end (GCB_RANGES ! nat mid) then get_gcb_loop cp (mid + 1) high
         else g_property (GCB_RANGES ! nat mid))
      else GCB_OTHER)"
  by pat_completeness auto
termination
proof (relation "measure (\<lambda>(cp, low, high). nat (high - low + 1))")
  show "wf (measure (\<lambda>(cp, low, high). nat (high - low + 1)))"
    by simp
next
  fix cp :: "32 word" and low high mid :: int
  assume "low \<le> high" "mid = (low + high) sdiv 2"
  then show "((cp, low, mid - 1), (cp, low, high))
    \<in> measure (\<lambda>(cp, low, high). nat (high - low + 1))"
    using sdiv2_between [of low high] by simp
next
  fix cp :: "32 word" and low high mid :: int
  assume "low \<le> high" "mid = (low + high) sdiv 2"
  then show "((cp, mid + 1, high), (cp, low, high))
    \<in> measure (\<lambda>(cp, low, high). nat (high - low + 1))"
    using sdiv2_between [of low high] by simp
qed

declare get_gcb_loop.simps [simp del]

definition get_gcb :: "32 word \<Rightarrow> gcb_property" where
  "get_gcb cp =
     (if cp \<ge> HANGUL_SBASE \<and> cp \<le> HANGUL_SEND then
        (if (cp - HANGUL_SBASE) mod HANGUL_TCOUNT = 0 then GCB_LV else GCB_LVT)
      else get_gcb_loop cp 0 (GCB_RANGE_COUNT - 1))"

definition is_extended_pictographic :: "32 word \<Rightarrow> int" where
  "is_extended_pictographic cp =
     unicode_range_contains cp DOUBLE_WIDTH_RANGES DOUBLE_WIDTH_COUNT"

function is_incb_linker_loop :: "32 word \<Rightarrow> int \<Rightarrow> int \<Rightarrow> int" where
  "is_incb_linker_loop cp low high =
     (if low \<le> high then
        (let mid = (low + high) sdiv 2 in
         if cp < INCB_LINKERS ! nat mid then is_incb_linker_loop cp low (mid - 1)
         else if cp > INCB_LINKERS ! nat mid then is_incb_linker_loop cp (mid + 1) high
         else 1)
      else 0)"
  by pat_completeness auto
termination
proof (relation "measure (\<lambda>(cp, low, high). nat (high - low + 1))")
  show "wf (measure (\<lambda>(cp, low, high). nat (high - low + 1)))"
    by simp
next
  fix cp :: "32 word" and low high mid :: int
  assume "low \<le> high" "mid = (low + high) sdiv 2"
  then show "((cp, low, mid - 1), (cp, low, high))
    \<in> measure (\<lambda>(cp, low, high). nat (high - low + 1))"
    using sdiv2_between [of low high] by simp
next
  fix cp :: "32 word" and low high mid :: int
  assume "low \<le> high" "mid = (low + high) sdiv 2"
  then show "((cp, mid + 1, high), (cp, low, high))
    \<in> measure (\<lambda>(cp, low, high). nat (high - low + 1))"
    using sdiv2_between [of low high] by simp
qed

declare is_incb_linker_loop.simps [simp del]

definition is_incb_linker :: "32 word \<Rightarrow> int" where
  "is_incb_linker cp = is_incb_linker_loop cp 0 (INCB_LINKER_COUNT - 1)"

definition is_incb_consonant :: "32 word \<Rightarrow> int" where
  "is_incb_consonant cp = unicode_range_contains cp INCB_CONSONANTS INCB_CONSONANT_COUNT"

section \<open>The grapheme-boundary decision\<close>

text \<open>\<^verbatim>\<open>is_grapheme_break\<close>, rule by rule in the order of the source.  The C function
  returns an \<^verbatim>\<open>int\<close> used as a truth value; \<^verbatim>\<open>in_ext_pict\<close> is an \<^verbatim>\<open>int\<close> tested
  for being nonzero, and \<^verbatim>\<open>ri_count % 2\<close> is C's truncating remainder (\<open>smod\<close>).\<close>

definition is_grapheme_break ::
    "gcb_property \<Rightarrow> gcb_property \<Rightarrow> int \<Rightarrow> int \<Rightarrow> 32 word \<Rightarrow> int \<Rightarrow> int" where
  "is_grapheme_break prev_prop curr_prop ri_count in_ext_pict curr_cp incb_state =
     (if prev_prop = GCB_CR \<and> curr_prop = GCB_LF then 0
      else if prev_prop = GCB_CONTROL \<or> prev_prop = GCB_CR \<or> prev_prop = GCB_LF then 1
      else if curr_prop = GCB_CONTROL \<or> curr_prop = GCB_CR \<or> curr_prop = GCB_LF then 1
      else if prev_prop = GCB_L \<and>
              (curr_prop = GCB_L \<or> curr_prop = GCB_V \<or>
               curr_prop = GCB_LV \<or> curr_prop = GCB_LVT) then 0
      else if (prev_prop = GCB_LV \<or> prev_prop = GCB_V) \<and>
              (curr_prop = GCB_V \<or> curr_prop = GCB_T) then 0
      else if (prev_prop = GCB_LVT \<or> prev_prop = GCB_T) \<and> curr_prop = GCB_T then 0
      else if curr_prop = GCB_EXTEND \<or> curr_prop = GCB_ZWJ then 0
      else if curr_prop = GCB_SPACING_MARK then 0
      else if prev_prop = GCB_PREPEND then 0
      else if incb_state = 2 \<and> is_incb_consonant curr_cp \<noteq> 0 then 0
      else if in_ext_pict \<noteq> 0 \<and> prev_prop = GCB_ZWJ \<and>
              is_extended_pictographic curr_cp \<noteq> 0 then 0
      else if prev_prop = GCB_REGIONAL_INDICATOR \<and> curr_prop = GCB_REGIONAL_INDICATOR then
        (if ri_count smod 2 = 0 then 1 else 0)
      else 1)"

section \<open>Byte codec\<close>

text \<open>The loop \<^verbatim>\<open>for (i = 1; i < sequence_length; i++)\<close> of \<^verbatim>\<open>utflite_decode\<close>:
  \<open>None\<close> is the early return on a byte that is not a continuation byte, \<open>Some cp\<close> the
  accumulated value when the loop runs to its end.\<close>

function decode_continuation ::
    "memory \<Rightarrow> addr \<Rightarrow> int \<Rightarrow> int \<Rightarrow> 32 word \<Rightarrow> 32 word option" where
  "decode_continuation mem bytes sequence_length i cp =
     (if i < sequence_length then
        (let byte = mem (bytes + i) in
         if byte AND 0xC0 \<noteq> 0x80 then None
         else decode_continuation mem bytes sequence_length (i + 1)
                (push_bit 6 cp OR ucast (byte AND 0x3F)))
      else Some cp)"
  by pat_completeness auto
termination
  by (relation "measure (\<lambda>(mem, bytes, sequence_length, i, cp). nat (sequence_length - i))")
     auto

declare decode_continuation.simps [simp del]

text \<open>\<^verbatim>\<open>utflite_decode\<close> returns the pair of the value stored in \<^verbatim>\<open>*codepoint\<close> and
  the returned byte count.\<close>

definition utflite_decode :: "memory \<Rightarrow> addr \<Rightarrow> int \<Rightarrow> 32 word \<times> int" where
  "utflite_decode mem bytes len =
     (if len \<le> 0 \<or> bytes = NULL then (UTFLITE_REPLACEMENT_CHAR, 1)
      else
        (let first = mem bytes in
         if first < 0x80 then (ucast first, 1)
         else
           (case (if first AND 0xE0 = 0xC0 then Some (2, ucast (first AND 0x1F))
                  else if first AND 0xF0 = 0xE0 then Some (3, ucast (first AND 0x0F))
                  else if first AND 0xF8 = 0xF0 then Some (4, ucast (first AND 0x07))
                  else None) of
              None \<Rightarrow> (UTFLITE_REPLACEMENT_CHAR, 1)
            | Some (sequence_length, cp0) \<Rightarrow>
                if len < sequence_length then (UTFLITE_REPLACEMENT_CHAR, 1)
                else
                  (case decode_continuation mem bytes sequence_length 1 cp0 of
                     None \<Rightarrow> (UTFLITE_REPLACEMENT_CHAR, 1)
                   | Some cp \<Rightarrow>
                       if (sequence_length = 2 \<and> cp < 0x80) \<or>
                          (sequence_length = 3 \<and> cp < 0x800) \<or>
                          (sequence_length = 4 \<and> cp < 0x10000)
                       then (UTFLITE_REPLACEMENT_CHAR, sequence_length)
                       else if cp \<ge> 0xD800 \<and> cp \<le> 0xDFFF
                       then (UTFLITE_REPLACEMENT_CHAR, sequence_length)
                       else if cp > 0x10FFFF
                       then (UTFLITE_REPLACEMENT_CHAR, sequence_length)
                       else (cp, sequence_length)))))"

text \<open>\<^verbatim>\<open>utflite_encode\<close> returns the memory after its stores to \<^verbatim>\<open>buffer[0..3]\<close> and
  the returned byte count; \<^verbatim>\<open>(char)\<close> keeps the low eight bits.\<close>

definition utflite_encode :: "memory \<Rightarrow> 32 word \<Rightarrow> addr \<Rightarrow> memory \<times> int" where
  "utflite_encode mem codepoint buffer =
     (if codepoint < 0x80 then
        (mem (buffer := ucast codepoint), 1)
      else if codepoint < 0x800 then
        (mem (buffer := ucast (0xC0 OR drop_bit 6 codepoint),
              buffer + 1 := ucast (0x80 OR (codepoint AND 0x3F))), 2)
      else if codepoint < 0x10000 then
        (if codepoint \<ge> 0xD800 \<and> codepoint \<le> 0xDFFF then (mem, 0)
         else
           (mem (buffer := ucast (0xE0 OR drop_bit 12 codepoint),
                 buffer + 1 := ucast (0x80 OR (drop_bit 6 codepoint AND 0x3F)),
                 buffer + 2 := ucast (0x80 OR (codepoint AND 0x3F))), 3))
      else if codepoint \<le> 0x10FFFF then
        (mem (buffer := ucast (0xF0 OR drop_bit 18 codepoint),
              buffer + 1 := ucast (0x80 OR (drop_bit 12 codepoint AND 0x3F)),
              buffer + 2 := ucast (0x80 OR (drop_bit 6 codepoint AND 0x3F)),
              buffer + 3 := ucast (0x80 OR (codepoint AND 0x3F))), 4)
      else (mem, 0))"

section \<open>Character width\<close>

definition utflite_codepoint_width :: "32 word \<Rightarrow> int" where
  "utflite_codepoint_width codepoint =
     (if codepoint < 0x20 then (if codepoint = 0x00 then 0 else - 1)
      else if codepoint < 0x7F then 1
      else if codepoint = 0x7F then - 1
      else if codepoint < 0xA0 then - 1
      else if codepoint = 0x00AD then 1
      else if unicode_range_contains codepoint ZERO_WIDTH_RANGES ZERO_WIDTH_COUNT \<noteq> 0 then 0
      else if unicode_range_contains codepoint DOUBLE_WIDTH_RANGES DOUBLE_WIDTH_COUNT \<noteq> 0 then 2
      else 1)"

definition utflite_char_width :: "memory \<Rightarrow> addr \<Rightarrow> int \<Rightarrow> int \<Rightarrow> int" where
  "utflite_char_width mem text len offset =
     (if offset \<ge> len then 0
      else utflite_codepoint_width (fst (utflite_decode mem (text + offset) (len - offset))))"

definition utflite_is_zero_width :: "32 word \<Rightarrow> int" where
  "utflite_is_zero_width codepoint =
     unicode_range_contains codepoint ZERO_WIDTH_RANGES ZERO_WIDTH_COUNT"

definition utflite_is_wide :: "32 word \<Rightarrow> int" where
  "utflite_is_wide codepoint =
     unicode_range_contains codepoint DOUBLE_WIDTH_RANGES DOUBLE_WIDTH_COUNT"

section \<open>String navigation\<close>

definition utflite_next_char :: "memory \<Rightarrow> addr \<Rightarrow> int \<Rightarrow> int \<Rightarrow> int" where
  "utflite_next_char mem text len offset =
     (if offset \<ge> len then len
      else
        (let char_bytes = snd (utflite_decode mem (text + offset) (len - offset));
             next_offset = offset + char_bytes
         in if next_offset > len then len else next_offset))"

text \<open>The \<^verbatim>\<open>while\<close> loop of \<^verbatim>\<open>utflite_prev_char\<close>; \<^verbatim>\<open>&&\<close> reads \<^verbatim>\<open>text[pos]\<close>
  only when \<open>pos > limit\<close>.\<close>

function prev_char_loop :: "memory \<Rightarrow> addr \<Rightarrow> int \<Rightarrow> int \<Rightarrow> int" where
  "prev_char_loop mem text limit pos =
     (if pos > limit \<and> mem (text + pos) AND 0xC0 = 0x80
      then prev_char_loop mem text limit (pos - 1)
      else pos)"
  by pat_completeness auto
termination
  by (relation "measure (\<lambda>(mem, text, limit, pos). nat (pos - limit))") auto

declare prev_char_loop.simps [simp del]

definition utflite_prev_char :: "memory \<Rightarrow> addr \<Rightarrow> int \<Rightarrow> int" where
  "utflite_prev_char mem text offset =
     (if offset \<le> 0 then 0
      else
        (let pos = offset - 1;
             limit = (if offset > 4 then offset - 4 else 0)
         in prev_char_loop mem text limit pos))"

text \<open>Every decode reports between 1 and 4 bytes; this is what makes the loops below
  terminate.\<close>

lemma decode_bytes_range:
  "1 \<le> snd (utflite_decode mem bytes len) \<and> snd (utflite_decode mem bytes len) \<le> 4"
  by (simp add: utflite_decode_def Let_def split: option.splits)

lemma decode_bytes_pos: "0 < snd (utflite_decode mem bytes len)"
  using decode_bytes_range [of mem bytes len] by simp

lemma decode_bytes_le_len:
  "1 \<le> len \<Longrightarrow> snd (utflite_decode mem bytes len) \<le> len"
  by (auto simp add: utflite_decode_def Let_def split: option.splits)

lemma next_char_gt:
  "offset < len \<Longrightarrow> offset < utflite_next_char mem text len offset"
  using decode_bytes_range [of mem "text + offset" "len - offset"]
  by (simp add: utflite_next_char_def Let_def)

lemma next_char_le:
  "offset < len \<Longrightarrow> utflite_next_char mem text len offset \<le> len"
  by (simp add: utflite_next_char_def Let_def)

section \<open>Grapheme cluster navigation\<close>

text \<open>The \<^verbatim>\<open>while (next_offset < length)\<close> loop of \<^verbatim>\<open>utflite_next_grapheme\<close>.  Its
  state is the offset, the previous property and the three pieces of scan state; the
  variable \<^verbatim>\<open>prev_cp\<close> is assigned in the loop but never read there.\<close>

function next_grapheme_loop ::
    "memory \<Rightarrow> addr \<Rightarrow> int \<Rightarrow> int \<Rightarrow> gcb_property \<Rightarrow> int \<Rightarrow> int \<Rightarrow> int \<Rightarrow> int" where
  "next_grapheme_loop mem text len next_offset prev_prop ri_count in_ext_pict incb_state =
     (if next_offset < len then
        (let d = utflite_decode mem (text + next_offset) (len - next_offset);
             curr_cp = fst d;
             bytes = snd d;
             curr_prop = get_gcb curr_cp
         in
           if is_grapheme_break prev_prop curr_prop ri_count in_ext_pict curr_cp incb_state \<noteq> 0
           then next_offset
           else
             next_grapheme_loop mem text len (next_offset + bytes) curr_prop
               (if curr_prop = GCB_REGIONAL_INDICATOR then ri_count + 1
                else if curr_prop \<noteq> GCB_EXTEND \<and> curr_prop \<noteq> GCB_ZWJ then 0
                else ri_count)
               (if is_extended_pictographic curr_cp \<noteq> 0 then 1
                else if curr_prop \<noteq> GCB_EXTEND \<and> curr_prop \<noteq> GCB_ZWJ then 0
                else in_ext_pict)
               (if is_incb_consonant curr_cp \<noteq> 0 then 1
                else if is_incb_linker curr_cp \<noteq> 0 \<and> incb_state \<ge> 1 then 2
                else if curr_prop \<noteq> GCB_EXTEND \<and> curr_prop \<noteq> GCB_ZWJ then 0
                else incb_state))
      else len)"
  by pat_completeness auto
termination
  by (relation "measure (\<lambda>(mem, text, len, next_offset, rest). nat (len - next_offset))")
     (auto simp: decode_bytes_pos)

declare next_grapheme_loop.simps [simp del]

definition utflite_next_grapheme :: "memory \<Rightarrow> addr \<Rightarrow> int \<Rightarrow> int \<Rightarrow> int" where
  "utflite_next_grapheme mem text len offset =
     (if text = NULL \<or> offset \<ge> len \<or> offset < 0 then len
      else
        (let d = utflite_decode mem (text + offset) (len - offset);
             prev_cp = fst d;
             bytes = snd d;
             next_offset = offset + bytes
         in
           if next_offset \<ge> len then len
           else
             (let prev_prop = get_gcb prev_cp;
                  ri_count = (if prev_prop = GCB_REGIONAL_INDICATOR then 1 else 0);
                  in_ext_pict = is_extended_pictographic prev_cp;
                  incb_state = (if is_incb_consonant prev_cp \<noteq> 0 then 1 else 0)
              in next_grapheme_loop mem text len next_offset prev_prop
                   ri_count in_ext_pict incb_state)))"

lemma next_grapheme_loop_result:
  "next_grapheme_loop mem text len next_offset prev_prop ri_count in_ext_pict incb_state = len
   \<or> (next_offset \<le> next_grapheme_loop mem text len next_offset prev_prop ri_count
          in_ext_pict incb_state
      \<and> next_grapheme_loop mem text len next_offset prev_prop ri_count
          in_ext_pict incb_state < len)"
proof (induction mem "text" len next_offset prev_prop ri_count in_ext_pict incb_state
    rule: next_grapheme_loop.induct)
  case (1 mem tp len next_offset prev_prop ri_count in_ext_pict incb_state)
  let ?r = "next_grapheme_loop mem tp len next_offset prev_prop ri_count in_ext_pict
    incb_state"
  show ?case
  proof (cases "next_offset < len")
    case False
    then have "?r = len"
      by (simp add: next_grapheme_loop.simps [of mem tp len next_offset])
    then show ?thesis by simp
  next
    case True
    define d where "d = utflite_decode mem (tp + next_offset) (len - next_offset)"
    show ?thesis
    proof (cases "is_grapheme_break prev_prop (get_gcb (fst d)) ri_count in_ext_pict
        (fst d) incb_state \<noteq> 0")
      case brk: True
      with True have "?r = next_offset"
        by (simp add: next_grapheme_loop.simps [of mem tp len next_offset] Let_def d_def)
      with True show ?thesis by simp
    next
      case False
      define ri where "ri = (if get_gcb (fst d) = GCB_REGIONAL_INDICATOR then ri_count + 1
         else if get_gcb (fst d) \<noteq> GCB_EXTEND \<and> get_gcb (fst d) \<noteq> GCB_ZWJ then 0
         else ri_count)"
      define ep where "ep = (if is_extended_pictographic (fst d) \<noteq> 0 then 1
         else if get_gcb (fst d) \<noteq> GCB_EXTEND \<and> get_gcb (fst d) \<noteq> GCB_ZWJ then 0
         else in_ext_pict)"
      define st where "st = (if is_incb_consonant (fst d) \<noteq> 0 then 1
         else if is_incb_linker (fst d) \<noteq> 0 \<and> incb_state \<ge> 1 then 2
         else if get_gcb (fst d) \<noteq> GCB_EXTEND \<and> get_gcb (fst d) \<noteq> GCB_ZWJ then 0
         else incb_state)"
      let ?r' = "next_grapheme_loop mem tp len (next_offset + snd d) (get_gcb (fst d))
        ri ep st"
      have pos: "0 < snd d"
        by (simp add: d_def decode_bytes_pos)
      have step: "?r = ?r'"
        using True False
        by (simp add: next_grapheme_loop.simps [of mem tp len next_offset] Let_def
            d_def [symmetric] ri_def ep_def st_def del: if_split cong: if_cong)
      have "?r' = len \<or> (next_offset + snd d \<le> ?r' \<and> ?r' < len)"
        using "1.IH" [OF True d_def refl refl refl] False
        unfolding ri_def ep_def st_def by blast
      with pos show ?thesis
        unfolding step by linarith
    qed
  qed
qed

lemma next_grapheme_result:
  "utflite_next_grapheme mem text len offset = len
   \<or> (offset < utflite_next_grapheme mem text len offset
      \<and> utflite_next_grapheme mem text len offset < len)"
proof (cases "text = NULL \<or> offset \<ge> len \<or> offset < 0")
  case True
  then show ?thesis by (simp add: utflite_next_grapheme_def)
next
  case False
  define d where "d = utflite_decode mem (text + offset) (len - offset)"
  have pos: "0 < snd d"
    by (simp add: d_def decode_bytes_pos)
  show ?thesis
  proof (cases "offset + snd d \<ge> len")
    case True
    with False show ?thesis
      by (simp add: utflite_next_grapheme_def Let_def d_def)
  next
    case nend: False
    let ?r = "next_grapheme_loop mem text len (offset + snd d) (get_gcb (fst d))
        (if get_gcb (fst d) = GCB_REGIONAL_INDICATOR then 1 else 0)
        (is_extended_pictographic (fst d))
        (if is_incb_consonant (fst d) \<noteq> 0 then 1 else 0)"
    have eq: "utflite_next_grapheme mem text len offset = ?r"
      using False nend by (simp add: utflite_next_grapheme_def Let_def d_def)
    have "?r = len \<or> (offset + snd d \<le> ?r \<and> ?r < len)"
      by (rule next_grapheme_loop_result)
    with pos show ?thesis
      unfolding eq by linarith
  qed
qed

text \<open>The two loops of \<^verbatim>\<open>utflite_prev_grapheme\<close>: the bounded rewind to a scan start,
  and the forward scan that keeps the last boundary before \<^verbatim>\<open>offset\<close>.\<close>

function prev_grapheme_rewind :: "memory \<Rightarrow> addr \<Rightarrow> int \<Rightarrow> int \<Rightarrow> int" where
  "prev_grapheme_rewind mem text scan_start remaining =
     (if remaining > 0 \<and> scan_start > 0 then
        (let prev = utflite_prev_char mem text scan_start in
         if prev = scan_start then scan_start
         else prev_grapheme_rewind mem text prev (remaining - 1))
      else scan_start)"
  by pat_completeness auto
termination
  by (relation "measure (\<lambda>(mem, text, scan_start, remaining). nat remaining)") auto

declare prev_grapheme_rewind.simps [simp del]

function prev_grapheme_scan :: "memory \<Rightarrow> addr \<Rightarrow> int \<Rightarrow> int \<Rightarrow> int \<Rightarrow> int" where
  "prev_grapheme_scan mem text offset cur grapheme_start =
     (if cur < offset then
        (let nxt = utflite_next_grapheme mem text offset cur in
         if nxt \<ge> offset then grapheme_start
         else prev_grapheme_scan mem text offset nxt nxt)
      else grapheme_start)"
  by pat_completeness auto
termination
proof (relation "measure (\<lambda>(mem, text, offset, cur, grapheme_start). nat (offset - cur))")
  show "wf (measure (\<lambda>(mem, text, offset, cur, grapheme_start). nat (offset - cur)))"
    by simp
next
  fix mem :: memory and tp offset cur grapheme_start nxt :: int
  assume "cur < offset" and "nxt = utflite_next_grapheme mem tp offset cur"
    and "\<not> offset \<le> nxt"
  then show "((mem, tp, offset, nxt, nxt), (mem, tp, offset, cur, grapheme_start))
    \<in> measure (\<lambda>(mem, text, offset, cur, grapheme_start). nat (offset - cur))"
    using next_grapheme_result [of mem tp offset cur] by simp
qed

declare prev_grapheme_scan.simps [simp del]

definition utflite_prev_grapheme :: "memory \<Rightarrow> addr \<Rightarrow> int \<Rightarrow> int" where
  "utflite_prev_grapheme mem text offset =
     (if text = NULL \<or> offset \<le> 0 then 0
      else
        (let prev_start = utflite_prev_char mem text offset in
         if prev_start = 0 \<and> offset > 0 then 0
         else
           (let scan_start = prev_grapheme_rewind mem text prev_start GRAPHEME_MAX_BACKTRACK
            in prev_grapheme_scan mem text offset scan_start scan_start)))"

section \<open>Utility functions\<close>

text \<open>\<^verbatim>\<open>utflite_validate\<close>.  The optional \<^verbatim>\<open>int *error_offset\<close> is \<open>None\<close> for a
  null pointer and \<open>Some v\<close> for a pointer to a cell holding \<open>v\<close>; the result pairs the
  return value with the cell afterwards.\<close>

function validate_loop ::
    "memory \<Rightarrow> addr \<Rightarrow> int \<Rightarrow> int option \<Rightarrow> int \<Rightarrow> int \<times> int option" where
  "validate_loop mem text len error_offset offset =
     (if offset < len then
        (let d = utflite_decode mem (text + offset) (len - offset);
             codepoint = fst d;
             bytes = snd d
         in
           if codepoint = UTFLITE_REPLACEMENT_CHAR \<and>
              (let first = mem (text + offset) in
               first \<noteq> 0xEF \<or> len - offset < 3 \<or>
               mem (text + (offset + 1)) \<noteq> 0xBF \<or>
               mem (text + (offset + 2)) \<noteq> 0xBD)
           then (0, case error_offset of None \<Rightarrow> None | Some old \<Rightarrow> Some offset)
           else validate_loop mem text len error_offset (offset + bytes))
      else (1, error_offset))"
  by pat_completeness auto
termination
  by (relation "measure (\<lambda>(mem, text, len, error_offset, offset). nat (len - offset))")
     (auto simp: decode_bytes_pos)

declare validate_loop.simps [simp del]

definition utflite_validate ::
    "memory \<Rightarrow> addr \<Rightarrow> int \<Rightarrow> int option \<Rightarrow> int \<times> int option" where
  "utflite_validate mem text len error_offset = validate_loop mem text len error_offset 0"

function codepoint_count_loop :: "memory \<Rightarrow> addr \<Rightarrow> int \<Rightarrow> int \<Rightarrow> int \<Rightarrow> int" where
  "codepoint_count_loop mem text len count offset =
     (if offset < len
      then codepoint_count_loop mem text len (count + 1) (utflite_next_char mem text len offset)
      else count)"
  by pat_completeness auto
termination
  by (relation "measure (\<lambda>(mem, text, len, count, offset). nat (len - offset))")
     (auto simp: next_char_gt)

declare codepoint_count_loop.simps [simp del]

definition utflite_codepoint_count :: "memory \<Rightarrow> addr \<Rightarrow> int \<Rightarrow> int" where
  "utflite_codepoint_count mem text len = codepoint_count_loop mem text len 0 0"

function string_width_loop :: "memory \<Rightarrow> addr \<Rightarrow> int \<Rightarrow> int \<Rightarrow> int \<Rightarrow> int" where
  "string_width_loop mem text len width offset =
     (if offset < len then
        (let char_width = utflite_char_width mem text len offset
         in string_width_loop mem text len
              (if char_width > 0 then width + char_width else width)
              (utflite_next_char mem text len offset))
      else width)"
  by pat_completeness auto
termination
  by (relation "measure (\<lambda>(mem, text, len, width, offset). nat (len - offset))")
     (auto simp: next_char_gt)

declare string_width_loop.simps [simp del]

definition utflite_string_width :: "memory \<Rightarrow> addr \<Rightarrow> int \<Rightarrow> int" where
  "utflite_string_width mem text len = string_width_loop mem text len 0 0"

function truncate_loop :: "memory \<Rightarrow> addr \<Rightarrow> int \<Rightarrow> int \<Rightarrow> int \<Rightarrow> int \<Rightarrow> int" where
  "truncate_loop mem text len max_cols width offset =
     (if offset < len then
        (let char_width = utflite_char_width mem text len offset in
         if char_width > 0 \<and> width + char_width > max_cols then offset
         else truncate_loop mem text len max_cols
                (if char_width > 0 then width + char_width else width)
                (utflite_next_char mem text len offset))
      else len)"
  by pat_completeness auto
termination
  by (relation "measure (\<lambda>(mem, text, len, max_cols, width, offset). nat (len - offset))")
     (auto simp: next_char_gt)

declare truncate_loop.simps [simp del]

definition utflite_truncate :: "memory \<Rightarrow> addr \<Rightarrow> int \<Rightarrow> int \<Rightarrow> int" where
  "utflite_truncate mem text len max_cols = truncate_loop mem text len max_cols 0 0"

section \<open>Vocabulary of the claims\<close>

subsection \<open>The ordered rule list of the boundary decision\<close>

text \<open>The thirteen rules in the order in which the specification lists them, each as a
  pair of its condition and its verdict (\<open>True\<close> is a break).  \<open>first_match\<close> returns
  the verdict of the first rule whose condition holds.\<close>

definition gb_rules ::
    "gcb_property \<Rightarrow> gcb_property \<Rightarrow> int \<Rightarrow> int \<Rightarrow> 32 word \<Rightarrow> int \<Rightarrow> (bool \<times> bool) list"
  where
  "gb_rules prev_category curr_category ri_count in_ext_pict curr_codepoint incb_state =
     [(prev_category = GCB_CR \<and> curr_category = GCB_LF, False),
      (prev_category = GCB_CONTROL \<or> prev_category = GCB_CR \<or> prev_category = GCB_LF, True),
      (curr_category = GCB_CONTROL \<or> curr_category = GCB_CR \<or> curr_category = GCB_LF, True),
      (prev_category = GCB_L \<and>
         (curr_category = GCB_L \<or> curr_category = GCB_V \<or> curr_category = GCB_LV \<or>
          curr_category = GCB_LVT), False),
      ((prev_category = GCB_LV \<or> prev_category = GCB_V) \<and>
         (curr_category = GCB_V \<or> curr_category = GCB_T), False),
      ((prev_category = GCB_LVT \<or> prev_category = GCB_T) \<and> curr_category = GCB_T, False),
      (curr_category = GCB_EXTEND \<or> curr_category = GCB_ZWJ, False),
      (curr_category = GCB_SPACING_MARK, False),
      (prev_category = GCB_PREPEND, False),
      (incb_state = 2 \<and> is_incb_consonant curr_codepoint \<noteq> 0, False),
      (in_ext_pict \<noteq> 0 \<and> prev_category = GCB_ZWJ \<and>
         is_extended_pictographic curr_codepoint \<noteq> 0, False),
      (prev_category = GCB_REGIONAL_INDICATOR \<and> curr_category = GCB_REGIONAL_INDICATOR,
         even ri_count),
      (True, True)]"

fun first_match :: "(bool \<times> bool) list \<Rightarrow> bool option" where
  "first_match [] = None"
| "first_match ((applies, verdict) # rules) =
     (if applies then Some verdict else first_match rules)"

subsection \<open>Byte sequences\<close>

text \<open>The vocabulary of the claims about \<open>utflite_decode\<close>: the sequence length that a
  lead byte declares (none for a stray continuation byte or for \<open>0xF8..0xFF\<close>), the
  continuation pattern \<open>10xxxxxx\<close>, the value that the payload bits of a sequence of
  \<open>n\<close> bytes spell, and the three semantic defects of such a value.\<close>

definition declared_length :: "byte \<Rightarrow> int option" where
  "declared_length first =
     (if first < 0x80 then Some 1
      else if first AND 0xE0 = 0xC0 then Some 2
      else if first AND 0xF0 = 0xE0 then Some 3
      else if first AND 0xF8 = 0xF0 then Some 4
      else None)"

definition is_continuation :: "byte \<Rightarrow> bool" where
  "is_continuation b = (b AND 0xC0 = 0x80)"

definition sequence_value :: "memory \<Rightarrow> addr \<Rightarrow> int \<Rightarrow> 32 word" where
  "sequence_value mem bytes n =
     (if n = 2 then
        push_bit 6 (ucast (mem bytes AND 0x1F)) OR ucast (mem (bytes + 1) AND 0x3F)
      else if n = 3 then
        push_bit 12 (ucast (mem bytes AND 0x0F)) OR
        push_bit 6 (ucast (mem (bytes + 1) AND 0x3F)) OR ucast (mem (bytes + 2) AND 0x3F)
      else
        push_bit 18 (ucast (mem bytes AND 0x07)) OR
        push_bit 12 (ucast (mem (bytes + 1) AND 0x3F)) OR
        push_bit 6 (ucast (mem (bytes + 2) AND 0x3F)) OR ucast (mem (bytes + 3) AND 0x3F))"

definition overlong :: "int \<Rightarrow> 32 word \<Rightarrow> bool" where
  "overlong n v = ((n = 2 \<and> v < 0x80) \<or> (n = 3 \<and> v < 0x800) \<or> (n = 4 \<and> v < 0x10000))"

definition surrogate :: "32 word \<Rightarrow> bool" where
  "surrogate v = (0xD800 \<le> v \<and> v \<le> 0xDFFF)"

text \<open>The valid codepoints: at most U+10FFFF and not a surrogate.\<close>

definition valid_codepoint :: "32 word \<Rightarrow> bool" where
  "valid_codepoint cp = (cp \<le> 0x10FFFF \<and> \<not> (0xD800 \<le> cp \<and> cp \<le> 0xDFFF))"

subsection \<open>Table membership\<close>

text \<open>A codepoint is in a table when one of the table's ranges contains it.  The
  binary search decides exactly this on a table whose ranges are well-formed, ascending
  and pairwise disjoint.\<close>

definition range_hit :: "32 word \<Rightarrow> utflite_unicode_range \<Rightarrow> bool" where
  "range_hit cp r = (r_start r \<le> cp \<and> cp \<le> r_end r)"

definition in_table :: "32 word \<Rightarrow> utflite_unicode_range list \<Rightarrow> bool" where
  "in_table cp ranges = list_ex (range_hit cp) ranges"

fun ranges_sorted :: "utflite_unicode_range list \<Rightarrow> bool" where
  "ranges_sorted [] = True"
| "ranges_sorted [r] = (r_start r \<le> r_end r)"
| "ranges_sorted (r # s # rs) =
     (r_start r \<le> r_end r \<and> r_end r < r_start s \<and> ranges_sorted (s # rs))"

subsection \<open>The decode walk of validation\<close>

text \<open>The offsets visited by successive decode steps from \<open>offset\<close> to the end of the
  buffer, and the test that a step is acceptable: it yields a codepoint other than
  U+FFFD, or the buffer holds three more bytes at its offset and they are
  \<open>0xEF 0xBF 0xBD\<close>.\<close>

function decode_walk :: "memory \<Rightarrow> addr \<Rightarrow> int \<Rightarrow> int \<Rightarrow> int list" where
  "decode_walk mem text len offset =
     (if offset < len then
        offset # decode_walk mem text len
          (offset + snd (utflite_decode mem (text + offset) (len - offset)))
      else [])"
  by pat_completeness auto
termination
  by (relation "measure (\<lambda>(mem, text, len, offset). nat (len - offset))")
     (auto simp: decode_bytes_pos)

declare decode_walk.simps [simp del]

definition literal_replacement :: "memory \<Rightarrow> addr \<Rightarrow> int \<Rightarrow> int \<Rightarrow> bool" where
  "literal_replacement mem text len offset =
     (offset + 3 \<le> len \<and> mem (text + offset) = 0xEF \<and>
      mem (text + (offset + 1)) = 0xBF \<and> mem (text + (offset + 2)) = 0xBD)"

definition step_ok :: "memory \<Rightarrow> addr \<Rightarrow> int \<Rightarrow> int \<Rightarrow> bool" where
  "step_ok mem text len offset =
     (fst (utflite_decode mem (text + offset) (len - offset)) \<noteq> UTFLITE_REPLACEMENT_CHAR \<or>
      literal_replacement mem text len offset)"

subsection \<open>Rewind and rescan\<close>

text \<open>The description of \<open>utflite_prev_grapheme\<close> in the words of the specification: the
  anchor is the previous codepoint boundary moved back by 128 further steps of
  \<open>utflite_prev_char\<close> (which stays at 0 once it is there); the boundaries found are those
  that \<open>utflite_next_grapheme\<close>, with the scan length bounded at \<open>offset\<close>, enumerates
  from the anchor strictly before \<open>offset\<close>; the result is the last of them, or 0 if there
  is none.\<close>

definition rewind_anchor :: "memory \<Rightarrow> addr \<Rightarrow> int \<Rightarrow> int" where
  "rewind_anchor mem text offset =
     (utflite_prev_char mem text ^^ 128) (utflite_prev_char mem text offset)"

function boundaries_before :: "memory \<Rightarrow> addr \<Rightarrow> int \<Rightarrow> int \<Rightarrow> int list" where
  "boundaries_before mem text offset cur =
     (if cur < offset then
        (let nxt = utflite_next_grapheme mem text offset cur in
         if nxt < offset then nxt # boundaries_before mem text offset nxt else [])
      else [])"
  by pat_completeness auto
termination
proof (relation "measure (\<lambda>(mem, text, offset, cur). nat (offset - cur))")
  show "wf (measure (\<lambda>(mem, text, offset, cur). nat (offset - cur)))"
    by simp
next
  fix mem :: memory and tp offset cur nxt :: int
  assume "cur < offset" and "nxt = utflite_next_grapheme mem tp offset cur"
    and "nxt < offset"
  then show "((mem, tp, offset, nxt), (mem, tp, offset, cur))
    \<in> measure (\<lambda>(mem, text, offset, cur). nat (offset - cur))"
    using next_grapheme_result [of mem tp offset cur] by simp
qed

declare boundaries_before.simps [simp del]

definition prev_grapheme_spec :: "memory \<Rightarrow> addr \<Rightarrow> int \<Rightarrow> int" where
  "prev_grapheme_spec mem text offset =
     (case boundaries_before mem text offset (rewind_anchor mem text offset) of
        [] \<Rightarrow> 0
      | b # bs \<Rightarrow> last (b # bs))"

text \<open>What the code does instead: it returns 0 at once when the previous codepoint
  boundary is 0, and the anchor when the rescan finds no boundary.\<close>

definition prev_grapheme_rescan :: "memory \<Rightarrow> addr \<Rightarrow> int \<Rightarrow> int" where
  "prev_grapheme_rescan mem text offset =
     (if utflite_prev_char mem text offset = 0 then 0
      else
        (case boundaries_before mem text offset (rewind_anchor mem text offset) of
           [] \<Rightarrow> rewind_anchor mem text offset
         | b # bs \<Rightarrow> last (b # bs)))"

subsection \<open>Concrete inputs\<close>

text \<open>A concrete buffer for evaluation: the bytes \<open>bs\<close> stored from address \<open>base\<close>
  on, zero elsewhere.\<close>

definition buffer_at :: "addr \<Rightarrow> byte list \<Rightarrow> memory" where
  "buffer_at base bs =
     (\<lambda>a. if base \<le> a \<and> a < base + int (length bs) then bs ! nat (a - base) else 0)"

text \<open>A valid text: \<open>a\<close> followed by 130 copies of U+0300 (bytes \<open>0xCC 0x80\<close>), stored
  from address 1 on; the text is the first 261 bytes.  It is a single grapheme cluster.\<close>

definition long_cluster :: memory where
  "long_cluster = (\<lambda>a. if a = 1 then 0x61 else if a mod 2 = 0 then 0xCC else 0x80)"

section \<open>The decision function against the ordered rule list\<close>

lemma smod2_eq_0_iff: "(k :: int) smod 2 = 0 \<longleftrightarrow> even k"
  by (auto simp add: signed_modulo_int_def sgn_if)

text \<open>Claim C1.  For every combination of its six inputs \<open>is_grapheme_break\<close> returns 1
  (break) or 0 (no break), and its answer is the verdict of the first rule of the ordered
  list that applies; the last rule always applies, so there always is one.\<close>

theorem is_grapheme_break_first_match:
  "(is_grapheme_break prev_category curr_category ri_count in_ext_pict curr_codepoint
      incb_state = 0 \<or>
    is_grapheme_break prev_category curr_category ri_count in_ext_pict curr_codepoint
      incb_state = 1) \<and>
   first_match (gb_rules prev_category curr_category ri_count in_ext_pict curr_codepoint
      incb_state) =
     Some (is_grapheme_break prev_category curr_category ri_count in_ext_pict
       curr_codepoint incb_state = 1)"
  by (cases prev_category; cases curr_category;
      simp add: is_grapheme_break_def gb_rules_def smod2_eq_0_iff)

section \<open>Forward progress\<close>

lemma next_char_at_end:
  "offset \<ge> len \<Longrightarrow> utflite_next_char mem text len offset = len"
  by (simp add: utflite_next_char_def)

lemma next_char_iterate_reaches_end:
  "0 \<le> offset \<Longrightarrow> offset \<le> len \<Longrightarrow>
   \<exists>k \<le> nat (len - offset). (utflite_next_char mem text len ^^ k) offset = len"
proof (induction "nat (len - offset)" arbitrary: offset rule: less_induct)
  case less
  show ?case
  proof (cases "offset = len")
    case True
    then show ?thesis by (intro exI [of _ 0]) simp
  next
    case False
    with less.prems have lt: "offset < len" by simp
    let ?o = "utflite_next_char mem text len offset"
    have gt: "offset < ?o" and le: "?o \<le> len"
      using lt by (simp_all add: next_char_gt next_char_le)
    then have "nat (len - ?o) < nat (len - offset)"
      using lt by linarith
    from less.hyps [OF this] less.prems gt le
    obtain k where k: "k \<le> nat (len - ?o)"
      and reach: "(utflite_next_char mem text len ^^ k) ?o = len"
      by auto
    have "(utflite_next_char mem text len ^^ Suc k) offset = len"
      using reach by (simp add: funpow_swap1)
    moreover have "Suc k \<le> nat (len - offset)"
      using k gt le lt by linarith
    ultimately show ?thesis by blast
  qed
qed

text \<open>Claim C7.  Whatever the memory holds, a decode reports between 1 and 4 bytes;
  \<open>utflite_next_char\<close> moves strictly forward from an offset inside the buffer and
  returns the length from an offset at or after the end; and from offset 0 at most
  \<open>len\<close> steps of \<open>utflite_next_char\<close> reach the length.\<close>

theorem decode_next_char_progress:
  "1 \<le> snd (utflite_decode mem bytes n) \<and> snd (utflite_decode mem bytes n) \<le> 4 \<and>
   (0 \<le> offset \<and> offset < len \<longrightarrow> offset < utflite_next_char mem text len offset) \<and>
   (offset \<ge> len \<longrightarrow> utflite_next_char mem text len offset = len) \<and>
   (0 \<le> len \<longrightarrow> (\<exists>k \<le> nat len. (utflite_next_char mem text len ^^ k) 0 = len))"
  using decode_bytes_range [of mem bytes n]
    next_char_iterate_reaches_end [of 0 len mem "text"]
  by (simp add: next_char_gt next_char_at_end)

text \<open>A buffer of three stray continuation bytes at address 1.\<close>

theorem decode_next_char_progress_witness:
  "1 \<le> snd (utflite_decode (\<lambda>a. 0x80) 1 3) \<and> snd (utflite_decode (\<lambda>a. 0x80) 1 3) \<le> 4 \<and>
   (0::int) < utflite_next_char (\<lambda>a. 0x80) 1 3 0 \<and>
   utflite_next_char (\<lambda>a. 0x80) 1 3 5 = 3 \<and>
   (\<exists>k \<le> nat 3. (utflite_next_char (\<lambda>a. 0x80) 1 3 ^^ k) 0 = 3)"
  using decode_next_char_progress [of "\<lambda>a. 0x80" 1 3 0 3 1]
    decode_next_char_progress [of "\<lambda>a. 0x80" 1 3 5 3 1]
  by simp

section \<open>Backward navigation\<close>

lemma prev_char_loop_bounds:
  "limit \<le> pos \<Longrightarrow>
   limit \<le> prev_char_loop mem text limit pos \<and> prev_char_loop mem text limit pos \<le> pos"
proof (induction mem "text" limit pos rule: prev_char_loop.induct)
  case (1 mem tp limit pos)
  show ?case
  proof (cases "pos > limit \<and> mem (tp + pos) AND 0xC0 = 0x80")
    case True
    then have "prev_char_loop mem tp limit pos = prev_char_loop mem tp limit (pos - 1)"
      by (simp add: prev_char_loop.simps [of mem tp limit pos])
    with "1.IH" [OF True] True show ?thesis by simp
  next
    case False
    then have "prev_char_loop mem tp limit pos = pos"
      by (auto simp add: prev_char_loop.simps [of mem tp limit pos])
    with "1.prems" show ?thesis by simp
  qed
qed

lemma prev_char_bounds:
  "0 < offset \<Longrightarrow>
   max 0 (offset - 4) \<le> utflite_prev_char mem text offset \<and>
   utflite_prev_char mem text offset < offset"
  using prev_char_loop_bounds [of "if offset > 4 then offset - 4 else 0" "offset - 1" mem "text"]
  by (auto simp add: utflite_prev_char_def Let_def)

lemma prev_char_at_start: "offset \<le> 0 \<Longrightarrow> utflite_prev_char mem text offset = 0"
  by (simp add: utflite_prev_char_def)

lemma prev_grapheme_rewind_bounds:
  "0 \<le> scan_start \<Longrightarrow>
   0 \<le> prev_grapheme_rewind mem text scan_start remaining \<and>
   prev_grapheme_rewind mem text scan_start remaining \<le> scan_start"
proof (induction mem "text" scan_start remaining rule: prev_grapheme_rewind.induct)
  case (1 mem tp scan_start remaining)
  let ?prev = "utflite_prev_char mem tp scan_start"
  show ?case
  proof (cases "remaining > 0 \<and> scan_start > 0")
    case False
    then have "prev_grapheme_rewind mem tp scan_start remaining = scan_start"
      by (auto simp add: prev_grapheme_rewind.simps [of mem tp scan_start remaining])
    with "1.prems" show ?thesis by simp
  next
    case True
    then have b: "0 \<le> ?prev" "?prev < scan_start"
      using prev_char_bounds [of scan_start mem tp] by simp_all
    then have ne: "?prev \<noteq> scan_start" by simp
    have "prev_grapheme_rewind mem tp scan_start remaining =
        prev_grapheme_rewind mem tp ?prev (remaining - 1)"
      using True ne
      by (simp add: prev_grapheme_rewind.simps [of mem tp scan_start remaining] Let_def)
    with "1.IH" [OF True refl ne b(1)] b show ?thesis by simp
  qed
qed

lemma next_grapheme_negative_offset:
  "offset < 0 \<Longrightarrow> utflite_next_grapheme mem text len offset = len"
  by (simp add: utflite_next_grapheme_def)

lemma prev_grapheme_scan_bounds:
  "0 \<le> grapheme_start \<Longrightarrow> grapheme_start < offset \<Longrightarrow>
   0 \<le> prev_grapheme_scan mem text offset cur grapheme_start \<and>
   prev_grapheme_scan mem text offset cur grapheme_start < offset"
proof (induction mem "text" offset cur grapheme_start rule: prev_grapheme_scan.induct)
  case (1 mem tp offset cur grapheme_start)
  let ?nxt = "utflite_next_grapheme mem tp offset cur"
  show ?case
  proof (cases "cur < offset \<and> \<not> ?nxt \<ge> offset")
    case False
    then have "prev_grapheme_scan mem tp offset cur grapheme_start = grapheme_start"
      by (auto simp add: prev_grapheme_scan.simps [of mem tp offset cur grapheme_start] Let_def)
    with "1.prems" show ?thesis by simp
  next
    case True
    then have lt: "?nxt < offset" by simp
    have "0 \<le> cur"
      using next_grapheme_negative_offset [of cur mem tp offset] lt by force
    moreover have "cur < ?nxt"
      using next_grapheme_result [of mem tp offset cur] lt by simp
    ultimately have nn: "0 \<le> ?nxt" by simp
    have "prev_grapheme_scan mem tp offset cur grapheme_start =
        prev_grapheme_scan mem tp offset ?nxt ?nxt"
      using True
      by (simp add: prev_grapheme_scan.simps [of mem tp offset cur grapheme_start] Let_def)
    moreover have "0 \<le> prev_grapheme_scan mem tp offset ?nxt ?nxt \<and>
        prev_grapheme_scan mem tp offset ?nxt ?nxt < offset"
      using True "1.IH" [OF _ refl _ nn lt] by simp
    ultimately show ?thesis by simp
  qed
qed

lemma prev_grapheme_bounds:
  assumes "0 < offset"
  shows "0 \<le> utflite_prev_grapheme mem text offset \<and>
    utflite_prev_grapheme mem text offset < offset"
proof (cases "text = NULL \<or> utflite_prev_char mem text offset = 0")
  case True
  with assms show ?thesis
    by (auto simp add: utflite_prev_grapheme_def Let_def)
next
  case False
  let ?ps = "utflite_prev_char mem text offset"
  let ?ss = "prev_grapheme_rewind mem text ?ps GRAPHEME_MAX_BACKTRACK"
  have ps: "0 \<le> ?ps" "?ps < offset"
    using prev_char_bounds [OF assms, of mem "text"] by simp_all
  have ss: "0 \<le> ?ss" "?ss \<le> ?ps"
    using prev_grapheme_rewind_bounds [OF ps(1), of mem "text" GRAPHEME_MAX_BACKTRACK]
    by simp_all
  have "utflite_prev_grapheme mem text offset = prev_grapheme_scan mem text offset ?ss ?ss"
    using False assms by (simp add: utflite_prev_grapheme_def Let_def)
  moreover have "0 \<le> prev_grapheme_scan mem text offset ?ss ?ss \<and>
      prev_grapheme_scan mem text offset ?ss ?ss < offset"
    using ss ps by (intro prev_grapheme_scan_bounds) simp_all
  ultimately show ?thesis by simp
qed

text \<open>Claim C10.  From an offset greater than 0, \<open>utflite_prev_char\<close> returns a position
  at most four bytes back, not below 0 and strictly before the offset, and
  \<open>utflite_prev_grapheme\<close> returns a position in \<open>[0, offset)\<close>; from an offset that is 0
  or negative both return 0.\<close>

theorem backward_navigation_progress:
  "(0 < offset \<longrightarrow>
      max 0 (offset - 4) \<le> utflite_prev_char mem text offset \<and>
      utflite_prev_char mem text offset < offset \<and>
      0 \<le> utflite_prev_grapheme mem text offset \<and>
      utflite_prev_grapheme mem text offset < offset) \<and>
   (offset \<le> 0 \<longrightarrow>
      utflite_prev_char mem text offset = 0 \<and> utflite_prev_grapheme mem text offset = 0)"
  using prev_char_bounds [of offset mem "text"] prev_grapheme_bounds [of offset mem "text"]
  by (simp add: prev_char_at_start utflite_prev_grapheme_def)

theorem backward_navigation_progress_witness:
  "max 0 (6 - 4) \<le> utflite_prev_char (\<lambda>a. 0x80) 1 6 \<and>
   utflite_prev_char (\<lambda>a. 0x80) 1 6 < 6 \<and>
   0 \<le> utflite_prev_grapheme (\<lambda>a. 0x80) 1 6 \<and>
   utflite_prev_grapheme (\<lambda>a. 0x80) 1 6 < 6 \<and>
   utflite_prev_char (\<lambda>a. 0x80) 1 (- 2) = 0 \<and>
   utflite_prev_grapheme (\<lambda>a. 0x80) 1 (- 2) = 0"
  using backward_navigation_progress [of 6 "\<lambda>a. 0x80" 1]
    backward_navigation_progress [of "- 2" "\<lambda>a. 0x80" 1]
  by simp

section \<open>Decoding: errors\<close>

lemma decode_continuation_2:
  "decode_continuation mem bytes 2 1 cp =
     (if is_continuation (mem (bytes + 1))
      then Some (push_bit 6 cp OR ucast (mem (bytes + 1) AND 0x3F)) else None)"
  by (simp add: decode_continuation.simps [of mem bytes 2 1]
      decode_continuation.simps [of mem bytes 2 2] Let_def is_continuation_def)

lemma decode_continuation_3:
  "decode_continuation mem bytes 3 1 cp =
     (if is_continuation (mem (bytes + 1)) \<and> is_continuation (mem (bytes + 2))
      then Some (push_bit 12 cp OR push_bit 6 (ucast (mem (bytes + 1) AND 0x3F)) OR
                 ucast (mem (bytes + 2) AND 0x3F))
      else None)"
  by (simp add: decode_continuation.simps [of mem bytes 3 1]
      decode_continuation.simps [of mem bytes 3 2]
      decode_continuation.simps [of mem bytes 3 3] Let_def is_continuation_def
      push_bit_or or.assoc)

lemma decode_continuation_4:
  "decode_continuation mem bytes 4 1 cp =
     (if is_continuation (mem (bytes + 1)) \<and> is_continuation (mem (bytes + 2)) \<and>
         is_continuation (mem (bytes + 3))
      then Some (push_bit 18 cp OR push_bit 12 (ucast (mem (bytes + 1) AND 0x3F)) OR
                 push_bit 6 (ucast (mem (bytes + 2) AND 0x3F)) OR
                 ucast (mem (bytes + 3) AND 0x3F))
      else None)"
  by (simp add: decode_continuation.simps [of mem bytes 4 1]
      decode_continuation.simps [of mem bytes 4 2]
      decode_continuation.simps [of mem bytes 4 3]
      decode_continuation.simps [of mem bytes 4 4] Let_def is_continuation_def
      push_bit_or or.assoc)

lemma declared_length_cases:
  "declared_length first = Some n \<Longrightarrow> n = 1 \<or> n = 2 \<or> n = 3 \<or> n = 4"
  by (auto simp add: declared_length_def split: if_splits)

lemma int_range_1_2: "(\<forall>i::int. 1 \<le> i \<and> i < 2 \<longrightarrow> P i) \<longleftrightarrow> P 1"
proof -
  have "(1 \<le> i \<and> i < 2) = (i = 1)" for i :: int by auto
  then show ?thesis by auto
qed

lemma int_range_1_3: "(\<forall>i::int. 1 \<le> i \<and> i < 3 \<longrightarrow> P i) \<longleftrightarrow> P 1 \<and> P 2"
proof -
  have "(1 \<le> i \<and> i < 3) = (i = 1 \<or> i = 2)" for i :: int by auto
  then show ?thesis by auto
qed

lemma int_range_1_4:
  "(\<forall>i::int. 1 \<le> i \<and> i < 4 \<longrightarrow> P i) \<longleftrightarrow> P 1 \<and> P 2 \<and> P 3"
proof -
  have "(1 \<le> i \<and> i < 4) = (i = 1 \<or> i = 2 \<or> i = 3)" for i :: int by auto
  then show ?thesis by auto
qed

text \<open>What \<open>utflite_decode\<close> does with a multi-byte lead, in the vocabulary above.\<close>

lemma decode_multibyte:
  assumes "0 < len" and "bytes \<noteq> NULL" and "\<not> mem bytes < 0x80"
    and "declared_length (mem bytes) = Some n"
  shows "utflite_decode mem bytes len =
     (if len < n then (UTFLITE_REPLACEMENT_CHAR, 1)
      else if \<not> (\<forall>i. 1 \<le> i \<and> i < n \<longrightarrow> is_continuation (mem (bytes + i)))
        then (UTFLITE_REPLACEMENT_CHAR, 1)
      else if overlong n (sequence_value mem bytes n) \<or>
              surrogate (sequence_value mem bytes n) \<or>
              sequence_value mem bytes n > 0x10FFFF
        then (UTFLITE_REPLACEMENT_CHAR, n)
      else (sequence_value mem bytes n, n))"
proof -
  from assms(3,4) consider
      (two) "n = 2" "mem bytes AND 0xE0 = 0xC0"
    | (three) "n = 3" "mem bytes AND 0xE0 \<noteq> 0xC0" "mem bytes AND 0xF0 = 0xE0"
    | (four) "n = 4" "mem bytes AND 0xE0 \<noteq> 0xC0" "mem bytes AND 0xF0 \<noteq> 0xE0"
        "mem bytes AND 0xF8 = 0xF0"
    by (auto simp add: declared_length_def split: if_splits)
  then show ?thesis
  proof cases
    case two
    with assms(1-3) show ?thesis
      by (simp add: utflite_decode_def Let_def decode_continuation_2 int_range_1_2 overlong_def
          surrogate_def sequence_value_def)
  next
    case three
    with assms(1-3) show ?thesis
      by (simp add: utflite_decode_def Let_def decode_continuation_3 int_range_1_3 overlong_def
          surrogate_def sequence_value_def)
  next
    case four
    with assms(1-3) show ?thesis
      by (simp add: utflite_decode_def Let_def decode_continuation_4 int_range_1_4 overlong_def
          surrogate_def sequence_value_def)
  qed
qed

lemma declared_length_multibyte:
  "declared_length first = Some n \<Longrightarrow> 2 \<le> n \<Longrightarrow> \<not> first < 0x80"
  by (auto simp add: declared_length_def split: if_splits)

lemma decode_invalid_lead:
  "0 < len \<Longrightarrow> bytes \<noteq> NULL \<Longrightarrow> declared_length (mem bytes) = None \<Longrightarrow>
   utflite_decode mem bytes len = (UTFLITE_REPLACEMENT_CHAR, 1)"
  by (auto simp add: utflite_decode_def declared_length_def Let_def split: if_splits)

text \<open>Claim C2.  Structural errors (no bytes, a lead byte that declares no length, fewer
  bytes than the declared length, a byte after the lead that is not a continuation byte)
  give U+FFFD and consume 1 byte.  Semantic errors (a structurally well-formed sequence
  of the declared length \<open>n\<close> whose value is overlong, a surrogate or above U+10FFFF) give
  U+FFFD and consume \<open>n\<close> bytes, \<open>n\<close> being 2, 3 or 4.\<close>

theorem decode_error_consumption:
  "(len \<le> 0 \<or> bytes = NULL \<longrightarrow>
      utflite_decode mem bytes len = (UTFLITE_REPLACEMENT_CHAR, 1)) \<and>
   (0 < len \<and> bytes \<noteq> NULL \<and> declared_length (mem bytes) = None \<longrightarrow>
      utflite_decode mem bytes len = (UTFLITE_REPLACEMENT_CHAR, 1)) \<and>
   (0 < len \<and> bytes \<noteq> NULL \<and> declared_length (mem bytes) = Some n \<and> len < n \<longrightarrow>
      utflite_decode mem bytes len = (UTFLITE_REPLACEMENT_CHAR, 1)) \<and>
   (0 < len \<and> bytes \<noteq> NULL \<and> declared_length (mem bytes) = Some n \<and> n \<le> len \<and>
    1 \<le> i \<and> i < n \<and> \<not> is_continuation (mem (bytes + i)) \<longrightarrow>
      utflite_decode mem bytes len = (UTFLITE_REPLACEMENT_CHAR, 1)) \<and>
   (0 < len \<and> bytes \<noteq> NULL \<and> declared_length (mem bytes) = Some n \<and> 2 \<le> n \<and>
    n \<le> len \<and> (\<forall>i. 1 \<le> i \<and> i < n \<longrightarrow> is_continuation (mem (bytes + i))) \<and>
    (overlong n (sequence_value mem bytes n) \<or> surrogate (sequence_value mem bytes n) \<or>
     sequence_value mem bytes n > 0x10FFFF) \<longrightarrow>
      utflite_decode mem bytes len = (UTFLITE_REPLACEMENT_CHAR, n) \<and>
      (n = 2 \<or> n = 3 \<or> n = 4))"
proof (intro conjI impI)
  assume "len \<le> 0 \<or> bytes = NULL"
  then show "utflite_decode mem bytes len = (UTFLITE_REPLACEMENT_CHAR, 1)"
    by (auto simp add: utflite_decode_def)
next
  assume "0 < len \<and> bytes \<noteq> NULL \<and> declared_length (mem bytes) = None"
  then show "utflite_decode mem bytes len = (UTFLITE_REPLACEMENT_CHAR, 1)"
    by (simp add: decode_invalid_lead)
next
  assume a: "0 < len \<and> bytes \<noteq> NULL \<and> declared_length (mem bytes) = Some n \<and> len < n"
  then have "2 \<le> n" by simp
  with a show "utflite_decode mem bytes len = (UTFLITE_REPLACEMENT_CHAR, 1)"
    using decode_multibyte [of len bytes mem n] declared_length_multibyte [of "mem bytes" n]
    by simp
next
  assume a: "0 < len \<and> bytes \<noteq> NULL \<and> declared_length (mem bytes) = Some n \<and> n \<le> len \<and>
    1 \<le> i \<and> i < n \<and> \<not> is_continuation (mem (bytes + i))"
  then have "2 \<le> n" by simp
  moreover from a
  have "\<not> (\<forall>i. 1 \<le> i \<and> i < n \<longrightarrow> is_continuation (mem (bytes + i)))" by blast
  ultimately show "utflite_decode mem bytes len = (UTFLITE_REPLACEMENT_CHAR, 1)"
    using a decode_multibyte [of len bytes mem n]
      declared_length_multibyte [of "mem bytes" n]
    by simp
next
  assume a: "0 < len \<and> bytes \<noteq> NULL \<and> declared_length (mem bytes) = Some n \<and> 2 \<le> n \<and>
    n \<le> len \<and> (\<forall>i. 1 \<le> i \<and> i < n \<longrightarrow> is_continuation (mem (bytes + i))) \<and>
    (overlong n (sequence_value mem bytes n) \<or> surrogate (sequence_value mem bytes n) \<or>
     sequence_value mem bytes n > 0x10FFFF)"
  then show "utflite_decode mem bytes len = (UTFLITE_REPLACEMENT_CHAR, n)"
    using decode_multibyte [of len bytes mem n]
      declared_length_multibyte [of "mem bytes" n]
    by simp
  from a show "n = 2 \<or> n = 3 \<or> n = 4"
    using declared_length_cases [of "mem bytes" n] by simp
qed

text \<open>One input for each kind of error: no bytes, a stray continuation byte, a truncated
  three-byte sequence, a bad continuation byte, an overlong NUL, a surrogate, and a value
  above U+10FFFF.\<close>

theorem decode_error_consumption_witness:
  "utflite_decode (buffer_at 1 [0x41]) 1 0 = (UTFLITE_REPLACEMENT_CHAR, 1) \<and>
   utflite_decode (buffer_at 1 [0x80]) 1 1 = (UTFLITE_REPLACEMENT_CHAR, 1) \<and>
   utflite_decode (buffer_at 1 [0xE4, 0xB8]) 1 2 = (UTFLITE_REPLACEMENT_CHAR, 1) \<and>
   utflite_decode (buffer_at 1 [0xC3, 0x41]) 1 2 = (UTFLITE_REPLACEMENT_CHAR, 1) \<and>
   utflite_decode (buffer_at 1 [0xC0, 0x80]) 1 2 = (UTFLITE_REPLACEMENT_CHAR, 2) \<and>
   utflite_decode (buffer_at 1 [0xED, 0xA0, 0x80]) 1 3 = (UTFLITE_REPLACEMENT_CHAR, 3) \<and>
   utflite_decode (buffer_at 1 [0xF4, 0x90, 0x80, 0x80]) 1 4 = (UTFLITE_REPLACEMENT_CHAR, 4)"
  using decode_error_consumption [of 0 1 "buffer_at 1 [0x41]" 1 1]
    decode_error_consumption [of 1 1 "buffer_at 1 [0x80]" 1 1]
    decode_error_consumption [of 2 1 "buffer_at 1 [0xE4, 0xB8]" 3 1]
    decode_error_consumption [of 2 1 "buffer_at 1 [0xC3, 0x41]" 2 1]
    decode_error_consumption [of 2 1 "buffer_at 1 [0xC0, 0x80]" 2 1]
    decode_error_consumption [of 3 1 "buffer_at 1 [0xED, 0xA0, 0x80]" 3 1]
    decode_error_consumption [of 4 1 "buffer_at 1 [0xF4, 0x90, 0x80, 0x80]" 4 1]
  by (simp add: buffer_at_def NULL_def declared_length_def is_continuation_def
      sequence_value_def overlong_def surrogate_def int_range_1_2 int_range_1_3
      int_range_1_4)

section \<open>Encoding\<close>

lemma encode_zero_iff:
  "snd (utflite_encode mem codepoint buffer) = 0 \<longleftrightarrow> \<not> valid_codepoint codepoint"
  by (auto simp add: utflite_encode_def valid_codepoint_def word_less_nat_alt
      word_le_nat_alt)

lemma encode_zero_writes_nothing:
  "snd (utflite_encode mem codepoint buffer) = 0 \<Longrightarrow>
   fst (utflite_encode mem codepoint buffer) = mem"
  by (auto simp add: utflite_encode_def split: if_splits)

lemma encode_count_range:
  "0 \<le> snd (utflite_encode mem codepoint buffer) \<and>
   snd (utflite_encode mem codepoint buffer) \<le> 4"
  by (simp add: utflite_encode_def)

text \<open>Claim C4.  \<open>utflite_encode\<close> returns 0 exactly for an invalid codepoint (a
  surrogate or a value above U+10FFFF); when it returns 0 the memory, and so every byte
  of the caller's buffer, is unchanged; for a valid codepoint it returns a count from 1
  to 4.\<close>

theorem encode_failure:
  "(snd (utflite_encode mem codepoint buffer) = 0 \<longleftrightarrow>
      (0xD800 \<le> codepoint \<and> codepoint \<le> 0xDFFF) \<or> codepoint > 0x10FFFF) \<and>
   (snd (utflite_encode mem codepoint buffer) = 0 \<longrightarrow>
      (\<forall>a. fst (utflite_encode mem codepoint buffer) a = mem a)) \<and>
   (valid_codepoint codepoint \<longrightarrow>
      1 \<le> snd (utflite_encode mem codepoint buffer) \<and>
      snd (utflite_encode mem codepoint buffer) \<le> 4)"
proof (intro conjI impI allI)
  show "snd (utflite_encode mem codepoint buffer) = 0 \<longleftrightarrow>
      (0xD800 \<le> codepoint \<and> codepoint \<le> 0xDFFF) \<or> codepoint > 0x10FFFF"
    using encode_zero_iff [of mem codepoint buffer]
    by (auto simp add: valid_codepoint_def)
next
  fix a
  assume "snd (utflite_encode mem codepoint buffer) = 0"
  then show "fst (utflite_encode mem codepoint buffer) a = mem a"
    by (simp add: encode_zero_writes_nothing)
next
  assume v: "valid_codepoint codepoint"
  then have "snd (utflite_encode mem codepoint buffer) \<noteq> 0"
    by (simp add: encode_zero_iff)
  then show "1 \<le> snd (utflite_encode mem codepoint buffer)"
    using encode_count_range [of mem codepoint buffer] by simp
  show "snd (utflite_encode mem codepoint buffer) \<le> 4"
    using encode_count_range [of mem codepoint buffer] by simp
qed

text \<open>A surrogate and a value above U+10FFFF leave a buffer holding \<open>0x41\<close> untouched;
  U+4E2D is encoded in three bytes.\<close>

theorem encode_failure_witness:
  "snd (utflite_encode (buffer_at 1 [0x41, 0x41, 0x41, 0x41]) 0xD800 1) = 0 \<and>
   fst (utflite_encode (buffer_at 1 [0x41, 0x41, 0x41, 0x41]) 0xD800 1) 1 = 0x41 \<and>
   snd (utflite_encode (buffer_at 1 [0x41, 0x41, 0x41, 0x41]) 0x110000 1) = 0 \<and>
   fst (utflite_encode (buffer_at 1 [0x41, 0x41, 0x41, 0x41]) 0x110000 1) 1 = 0x41 \<and>
   1 \<le> snd (utflite_encode (buffer_at 1 [0x41, 0x41, 0x41, 0x41]) 0x4E2D 1) \<and>
   snd (utflite_encode (buffer_at 1 [0x41, 0x41, 0x41, 0x41]) 0x4E2D 1) \<le> 4"
  using encode_failure [of "buffer_at 1 [0x41, 0x41, 0x41, 0x41]" "0xD800" 1]
    encode_failure [of "buffer_at 1 [0x41, 0x41, 0x41, 0x41]" "0x110000" 1]
    encode_failure [of "buffer_at 1 [0x41, 0x41, 0x41, 0x41]" "0x4E2D" 1]
  by (simp add: valid_codepoint_def buffer_at_def)

section \<open>Round trip\<close>

text \<open>The byte constants of the codec as masks and shifted masks, so that their bits
  can be read off at a symbolic position.\<close>

lemma byte_constants:
  "(0x3F :: 8 word) = mask 6" "(0x1F :: 8 word) = mask 5" "(0x0F :: 8 word) = mask 4"
  "(0x07 :: 8 word) = mask 3" "(0x80 :: 8 word) = NOT (mask 7)"
  "(0xC0 :: 8 word) = push_bit 6 (mask 2)" "(0xE0 :: 8 word) = push_bit 5 (mask 3)"
  "(0xF0 :: 8 word) = push_bit 4 (mask 4)" "(0xF8 :: 8 word) = push_bit 3 (mask 5)"
  by (simp_all add: mask_eq_exp_minus_1)

lemma word_constants:
  "(0x3F :: 32 word) = mask 6" "(0x80 :: 32 word) = mask 8 AND NOT (mask 7)"
  "(0xC0 :: 32 word) = push_bit 6 (mask 2)" "(0xE0 :: 32 word) = push_bit 5 (mask 3)"
  "(0xF0 :: 32 word) = push_bit 4 (mask 4)"
  by (simp_all add: mask_eq_exp_minus_1)

lemma take_bit_below: "(cp :: 32 word) < 2 ^ n \<Longrightarrow> take_bit n cp = cp"
  by (simp add: less_mask_eq take_bit_eq_mask)

lemma continuation_byte_pattern:
  "(ucast ((0x80 :: 32 word) OR (x AND 0x3F)) :: 8 word) AND 0xC0 = 0x80"
  unfolding byte_constants word_constants
  by (rule bit_word_eqI) (auto simp add: bit_simps)

lemma lead2_pattern:
  "(ucast ((0xC0 :: 32 word) OR drop_bit 6 (take_bit 11 c)) :: 8 word) AND 0xE0 = 0xC0"
  unfolding byte_constants word_constants
  by (rule bit_word_eqI) (auto simp add: bit_simps)

lemma lead3_pattern:
  "(ucast ((0xE0 :: 32 word) OR drop_bit 12 (take_bit 16 c)) :: 8 word) AND 0xE0 = 0xE0"
  "(ucast ((0xE0 :: 32 word) OR drop_bit 12 (take_bit 16 c)) :: 8 word) AND 0xF0 = 0xE0"
  unfolding byte_constants word_constants
  by (rule bit_word_eqI; auto simp add: bit_simps)+

lemma lead4_pattern:
  "(ucast ((0xF0 :: 32 word) OR drop_bit 18 (take_bit 21 c)) :: 8 word) AND 0xE0 = 0xE0"
  "(ucast ((0xF0 :: 32 word) OR drop_bit 18 (take_bit 21 c)) :: 8 word) AND 0xF0 = 0xF0"
  "(ucast ((0xF0 :: 32 word) OR drop_bit 18 (take_bit 21 c)) :: 8 word) AND 0xF8 = 0xF0"
  unfolding byte_constants word_constants
  by (rule bit_word_eqI; auto simp add: bit_simps)+

lemma continuation_byte_payload:
  "(ucast ((ucast ((0x80 :: 32 word) OR (x AND 0x3F)) :: 8 word) AND 0x3F) :: 32 word) =
   x AND 0x3F"
  unfolding byte_constants word_constants
  by (rule bit_word_eqI) (auto simp add: bit_simps)

lemma lead2_payload:
  "(ucast ((ucast ((0xC0 :: 32 word) OR drop_bit 6 (take_bit 11 c)) :: 8 word) AND 0x1F)
     :: 32 word) = drop_bit 6 (take_bit 11 c)"
  unfolding byte_constants word_constants
  by (rule bit_word_eqI) (auto simp add: bit_simps)

lemma lead3_payload:
  "(ucast ((ucast ((0xE0 :: 32 word) OR drop_bit 12 (take_bit 16 c)) :: 8 word) AND 0x0F)
     :: 32 word) = drop_bit 12 (take_bit 16 c)"
  unfolding byte_constants word_constants
  by (rule bit_word_eqI) (auto simp add: bit_simps)

lemma lead4_payload:
  "(ucast ((ucast ((0xF0 :: 32 word) OR drop_bit 18 (take_bit 21 c)) :: 8 word) AND 0x07)
     :: 32 word) = drop_bit 18 (take_bit 21 c)"
  unfolding byte_constants word_constants
  by (rule bit_word_eqI) (auto simp add: bit_simps)

lemma reassemble2:
  "push_bit 6 (drop_bit 6 x) OR (x AND 0x3F) = (x :: 32 word)"
  unfolding word_constants
  by (rule bit_word_eqI) (auto simp add: bit_simps)

lemma reassemble3:
  "push_bit 12 (drop_bit 12 x) OR push_bit 6 (drop_bit 6 x AND 0x3F) OR (x AND 0x3F) =
   (x :: 32 word)"
  unfolding word_constants
  apply (rule bit_word_eqI)
  subgoal for n
    by (cases "n < 6"; cases "n < 12"; auto simp add: bit_simps)
  done

lemma reassemble4:
  "push_bit 18 (drop_bit 18 x) OR push_bit 12 (drop_bit 12 x AND 0x3F) OR
   push_bit 6 (drop_bit 6 x AND 0x3F) OR (x AND 0x3F) = (x :: 32 word)"
  unfolding word_constants
  apply (rule bit_word_eqI)
  subgoal for n
    by (cases "n < 6"; cases "n < 12"; cases "n < 18"; auto simp add: bit_simps)
  done

lemma lead_not_ascii:
  assumes "b AND 0xE0 = 0xC0 \<or> b AND 0xE0 = 0xE0"
  shows "\<not> (b :: 8 word) < 0x80"
proof -
  have "b AND 0xE0 \<le> b"
    by (rule word_and_le2)
  with assms have "0xC0 \<le> b"
    by (auto simp add: word_le_nat_alt)
  then show ?thesis
    by (simp add: word_le_nat_alt word_less_nat_alt)
qed

lemma round_trip_1:
  assumes "cp < 0x80" and "buffer \<noteq> NULL"
  shows "snd (utflite_encode mem cp buffer) = 1 \<and>
    utflite_decode (fst (utflite_encode mem cp buffer)) buffer 1 = (cp, 1)"
proof -
  have e: "take_bit 7 cp = cp"
    using assms(1) take_bit_below [of cp 7] by simp
  have "(ucast (take_bit 7 cp) :: 8 word) = ucast (take_bit 7 cp) AND mask 7"
    by (rule bit_word_eqI) (auto simp add: bit_simps)
  moreover have "(ucast (take_bit 7 cp) :: 8 word) AND mask 7 < 2 ^ 7"
    by (rule and_mask_less') simp
  ultimately have lt: "(ucast (take_bit 7 cp) :: 8 word) < 0x80"
    by simp
  have again: "(ucast (ucast (take_bit 7 cp) :: 8 word) :: 32 word) = take_bit 7 cp"
    by (rule bit_word_eqI) (auto simp add: bit_simps)
  from assms lt again show ?thesis
    unfolding e by (simp add: utflite_encode_def utflite_decode_def Let_def)
qed

lemma round_trip_2:
  assumes "\<not> cp < 0x80" and "cp < 0x800" and "buffer \<noteq> NULL"
  shows "snd (utflite_encode mem cp buffer) = 2 \<and>
    utflite_decode (fst (utflite_encode mem cp buffer)) buffer 2 = (cp, 2)"
proof -
  have e: "take_bit 11 cp = cp"
    using assms(2) take_bit_below [of cp 11] by simp
  define b0 :: byte where "b0 = ucast ((0xC0 :: 32 word) OR drop_bit 6 cp)"
  define b1 :: byte where "b1 = ucast ((0x80 :: 32 word) OR (cp AND 0x3F))"
  define mem' where "mem' = mem (buffer := b0, buffer + 1 := b1)"
  have enc: "utflite_encode mem cp buffer = (mem', 2)"
    using assms by (simp add: utflite_encode_def mem'_def b0_def b1_def)
  have rd: "mem' buffer = b0" "mem' (buffer + 1) = b1"
    by (simp_all add: mem'_def)
  have lead: "b0 AND 0xE0 = 0xC0"
    using lead2_pattern [of cp] by (simp add: e b0_def)
  then have na: "\<not> b0 < 0x80"
    by (simp add: lead_not_ascii)
  have dl: "declared_length (mem' buffer) = Some 2"
    using lead na by (simp add: declared_length_def rd)
  have cont: "is_continuation b1"
    by (simp add: is_continuation_def b1_def continuation_byte_pattern)
  have "sequence_value mem' buffer 2 =
      push_bit 6 (drop_bit 6 cp) OR (cp AND 0x3F)"
    using lead2_payload [of cp] continuation_byte_payload [of cp]
    by (simp add: sequence_value_def rd e b0_def b1_def)
  then have val: "sequence_value mem' buffer 2 = cp"
    by (simp only: reassemble2)
  have "utflite_decode mem' buffer 2 = (cp, 2)"
    using decode_multibyte [of 2 buffer mem' 2] assms dl na cont val
    by (auto simp add: rd int_range_1_2 overlong_def surrogate_def word_le_nat_alt
        word_less_nat_alt)
  with enc show ?thesis by simp
qed

lemma round_trip_3:
  assumes "\<not> cp < 0x800" and "cp < 0x10000" and "\<not> (0xD800 \<le> cp \<and> cp \<le> 0xDFFF)"
    and "buffer \<noteq> NULL"
  shows "snd (utflite_encode mem cp buffer) = 3 \<and>
    utflite_decode (fst (utflite_encode mem cp buffer)) buffer 3 = (cp, 3)"
proof -
  have e: "take_bit 16 cp = cp"
    using assms(2) take_bit_below [of cp 16] by simp
  define b0 :: byte where "b0 = ucast ((0xE0 :: 32 word) OR drop_bit 12 cp)"
  define b1 :: byte where "b1 = ucast ((0x80 :: 32 word) OR (drop_bit 6 cp AND 0x3F))"
  define b2 :: byte where "b2 = ucast ((0x80 :: 32 word) OR (cp AND 0x3F))"
  define mem' where "mem' = mem (buffer := b0, buffer + 1 := b1, buffer + 2 := b2)"
  have n80: "\<not> cp < 0x80"
    using assms(1) by (simp add: word_less_nat_alt)
  have enc: "utflite_encode mem cp buffer = (mem', 3)"
    using assms n80 by (simp add: utflite_encode_def mem'_def b0_def b1_def b2_def)
  have rd: "mem' buffer = b0" "mem' (buffer + 1) = b1" "mem' (buffer + 2) = b2"
    by (simp_all add: mem'_def)
  have lead: "b0 AND 0xE0 = 0xE0" "b0 AND 0xF0 = 0xE0"
    using lead3_pattern [of cp] by (simp_all add: e b0_def)
  then have na: "\<not> b0 < 0x80"
    by (simp add: lead_not_ascii)
  have dl: "declared_length (mem' buffer) = Some 3"
    using lead na by (simp add: declared_length_def rd)
  have cont: "is_continuation b1" "is_continuation b2"
    by (simp_all add: is_continuation_def b1_def b2_def continuation_byte_pattern)
  have "sequence_value mem' buffer 3 =
      push_bit 12 (drop_bit 12 cp) OR push_bit 6 (drop_bit 6 cp AND 0x3F) OR (cp AND 0x3F)"
    using lead3_payload [of cp] continuation_byte_payload [of cp]
      continuation_byte_payload [of "drop_bit 6 cp"]
    by (simp add: sequence_value_def rd e b0_def b1_def b2_def)
  then have val: "sequence_value mem' buffer 3 = cp"
    by (simp only: reassemble3)
  have "utflite_decode mem' buffer 3 = (cp, 3)"
    using decode_multibyte [of 3 buffer mem' 3] assms dl na cont val
    by (auto simp add: rd int_range_1_3 overlong_def surrogate_def word_le_nat_alt
        word_less_nat_alt)
  with enc show ?thesis by simp
qed

lemma round_trip_4:
  assumes "\<not> cp < 0x10000" and "cp \<le> 0x10FFFF" and "buffer \<noteq> NULL"
  shows "snd (utflite_encode mem cp buffer) = 4 \<and>
    utflite_decode (fst (utflite_encode mem cp buffer)) buffer 4 = (cp, 4)"
proof -
  have "cp < 2 ^ 21"
    using assms(2) by (simp add: word_le_nat_alt word_less_nat_alt)
  then have e: "take_bit 21 cp = cp"
    by (rule take_bit_below)
  define b0 :: byte where "b0 = ucast ((0xF0 :: 32 word) OR drop_bit 18 cp)"
  define b1 :: byte where "b1 = ucast ((0x80 :: 32 word) OR (drop_bit 12 cp AND 0x3F))"
  define b2 :: byte where "b2 = ucast ((0x80 :: 32 word) OR (drop_bit 6 cp AND 0x3F))"
  define b3 :: byte where "b3 = ucast ((0x80 :: 32 word) OR (cp AND 0x3F))"
  define mem' where
    "mem' = mem (buffer := b0, buffer + 1 := b1, buffer + 2 := b2, buffer + 3 := b3)"
  have small: "\<not> cp < 0x80" "\<not> cp < 0x800"
    using assms(1) by (simp_all add: word_less_nat_alt)
  have enc: "utflite_encode mem cp buffer = (mem', 4)"
    using assms small
    by (simp add: utflite_encode_def mem'_def b0_def b1_def b2_def b3_def)
  have rd: "mem' buffer = b0" "mem' (buffer + 1) = b1" "mem' (buffer + 2) = b2"
    "mem' (buffer + 3) = b3"
    by (simp_all add: mem'_def)
  have lead: "b0 AND 0xE0 = 0xE0" "b0 AND 0xF0 = 0xF0" "b0 AND 0xF8 = 0xF0"
    using lead4_pattern [of cp] by (simp_all add: e b0_def)
  then have na: "\<not> b0 < 0x80"
    by (simp add: lead_not_ascii)
  have dl: "declared_length (mem' buffer) = Some 4"
    using lead na by (simp add: declared_length_def rd)
  have cont: "is_continuation b1" "is_continuation b2" "is_continuation b3"
    by (simp_all add: is_continuation_def b1_def b2_def b3_def continuation_byte_pattern)
  have "sequence_value mem' buffer 4 =
      push_bit 18 (drop_bit 18 cp) OR push_bit 12 (drop_bit 12 cp AND 0x3F) OR
      push_bit 6 (drop_bit 6 cp AND 0x3F) OR (cp AND 0x3F)"
    using lead4_payload [of cp] continuation_byte_payload [of cp]
      continuation_byte_payload [of "drop_bit 6 cp"]
      continuation_byte_payload [of "drop_bit 12 cp"]
    by (simp add: sequence_value_def rd e b0_def b1_def b2_def b3_def)
  then have val: "sequence_value mem' buffer 4 = cp"
    by (simp only: reassemble4)
  have "utflite_decode mem' buffer 4 = (cp, 4)"
    using decode_multibyte [of 4 buffer mem' 4] assms dl na cont val
    by (auto simp add: rd int_range_1_4 overlong_def surrogate_def word_le_nat_alt
        word_less_nat_alt)
  with enc show ?thesis by simp
qed

text \<open>Claim C3.  For a valid codepoint and a buffer that is not the null pointer,
  \<open>utflite_encode\<close> returns the byte count that the range of the codepoint fixes, and
  decoding the bytes it wrote, with that count as the length, gives the codepoint back
  together with the same count.\<close>

theorem encode_decode_round_trip:
  assumes "valid_codepoint cp" and "buffer \<noteq> NULL"
  shows "snd (utflite_encode mem cp buffer) =
      (if cp < 0x80 then 1 else if cp < 0x800 then 2 else if cp < 0x10000 then 3 else 4) \<and>
    utflite_decode (fst (utflite_encode mem cp buffer)) buffer
      (snd (utflite_encode mem cp buffer)) = (cp, snd (utflite_encode mem cp buffer))"
proof -
  from assms(1) have le: "cp \<le> 0x10FFFF" and ns: "\<not> (0xD800 \<le> cp \<and> cp \<le> 0xDFFF)"
    by (simp_all add: valid_codepoint_def)
  consider "cp < 0x80" | "\<not> cp < 0x80" "cp < 0x800" | "\<not> cp < 0x800" "cp < 0x10000"
    | "\<not> cp < 0x10000"
    by blast
  then show ?thesis
  proof cases
    case 1
    then show ?thesis
      using round_trip_1 [of cp buffer mem] assms(2) by simp
  next
    case 2
    then show ?thesis
      using round_trip_2 [of cp buffer mem] assms(2) by simp
  next
    case 3
    then have "\<not> cp < 0x80"
      by (simp add: word_less_nat_alt)
    with 3 show ?thesis
      using round_trip_3 [of cp buffer mem] assms(2) ns by simp
  next
    case 4
    then have "\<not> cp < 0x80" "\<not> cp < 0x800"
      by (simp_all add: word_less_nat_alt)
    with 4 show ?thesis
      using round_trip_4 [of cp buffer mem] assms(2) le by simp
  qed
qed

text \<open>The boundary values of the four ranges, written into a zeroed buffer at
  address 1.\<close>

theorem encode_decode_round_trip_witness:
  "utflite_decode (fst (utflite_encode (\<lambda>a. 0) 0x7F 1)) 1
      (snd (utflite_encode (\<lambda>a. 0) 0x7F 1)) = (0x7F, 1) \<and>
   utflite_decode (fst (utflite_encode (\<lambda>a. 0) 0x80 1)) 1
      (snd (utflite_encode (\<lambda>a. 0) 0x80 1)) = (0x80, 2) \<and>
   utflite_decode (fst (utflite_encode (\<lambda>a. 0) 0x7FF 1)) 1
      (snd (utflite_encode (\<lambda>a. 0) 0x7FF 1)) = (0x7FF, 2) \<and>
   utflite_decode (fst (utflite_encode (\<lambda>a. 0) 0x800 1)) 1
      (snd (utflite_encode (\<lambda>a. 0) 0x800 1)) = (0x800, 3) \<and>
   utflite_decode (fst (utflite_encode (\<lambda>a. 0) 0xFFFF 1)) 1
      (snd (utflite_encode (\<lambda>a. 0) 0xFFFF 1)) = (0xFFFF, 3) \<and>
   utflite_decode (fst (utflite_encode (\<lambda>a. 0) 0x10000 1)) 1
      (snd (utflite_encode (\<lambda>a. 0) 0x10000 1)) = (0x10000, 4) \<and>
   utflite_decode (fst (utflite_encode (\<lambda>a. 0) 0x10FFFF 1)) 1
      (snd (utflite_encode (\<lambda>a. 0) 0x10FFFF 1)) = (0x10FFFF, 4)"
  using encode_decode_round_trip [of "0x7F" 1 "\<lambda>a. 0"]
    encode_decode_round_trip [of "0x80" 1 "\<lambda>a. 0"]
    encode_decode_round_trip [of "0x7FF" 1 "\<lambda>a. 0"]
    encode_decode_round_trip [of "0x800" 1 "\<lambda>a. 0"]
    encode_decode_round_trip [of "0xFFFF" 1 "\<lambda>a. 0"]
    encode_decode_round_trip [of "0x10000" 1 "\<lambda>a. 0"]
    encode_decode_round_trip [of "0x10FFFF" 1 "\<lambda>a. 0"]
  by (auto simp add: valid_codepoint_def NULL_def)

section \<open>Table membership and the binary search\<close>

lemma ranges_sorted_valid:
  "ranges_sorted rs \<Longrightarrow> i < length rs \<Longrightarrow> r_start (rs ! i) \<le> r_end (rs ! i)"
proof (induction rs arbitrary: i rule: ranges_sorted.induct)
  case 1
  then show ?case by simp
next
  case (2 r)
  then show ?case by simp
next
  case (3 r s rs)
  then show ?case by (cases i) simp_all
qed

lemma ranges_sorted_head:
  "ranges_sorted (r # rs) \<Longrightarrow> j < length rs \<Longrightarrow> r_end r < r_start (rs ! j)"
proof (induction rs arbitrary: r j)
  case Nil
  then show ?case by simp
next
  case (Cons s rs)
  show ?case
  proof (cases j)
    case 0
    with Cons.prems show ?thesis by simp
  next
    case (Suc k)
    from Cons.prems have "ranges_sorted (s # rs)" and "r_end r < r_start s"
      and "k < length rs"
      using Suc by simp_all
    moreover have "r_start s \<le> r_end s"
      using \<open>ranges_sorted (s # rs)\<close> ranges_sorted_valid [of "s # rs" 0] by simp
    moreover have "r_end s < r_start (rs ! k)"
      using Cons.IH [OF \<open>ranges_sorted (s # rs)\<close> \<open>k < length rs\<close>] .
    ultimately show ?thesis
      using Suc by simp
  qed
qed

lemma ranges_sorted_tail: "ranges_sorted (r # rs) \<Longrightarrow> ranges_sorted rs"
  by (cases rs) simp_all

lemma ranges_sorted_nth:
  "ranges_sorted rs \<Longrightarrow> i < j \<Longrightarrow> j < length rs \<Longrightarrow> r_end (rs ! i) < r_start (rs ! j)"
proof (induction rs arbitrary: i j)
  case Nil
  then show ?case by simp
next
  case (Cons r rs)
  from Cons.prems obtain k where j: "j = Suc k" and k: "k < length rs"
    by (cases j) simp_all
  show ?case
  proof (cases i)
    case 0
    then show ?thesis
      using ranges_sorted_head [OF Cons.prems(1) k] j by simp
  next
    case (Suc m)
    then have "m < k" using Cons.prems(2) j by simp
    from Cons.IH [OF ranges_sorted_tail [OF Cons.prems(1)] this k]
    show ?thesis using Suc j by simp
  qed
qed

lemma unicode_range_contains_loop_correct:
  "ranges_sorted ranges \<Longrightarrow> 0 \<le> low \<Longrightarrow> high < int (length ranges) \<Longrightarrow>
   unicode_range_contains_loop cp ranges low high =
     (if \<exists>i. low \<le> i \<and> i \<le> high \<and> range_hit cp (ranges ! nat i) then 1 else 0)"
proof (induction cp ranges low high rule: unicode_range_contains_loop.induct)
  case (1 codepoint ranges low high)
  note sorted = "1.prems"(1)
  show ?case
  proof (cases "low \<le> high")
    case False
    then show ?thesis
      by (simp add: unicode_range_contains_loop.simps [of codepoint ranges low high])
  next
    case True
    define mid where "mid = (low + high) sdiv 2"
    have mid: "low \<le> mid" "mid \<le> high"
      using sdiv2_between [OF True] by (simp_all add: mid_def)
    then have mid_ix: "0 \<le> mid" "nat mid < length ranges"
      using "1.prems" by simp_all
    have valid: "r_start (ranges ! nat mid) \<le> r_end (ranges ! nat mid)"
      using ranges_sorted_valid [OF sorted mid_ix(2)] .
    consider (below) "codepoint < r_start (ranges ! nat mid)"
      | (above) "\<not> codepoint < r_start (ranges ! nat mid)"
          "codepoint > r_end (ranges ! nat mid)"
      | (hit) "\<not> codepoint < r_start (ranges ! nat mid)"
          "\<not> codepoint > r_end (ranges ! nat mid)"
      by blast
    then show ?thesis
    proof cases
      case below
      have step: "unicode_range_contains_loop codepoint ranges low high =
          unicode_range_contains_loop codepoint ranges low (mid - 1)"
        using True below
        by (simp add: unicode_range_contains_loop.simps [of codepoint ranges low high]
            mid_def Let_def)
      have ih: "unicode_range_contains_loop codepoint ranges low (mid - 1) =
          (if \<exists>i. low \<le> i \<and> i \<le> mid - 1 \<and> range_hit codepoint (ranges ! nat i)
           then 1 else 0)"
        using "1.IH"(1) [OF True mid_def below sorted] "1.prems" mid by simp
      have "\<not> range_hit codepoint (ranges ! nat i)" if "mid \<le> i" "i \<le> high" for i
      proof (cases "i = mid")
        case True
        with below show ?thesis by (simp add: range_hit_def linorder_not_le)
      next
        case False
        with that mid_ix "1.prems" have "nat mid < nat i" "nat i < length ranges"
          by simp_all
        from ranges_sorted_nth [OF sorted this]
        have "r_end (ranges ! nat mid) < r_start (ranges ! nat i)" .
        with valid below show ?thesis
          by (auto simp add: range_hit_def)
      qed
      then have nohit: "\<And>i. mid \<le> i \<Longrightarrow> i \<le> high \<Longrightarrow>
          \<not> range_hit codepoint (ranges ! nat i)" .
      have "(\<exists>i. low \<le> i \<and> i \<le> high \<and> range_hit codepoint (ranges ! nat i)) \<longleftrightarrow>
          (\<exists>i. low \<le> i \<and> i \<le> mid - 1 \<and> range_hit codepoint (ranges ! nat i))"
      proof
        assume "\<exists>i. low \<le> i \<and> i \<le> high \<and> range_hit codepoint (ranges ! nat i)"
        then obtain i where i: "low \<le> i" "i \<le> high"
          "range_hit codepoint (ranges ! nat i)" by blast
        then have "\<not> mid \<le> i" using nohit by blast
        then have "i \<le> mid - 1" by simp
        with i show "\<exists>i. low \<le> i \<and> i \<le> mid - 1 \<and> range_hit codepoint (ranges ! nat i)"
          by blast
      next
        assume "\<exists>i. low \<le> i \<and> i \<le> mid - 1 \<and> range_hit codepoint (ranges ! nat i)"
        then obtain i where i: "low \<le> i" "i \<le> mid - 1"
          "range_hit codepoint (ranges ! nat i)" by blast
        then have "i \<le> high" using mid by simp
        with i show "\<exists>i. low \<le> i \<and> i \<le> high \<and> range_hit codepoint (ranges ! nat i)"
          by blast
      qed
      with step ih show ?thesis by simp
    next
      case above
      have step: "unicode_range_contains_loop codepoint ranges low high =
          unicode_range_contains_loop codepoint ranges (mid + 1) high"
        using True above
        by (simp add: unicode_range_contains_loop.simps [of codepoint ranges low high]
            mid_def Let_def)
      have ih: "unicode_range_contains_loop codepoint ranges (mid + 1) high =
          (if \<exists>i. mid + 1 \<le> i \<and> i \<le> high \<and> range_hit codepoint (ranges ! nat i)
           then 1 else 0)"
        using "1.IH"(2) [OF True mid_def above sorted] "1.prems" mid by simp
      have "\<not> range_hit codepoint (ranges ! nat i)" if "low \<le> i" "i \<le> mid" for i
      proof (cases "i = mid")
        case True
        with above show ?thesis by (simp add: range_hit_def linorder_not_le)
      next
        case False
        with that mid_ix "1.prems" have "nat i < nat mid" "nat mid < length ranges"
          by simp_all
        from ranges_sorted_nth [OF sorted this]
        have "r_end (ranges ! nat i) < r_start (ranges ! nat mid)" .
        with valid above show ?thesis
          by (auto simp add: range_hit_def)
      qed
      then have nohit: "\<And>i. low \<le> i \<Longrightarrow> i \<le> mid \<Longrightarrow>
          \<not> range_hit codepoint (ranges ! nat i)" .
      have "(\<exists>i. low \<le> i \<and> i \<le> high \<and> range_hit codepoint (ranges ! nat i)) \<longleftrightarrow>
          (\<exists>i. mid + 1 \<le> i \<and> i \<le> high \<and> range_hit codepoint (ranges ! nat i))"
      proof
        assume "\<exists>i. low \<le> i \<and> i \<le> high \<and> range_hit codepoint (ranges ! nat i)"
        then obtain i where i: "low \<le> i" "i \<le> high"
          "range_hit codepoint (ranges ! nat i)" by blast
        then have "\<not> i \<le> mid" using nohit by blast
        then have "mid + 1 \<le> i" by simp
        with i show "\<exists>i. mid + 1 \<le> i \<and> i \<le> high \<and> range_hit codepoint (ranges ! nat i)"
          by blast
      next
        assume "\<exists>i. mid + 1 \<le> i \<and> i \<le> high \<and> range_hit codepoint (ranges ! nat i)"
        then obtain i where i: "mid + 1 \<le> i" "i \<le> high"
          "range_hit codepoint (ranges ! nat i)" by blast
        then have "low \<le> i" using mid by simp
        with i show "\<exists>i. low \<le> i \<and> i \<le> high \<and> range_hit codepoint (ranges ! nat i)"
          by blast
      qed
      with step ih show ?thesis by simp
    next
      case hit
      have "unicode_range_contains_loop codepoint ranges low high = 1"
        using True hit
        by (simp add: unicode_range_contains_loop.simps [of codepoint ranges low high]
            mid_def Let_def)
      moreover have "range_hit codepoint (ranges ! nat mid)"
        using hit by (simp add: range_hit_def linorder_not_less)
      ultimately show ?thesis
        using mid by auto
    qed
  qed
qed

lemma unicode_range_contains_correct:
  assumes "ranges_sorted ranges"
  shows "unicode_range_contains cp ranges (int (length ranges)) =
    (if in_table cp ranges then 1 else 0)"
proof -
  have "(\<exists>i. 0 \<le> i \<and> i \<le> int (length ranges) - 1 \<and> range_hit cp (ranges ! nat i)) \<longleftrightarrow>
      (\<exists>r \<in> set ranges. range_hit cp r)"
  proof
    assume "\<exists>i. 0 \<le> i \<and> i \<le> int (length ranges) - 1 \<and> range_hit cp (ranges ! nat i)"
    then obtain i where "0 \<le> i" "i \<le> int (length ranges) - 1"
      "range_hit cp (ranges ! nat i)" by blast
    moreover from this have "nat i < length ranges" by simp
    ultimately show "\<exists>r \<in> set ranges. range_hit cp r"
      using nth_mem by blast
  next
    assume "\<exists>r \<in> set ranges. range_hit cp r"
    then obtain k where "k < length ranges" "range_hit cp (ranges ! k)"
      by (auto simp add: in_set_conv_nth)
    then have "0 \<le> int k \<and> int k \<le> int (length ranges) - 1 \<and>
        range_hit cp (ranges ! nat (int k))" by simp
    then show "\<exists>i. 0 \<le> i \<and> i \<le> int (length ranges) - 1 \<and> range_hit cp (ranges ! nat i)"
      by blast
  qed
  then show ?thesis
    using unicode_range_contains_loop_correct [OF assms, of 0 "int (length ranges) - 1" cp]
    by (simp add: unicode_range_contains_def in_table_def list_ex_iff)
qed

lemma ZERO_WIDTH_RANGES_sorted: "ranges_sorted ZERO_WIDTH_RANGES"
  by (simp add: ZERO_WIDTH_RANGES_def)

lemma DOUBLE_WIDTH_RANGES_sorted: "ranges_sorted DOUBLE_WIDTH_RANGES"
  by (simp add: DOUBLE_WIDTH_RANGES_def)

section \<open>Display width\<close>

lemma ZERO_WIDTH_RANGES_from: "list_all (\<lambda>r. 0x300 \<le> r_start r) ZERO_WIDTH_RANGES"
  by code_simp

lemma DOUBLE_WIDTH_RANGES_from: "list_all (\<lambda>r. 0xA9 \<le> r_start r) DOUBLE_WIDTH_RANGES"
  by code_simp

lemma in_zero_width_ge: "in_table cp ZERO_WIDTH_RANGES \<Longrightarrow> 0x300 \<le> cp"
  using ZERO_WIDTH_RANGES_from
  by (auto simp add: in_table_def list_ex_iff list_all_iff range_hit_def)

lemma in_double_width_ge: "in_table cp DOUBLE_WIDTH_RANGES \<Longrightarrow> 0xA9 \<le> cp"
  using DOUBLE_WIDTH_RANGES_from
  by (auto simp add: in_table_def list_ex_iff list_all_iff range_hit_def)

lemma soft_hyphen_in_no_table:
  "\<not> in_table 0xAD ZERO_WIDTH_RANGES" "\<not> in_table 0xAD DOUBLE_WIDTH_RANGES"
  by code_simp+

lemma zero_width_lookup:
  "unicode_range_contains cp ZERO_WIDTH_RANGES ZERO_WIDTH_COUNT =
     (if in_table cp ZERO_WIDTH_RANGES then 1 else 0)"
  unfolding ZERO_WIDTH_COUNT_def
  by (rule unicode_range_contains_correct) (rule ZERO_WIDTH_RANGES_sorted)

lemma double_width_lookup:
  "unicode_range_contains cp DOUBLE_WIDTH_RANGES DOUBLE_WIDTH_COUNT =
     (if in_table cp DOUBLE_WIDTH_RANGES then 1 else 0)"
  unfolding DOUBLE_WIDTH_COUNT_def
  by (rule unicode_range_contains_correct) (rule DOUBLE_WIDTH_RANGES_sorted)

text \<open>Claim C5, as amended.  For every codepoint the width is -1 for the non-printable
  controls (below \<open>0x20\<close> except NUL, \<open>0x7F\<close>, and \<open>0x80\<close> to \<open>0x9F\<close>); 0 for NUL and
  for a codepoint in the zero-width table; 2 for a codepoint in the double-width table
  that is not in the zero-width table; and 1 otherwise.  U+00AD is in neither table and
  has width 1.\<close>

theorem codepoint_width_cases:
  "utflite_codepoint_width cp =
     (if (cp < 0x20 \<and> cp \<noteq> 0) \<or> cp = 0x7F \<or> (0x80 \<le> cp \<and> cp \<le> 0x9F) then - 1
      else if cp = 0 \<or> in_table cp ZERO_WIDTH_RANGES then 0
      else if in_table cp DOUBLE_WIDTH_RANGES then 2
      else 1) \<and>
   utflite_codepoint_width 0xAD = 1"
proof
  show "utflite_codepoint_width 0xAD = 1"
    by (simp add: utflite_codepoint_width_def)
  have z: "in_table cp ZERO_WIDTH_RANGES \<Longrightarrow> 768 \<le> unat cp"
    using in_zero_width_ge [of cp] by (simp add: word_le_nat_alt)
  have d: "in_table cp DOUBLE_WIDTH_RANGES \<Longrightarrow> 169 \<le> unat cp"
    using in_double_width_ge [of cp] by (simp add: word_le_nat_alt)
  have eq: "cp = w \<longleftrightarrow> unat cp = unat w" for w :: "32 word"
    by (simp add: word_unat_eq_iff)
  show "utflite_codepoint_width cp =
     (if (cp < 0x20 \<and> cp \<noteq> 0) \<or> cp = 0x7F \<or> (0x80 \<le> cp \<and> cp \<le> 0x9F) then - 1
      else if cp = 0 \<or> in_table cp ZERO_WIDTH_RANGES then 0
      else if in_table cp DOUBLE_WIDTH_RANGES then 2
      else 1)"
  proof (cases "cp = 0xAD")
    case True
    then show ?thesis
      using soft_hyphen_in_no_table by (simp add: utflite_codepoint_width_def)
  next
    case False
    then show ?thesis
      using z d
      by (auto simp add: utflite_codepoint_width_def zero_width_lookup double_width_lookup
          word_less_nat_alt word_le_nat_alt eq [of 0] eq [of "0x7F"])
  qed
qed

text \<open>The claim as stated fails where the two tables overlap: U+302A (an ideographic
  tone mark) lies in the double-width range \<open>0x2FF0..0x303E\<close> and in the zero-width range
  \<open>0x302A..0x302D\<close>, and the zero-width table is consulted first.\<close>

theorem codepoint_width_double_width_counterexample:
  "in_table 0x302A DOUBLE_WIDTH_RANGES \<and> utflite_is_wide 0x302A = 1 \<and>
   utflite_codepoint_width 0x302A = 0"
  by code_simp

section \<open>Validation\<close>

lemma validate_loop_walk:
  "validate_loop mem text len error_offset offset =
     (case find (\<lambda>off. \<not> step_ok mem text len off) (decode_walk mem text len offset) of
        None \<Rightarrow> (1, error_offset)
      | Some e \<Rightarrow> (0, case error_offset of None \<Rightarrow> None | Some old \<Rightarrow> Some e))"
proof (induction mem "text" len error_offset offset rule: validate_loop.induct)
  case (1 mem tp len error_offset offset)
  show ?case
  proof (cases "offset < len")
    case False
    then show ?thesis
      by (simp add: validate_loop.simps [of mem tp len error_offset offset]
          decode_walk.simps [of mem tp len offset])
  next
    case True
    define d where "d = utflite_decode mem (tp + offset) (len - offset)"
    have walk: "decode_walk mem tp len offset =
        offset # decode_walk mem tp len (offset + snd d)"
      using True by (simp add: decode_walk.simps [of mem tp len offset] d_def)
    show ?thesis
    proof (cases "step_ok mem tp len offset")
      case False
      then have "validate_loop mem tp len error_offset offset =
          (0, case error_offset of None \<Rightarrow> None | Some old \<Rightarrow> Some offset)"
        using True
        by (simp add: validate_loop.simps [of mem tp len error_offset offset] Let_def
            step_ok_def literal_replacement_def)
          (auto simp add: linorder_not_le)
      with False show ?thesis
        by (simp add: walk)
    next
      case ok: True
      then have "validate_loop mem tp len error_offset offset =
          validate_loop mem tp len error_offset (offset + snd d)"
        using True
        by (simp add: validate_loop.simps [of mem tp len error_offset offset] Let_def
            step_ok_def literal_replacement_def d_def)
          (auto simp add: linorder_not_le)
      moreover have "\<not> (fst d = UTFLITE_REPLACEMENT_CHAR \<and>
          (let first = mem (tp + offset) in
           first \<noteq> 0xEF \<or> len - offset < 3 \<or> mem (tp + (offset + 1)) \<noteq> 0xBF \<or>
           mem (tp + (offset + 2)) \<noteq> 0xBD))"
        using ok by (auto simp add: step_ok_def literal_replacement_def d_def Let_def)
      ultimately show ?thesis
        using "1.IH" [OF True d_def refl refl] ok
        by (simp add: walk)
    qed
  qed
qed

text \<open>Claim C8.  \<open>utflite_validate\<close> returns 1 or 0; it returns 1 exactly when every decode
  step of the walk from offset 0 is acceptable; when it returns 0 and an error offset was
  requested, the cell receives the offset of the first step that is not acceptable (and
  when it returns 1 the cell is left as it was).\<close>

theorem validate_walk:
  "(fst (utflite_validate mem text len error_offset) = 1 \<or>
    fst (utflite_validate mem text len error_offset) = 0) \<and>
   (fst (utflite_validate mem text len error_offset) = 1 \<longleftrightarrow>
      list_all (step_ok mem text len) (decode_walk mem text len 0)) \<and>
   (fst (utflite_validate mem text len error_offset) = 1 \<longrightarrow>
      snd (utflite_validate mem text len error_offset) = error_offset) \<and>
   (fst (utflite_validate mem text len error_offset) = 0 \<and> error_offset \<noteq> None \<longrightarrow>
      snd (utflite_validate mem text len error_offset) =
        find (\<lambda>off. \<not> step_ok mem text len off) (decode_walk mem text len 0))"
proof -
  let ?f = "find (\<lambda>off. \<not> step_ok mem text len off) (decode_walk mem text len 0)"
  have none: "?f = None \<longleftrightarrow> list_all (step_ok mem text len) (decode_walk mem text len 0)"
    by (auto simp add: find_None_iff list_all_iff)
  show ?thesis
  proof (cases ?f)
    case None
    with none show ?thesis
      by (simp add: utflite_validate_def validate_loop_walk)
  next
    case (Some e)
    with none show ?thesis
      by (auto simp add: utflite_validate_def validate_loop_walk)
  qed
qed

text \<open>The overlong NUL after an \<open>A\<close> is reported at offset 1; the literal encoding of
  U+FFFD is valid.\<close>

theorem validate_walk_witness:
  "fst (utflite_validate (buffer_at 1 [0x41, 0xC0, 0x80]) 1 3 (Some 7)) = 0 \<and>
   snd (utflite_validate (buffer_at 1 [0x41, 0xC0, 0x80]) 1 3 (Some 7)) = Some 1 \<and>
   fst (utflite_validate (buffer_at 1 [0xEF, 0xBF, 0xBD]) 1 3 (Some 7)) = 1 \<and>
   snd (utflite_validate (buffer_at 1 [0xEF, 0xBF, 0xBD]) 1 3 (Some 7)) = Some 7"
proof -
  have bad: "decode_walk (buffer_at 1 [0x41, 0xC0, 0x80]) 1 3 0 = [0, 1]"
    "step_ok (buffer_at 1 [0x41, 0xC0, 0x80]) 1 3 0"
    "\<not> step_ok (buffer_at 1 [0x41, 0xC0, 0x80]) 1 3 1"
    by code_simp+
  have good: "decode_walk (buffer_at 1 [0xEF, 0xBF, 0xBD]) 1 3 0 = [0]"
    "step_ok (buffer_at 1 [0xEF, 0xBF, 0xBD]) 1 3 0"
    by code_simp+
  show ?thesis
    using validate_walk [of "buffer_at 1 [0x41, 0xC0, 0x80]" 1 3 "Some 7"]
      validate_walk [of "buffer_at 1 [0xEF, 0xBF, 0xBD]" 1 3 "Some 7"]
    by (auto simp add: bad good)
qed

section \<open>Truncation\<close>

text \<open>A decode that reports \<open>n\<close> bytes gives the same result for every shorter
  length that still covers those \<open>n\<close> bytes.\<close>

lemma decode_stable:
  assumes "snd (utflite_decode mem bytes len) \<le> len'" and "len' \<le> len"
  shows "utflite_decode mem bytes len' = utflite_decode mem bytes len"
proof -
  have pos: "0 < len'" "0 < len"
    using assms decode_bytes_pos [of mem bytes len] by simp_all
  show ?thesis
  proof (cases "bytes = NULL \<or> mem bytes < 0x80")
    case True
    with pos show ?thesis
      by (auto simp add: utflite_decode_def Let_def)
  next
    case False
    show ?thesis
    proof (cases "declared_length (mem bytes)")
      case None
      with False pos show ?thesis
        by (simp add: decode_invalid_lead)
    next
      case (Some n)
      with False pos assms show ?thesis
        using decode_multibyte [of len bytes mem n] decode_multibyte [of len' bytes mem n]
        by (auto split: if_splits)
    qed
  qed
qed

lemma next_char_unclamped:
  "offset < len \<Longrightarrow>
   utflite_next_char mem text len offset =
     offset + snd (utflite_decode mem (text + offset) (len - offset))"
  using decode_bytes_le_len [of "len - offset" mem "text + offset"]
  by (simp add: utflite_next_char_def Let_def)

lemma char_step_stable:
  assumes "offset < e" and "e \<le> len" and "utflite_next_char mem text len offset \<le> e"
  shows "utflite_next_char mem text e offset = utflite_next_char mem text len offset"
    and "utflite_char_width mem text e offset = utflite_char_width mem text len offset"
proof -
  have lt: "offset < len" using assms by simp
  have "snd (utflite_decode mem (text + offset) (len - offset)) \<le> e - offset"
    using assms(3) next_char_unclamped [OF lt, of mem "text"] by simp
  then have eq: "utflite_decode mem (text + offset) (e - offset) =
      utflite_decode mem (text + offset) (len - offset)"
    using assms(2) by (intro decode_stable) simp_all
  show "utflite_next_char mem text e offset = utflite_next_char mem text len offset"
    using next_char_unclamped [OF assms(1), of mem "text"]
      next_char_unclamped [OF lt, of mem "text"] eq by simp
  show "utflite_char_width mem text e offset = utflite_char_width mem text len offset"
    using assms(1) lt eq by (simp add: utflite_char_width_def)
qed

lemma string_width_loop_done:
  "e \<le> offset \<Longrightarrow> string_width_loop mem text e width offset = width"
  by (simp add: string_width_loop.simps [of mem "text" e width offset])

lemma string_width_loop_step:
  assumes "offset < e" and "e \<le> len" and "utflite_next_char mem text len offset \<le> e"
  shows "string_width_loop mem text e width offset =
     string_width_loop mem text e
       (if utflite_char_width mem text len offset > 0
        then width + utflite_char_width mem text len offset else width)
       (utflite_next_char mem text len offset)"
  using assms(1) char_step_stable [OF assms, of ]
  by (simp add: string_width_loop.simps [of mem "text" e width offset] Let_def)

lemma string_width_loop_ge:
  "width \<le> string_width_loop mem text len width offset"
proof (induction mem "text" len width offset rule: string_width_loop.induct)
  case (1 mem tp len width offset)
  show ?case
  proof (cases "offset < len")
    case False
    then show ?thesis by (simp add: string_width_loop_done)
  next
    case True
    from "1.IH" [OF True refl] True show ?thesis
      by (simp add: string_width_loop.simps [of mem tp len width offset] Let_def
          split: if_splits)
  qed
qed

text \<open>The invariant of the loop of \<open>utflite_truncate\<close>, from any state with
  \<open>offset \<le> len\<close>; \<open>r\<close> is the offset the loop returns.\<close>

lemma truncate_loop_invariant:
  "offset \<le> len \<Longrightarrow>
   offset \<le> truncate_loop mem text len max_cols width offset \<and>
   truncate_loop mem text len max_cols width offset \<le> len \<and>
   (\<exists>k. (utflite_next_char mem text len ^^ k) offset =
      truncate_loop mem text len max_cols width offset) \<and>
   (width \<le> max_cols \<longrightarrow>
      string_width_loop mem text (truncate_loop mem text len max_cols width offset)
        width offset \<le> max_cols) \<and>
   (truncate_loop mem text len max_cols width offset < len \<longrightarrow>
      max_cols <
        string_width_loop mem text (truncate_loop mem text len max_cols width offset)
          width offset +
        utflite_char_width mem text len
          (truncate_loop mem text len max_cols width offset) \<and>
      string_width_loop mem text
        (utflite_next_char mem text len
          (truncate_loop mem text len max_cols width offset)) width offset =
        string_width_loop mem text (truncate_loop mem text len max_cols width offset)
          width offset +
        utflite_char_width mem text len
          (truncate_loop mem text len max_cols width offset)) \<and>
   (string_width_loop mem text len width offset \<le> max_cols \<longrightarrow>
      truncate_loop mem text len max_cols width offset = len)"
proof (induction mem "text" len max_cols width offset rule: truncate_loop.induct)
  case (1 mem tp len max_cols width offset)
  let ?r = "truncate_loop mem tp len max_cols width offset"
  let ?cw = "utflite_char_width mem tp len offset"
  let ?o = "utflite_next_char mem tp len offset"
  show ?case
  proof (cases "offset < len")
    case False
    with "1.prems" have "offset = len" by simp
    moreover from False have "?r = len"
      by (simp add: truncate_loop.simps [of mem tp len max_cols width offset])
    moreover have "(utflite_next_char mem tp len ^^ 0) len = len" by simp
    then have "\<exists>k. (utflite_next_char mem tp len ^^ k) len = len" ..
    ultimately show ?thesis
      by (auto simp add: string_width_loop_done)
  next
    case True
    have o: "offset < ?o" "?o \<le> len"
      using True by (simp_all add: next_char_gt next_char_le)
    show ?thesis
    proof (cases "?cw > 0 \<and> width + ?cw > max_cols")
      case early: True
      have r: "?r = offset"
        using True early
        by (simp add: truncate_loop.simps [of mem tp len max_cols width offset] Let_def)
      have "(utflite_next_char mem tp len ^^ 0) offset = offset" by simp
      then have reach: "\<exists>k. (utflite_next_char mem tp len ^^ k) offset = offset" ..
      have here: "string_width_loop mem tp offset width offset = width"
        by (simp add: string_width_loop_done)
      have "string_width_loop mem tp ?o width offset =
          string_width_loop mem tp ?o (width + ?cw) ?o"
        using string_width_loop_step [of offset ?o len mem tp width] o early by simp
      then have after: "string_width_loop mem tp ?o width offset = width + ?cw"
        by (simp add: string_width_loop_done)
      have "string_width_loop mem tp len width offset =
          string_width_loop mem tp len (width + ?cw) ?o"
        using True early
        by (simp add: string_width_loop.simps [of mem tp len width offset] Let_def)
      then have whole: "max_cols < string_width_loop mem tp len width offset"
        using string_width_loop_ge [of "width + ?cw" mem tp len ?o] early by simp
      show ?thesis
        unfolding r using True reach here after whole early by simp
    next
      case False
      define w where "w = (if ?cw > 0 then width + ?cw else width)"
      let ?r' = "truncate_loop mem tp len max_cols w ?o"
      from False have cond: "(?cw > 0 \<and> width + ?cw > max_cols) = False" by simp
      have r: "?r = ?r'"
        using True
        by (simp only: truncate_loop.simps [of mem tp len max_cols width offset] Let_def
            w_def cond if_True if_False)
      have ih: "?o \<le> ?r' \<and> ?r' \<le> len \<and>
          (\<exists>k. (utflite_next_char mem tp len ^^ k) ?o = ?r') \<and>
          (w \<le> max_cols \<longrightarrow> string_width_loop mem tp ?r' w ?o \<le> max_cols) \<and>
          (?r' < len \<longrightarrow>
             max_cols < string_width_loop mem tp ?r' w ?o +
               utflite_char_width mem tp len ?r' \<and>
             string_width_loop mem tp (utflite_next_char mem tp len ?r') w ?o =
               string_width_loop mem tp ?r' w ?o + utflite_char_width mem tp len ?r') \<and>
          (string_width_loop mem tp len w ?o \<le> max_cols \<longrightarrow> ?r' = len)"
        using "1.IH" [OF True refl False o(2)] unfolding w_def .
      from ih obtain k where k: "(utflite_next_char mem tp len ^^ k) ?o = ?r'" by blast
      then have "(utflite_next_char mem tp len ^^ Suc k) offset = ?r'"
        by (simp add: funpow_swap1)
      then have reach: "\<exists>k. (utflite_next_char mem tp len ^^ k) offset = ?r'" ..
      have wle: "width \<le> max_cols \<Longrightarrow> w \<le> max_cols"
        using False by (auto simp add: w_def)
      have at_r: "string_width_loop mem tp ?r' width offset =
          string_width_loop mem tp ?r' w ?o"
        using string_width_loop_step [of offset ?r' len mem tp width] o ih
        by (simp add: w_def)
      have at_next: "string_width_loop mem tp (utflite_next_char mem tp len ?r') width
            offset =
          string_width_loop mem tp (utflite_next_char mem tp len ?r') w ?o"
        if "?r' < len"
      proof -
        have "?r' < utflite_next_char mem tp len ?r'"
          "utflite_next_char mem tp len ?r' \<le> len"
          using that by (simp_all add: next_char_gt next_char_le)
        then show ?thesis
          using string_width_loop_step
            [of offset "utflite_next_char mem tp len ?r'" len mem tp width] o ih
          by (simp add: w_def)
      qed
      have at_len: "string_width_loop mem tp len width offset =
          string_width_loop mem tp len w ?o"
        using True
        by (simp add: string_width_loop.simps [of mem tp len width offset] Let_def w_def)
      show ?thesis
        unfolding r using ih o reach wle at_r at_next at_len by auto
    qed
  qed
qed

text \<open>Claim C6.  For a non-negative \<open>max_cols\<close>, the offset \<open>r\<close> that
  \<open>utflite_truncate\<close> returns is reached from offset 0 by steps of \<open>utflite_next_char\<close>;
  the display width of the first \<open>r\<close> bytes is at most \<open>max_cols\<close>; if \<open>r\<close> is less than
  the length, the character at \<open>r\<close> does not fit: its width added to the width of the
  prefix exceeds \<open>max_cols\<close>, and so does the width of the prefix extended to the next
  character boundary; and if the width of the whole text is at most \<open>max_cols\<close>, then
  \<open>r\<close> is the length.\<close>

theorem truncate_boundary:
  assumes "0 \<le> max_cols"
  shows "(\<exists>k. (utflite_next_char mem text len ^^ k) 0 =
        utflite_truncate mem text len max_cols) \<and>
    utflite_string_width mem text (utflite_truncate mem text len max_cols) \<le> max_cols \<and>
    (utflite_truncate mem text len max_cols < len \<longrightarrow>
       max_cols <
         utflite_string_width mem text (utflite_truncate mem text len max_cols) +
         utflite_char_width mem text len (utflite_truncate mem text len max_cols) \<and>
       max_cols <
         utflite_string_width mem text
           (utflite_next_char mem text len (utflite_truncate mem text len max_cols))) \<and>
    (utflite_string_width mem text len \<le> max_cols \<longrightarrow>
       utflite_truncate mem text len max_cols = len)"
proof (cases "0 \<le> len")
  case True
  from truncate_loop_invariant [OF True, of mem "text" max_cols 0] assms
  show ?thesis
    unfolding utflite_truncate_def utflite_string_width_def by auto
next
  case False
  then have r: "utflite_truncate mem text len max_cols = len"
    by (simp add: utflite_truncate_def truncate_loop.simps [of mem "text" len max_cols 0 0])
  have "(utflite_next_char mem text len ^^ 1) 0 = len"
    using False by (simp add: utflite_next_char_def)
  then have "\<exists>k. (utflite_next_char mem text len ^^ k) 0 = len" ..
  moreover have "utflite_string_width mem text len = 0"
    using False by (simp add: utflite_string_width_def string_width_loop_done)
  ultimately show ?thesis
    unfolding r using assms by simp
qed

text \<open>The text of the test suite, a CJK ideograph of width 2 followed by \<open>A\<close>: two
  columns hold the ideograph only, three columns hold the whole text.\<close>

theorem truncate_boundary_witness:
  "utflite_truncate (buffer_at 1 [0xE4, 0xB8, 0xAD, 0x41, 0x42]) 1 5 3 = 4 \<and>
   (\<exists>k. (utflite_next_char (buffer_at 1 [0xE4, 0xB8, 0xAD, 0x41, 0x42]) 1 5 ^^ k) 0 = 4) \<and>
   utflite_string_width (buffer_at 1 [0xE4, 0xB8, 0xAD, 0x41, 0x42]) 1 4 \<le> 3 \<and>
   3 < utflite_string_width (buffer_at 1 [0xE4, 0xB8, 0xAD, 0x41, 0x42]) 1 4 +
       utflite_char_width (buffer_at 1 [0xE4, 0xB8, 0xAD, 0x41, 0x42]) 1 5 4 \<and>
   3 < utflite_string_width (buffer_at 1 [0xE4, 0xB8, 0xAD, 0x41, 0x42]) 1
       (utflite_next_char (buffer_at 1 [0xE4, 0xB8, 0xAD, 0x41, 0x42]) 1 5 4) \<and>
   utflite_truncate (buffer_at 1 [0xE4, 0xB8, 0xAD, 0x41, 0x42]) 1 5 4 = 5"
proof -
  have cut: "utflite_truncate (buffer_at 1 [0xE4, 0xB8, 0xAD, 0x41, 0x42]) 1 5 3 = 4"
    by code_simp
  have fits: "utflite_string_width (buffer_at 1 [0xE4, 0xB8, 0xAD, 0x41, 0x42]) 1 5 \<le> 4"
    by code_simp
  show ?thesis
    using truncate_boundary [of 3 "buffer_at 1 [0xE4, 0xB8, 0xAD, 0x41, 0x42]" 1 5]
      truncate_boundary [of 4 "buffer_at 1 [0xE4, 0xB8, 0xAD, 0x41, 0x42]" 1 5]
      cut fits
    by simp
qed

section \<open>Backward grapheme navigation as rewind and rescan\<close>

lemma prev_char_funpow_0: "(utflite_prev_char mem text ^^ k) 0 = 0"
  by (induction k) (simp_all add: prev_char_at_start)

lemma prev_grapheme_rewind_funpow:
  "0 \<le> scan_start \<Longrightarrow>
   prev_grapheme_rewind mem text scan_start remaining =
     (utflite_prev_char mem text ^^ nat remaining) scan_start"
proof (induction mem "text" scan_start remaining rule: prev_grapheme_rewind.induct)
  case (1 mem tp scan_start remaining)
  let ?prev = "utflite_prev_char mem tp scan_start"
  show ?case
  proof (cases "remaining > 0 \<and> scan_start > 0")
    case False
    then have stop: "prev_grapheme_rewind mem tp scan_start remaining = scan_start"
      by (auto simp add: prev_grapheme_rewind.simps [of mem tp scan_start remaining])
    from False "1.prems" consider "remaining \<le> 0" | "scan_start = 0" by linarith
    then show ?thesis
    proof cases
      case 1
      with stop show ?thesis by simp
    next
      case 2
      with stop show ?thesis by (simp add: prev_char_funpow_0)
    qed
  next
    case True
    then have b: "0 \<le> ?prev" "?prev < scan_start"
      using prev_char_bounds [of scan_start mem tp] by simp_all
    then have ne: "?prev \<noteq> scan_start" by simp
    have step: "prev_grapheme_rewind mem tp scan_start remaining =
        prev_grapheme_rewind mem tp ?prev (remaining - 1)"
      using True ne
      by (simp add: prev_grapheme_rewind.simps [of mem tp scan_start remaining] Let_def)
    have ih: "prev_grapheme_rewind mem tp ?prev (remaining - 1) =
        (utflite_prev_char mem tp ^^ nat (remaining - 1)) ?prev"
      using "1.IH" [OF True refl ne b(1)] .
    have suc: "nat remaining = Suc (nat (remaining - 1))"
      using True by linarith
    have "(utflite_prev_char mem tp ^^ nat remaining) scan_start =
        (utflite_prev_char mem tp ^^ nat (remaining - 1)) ?prev"
      by (simp only: suc funpow_Suc_right o_apply)
    with step ih show ?thesis by simp
  qed
qed

lemma rewind_anchor_loop:
  "0 < offset \<Longrightarrow>
   rewind_anchor mem text offset =
     prev_grapheme_rewind mem text (utflite_prev_char mem text offset)
       GRAPHEME_MAX_BACKTRACK"
  using prev_char_bounds [of offset mem "text"]
  by (simp add: prev_grapheme_rewind_funpow rewind_anchor_def GRAPHEME_MAX_BACKTRACK_def)

lemma prev_grapheme_scan_boundaries:
  "prev_grapheme_scan mem text offset cur grapheme_start =
     (case boundaries_before mem text offset cur of
        [] \<Rightarrow> grapheme_start
      | b # bs \<Rightarrow> last (b # bs))"
proof (induction mem "text" offset cur grapheme_start rule: prev_grapheme_scan.induct)
  case (1 mem tp offset cur grapheme_start)
  let ?nxt = "utflite_next_grapheme mem tp offset cur"
  show ?case
  proof (cases "cur < offset \<and> \<not> ?nxt \<ge> offset")
    case False
    then have "prev_grapheme_scan mem tp offset cur grapheme_start = grapheme_start"
      by (auto simp add: prev_grapheme_scan.simps [of mem tp offset cur grapheme_start]
          Let_def)
    moreover from False have "boundaries_before mem tp offset cur = []"
      by (auto simp add: boundaries_before.simps [of mem tp offset cur] Let_def)
    ultimately show ?thesis by simp
  next
    case True
    then have "prev_grapheme_scan mem tp offset cur grapheme_start =
        prev_grapheme_scan mem tp offset ?nxt ?nxt"
      by (simp add: prev_grapheme_scan.simps [of mem tp offset cur grapheme_start] Let_def)
    moreover from True have "boundaries_before mem tp offset cur =
        ?nxt # boundaries_before mem tp offset ?nxt"
      by (simp add: boundaries_before.simps [of mem tp offset cur] Let_def)
    moreover have "prev_grapheme_scan mem tp offset ?nxt ?nxt =
        (case boundaries_before mem tp offset ?nxt of
           [] \<Rightarrow> ?nxt
         | b # bs \<Rightarrow> last (b # bs))"
      using True "1.IH" [OF _ refl] by simp
    ultimately show ?thesis
      by (simp split: list.splits)
  qed
qed

lemma prev_grapheme_rescan_eq:
  assumes "text \<noteq> NULL" and "0 < offset"
  shows "utflite_prev_grapheme mem text offset = prev_grapheme_rescan mem text offset"
proof (cases "utflite_prev_char mem text offset = 0")
  case True
  with assms show ?thesis
    by (simp add: utflite_prev_grapheme_def prev_grapheme_rescan_def)
next
  case False
  have "0 \<le> utflite_prev_char mem text offset"
    using prev_char_bounds [OF assms(2), of mem "text"] by simp
  then have "prev_grapheme_rewind mem text (utflite_prev_char mem text offset)
      GRAPHEME_MAX_BACKTRACK = rewind_anchor mem text offset"
    by (simp add: prev_grapheme_rewind_funpow rewind_anchor_def GRAPHEME_MAX_BACKTRACK_def)
  with False assms show ?thesis
    by (simp add: utflite_prev_grapheme_def prev_grapheme_rescan_def Let_def
        prev_grapheme_scan_boundaries)
qed

text \<open>Claim C9, as amended.  For a text that is not the null pointer and an offset
  greater than 0: if the previous codepoint boundary is 0 the result is 0; otherwise the
  result is the last boundary that the forward rescan from the anchor finds strictly
  before \<open>offset\<close>, or the anchor itself when it finds none.\<close>

theorem prev_grapheme_rewind_rescan:
  assumes "text \<noteq> NULL" and "0 < offset"
  shows "utflite_prev_grapheme mem text offset =
     (if utflite_prev_char mem text offset = 0 then 0
      else
        (case boundaries_before mem text offset (rewind_anchor mem text offset) of
           [] \<Rightarrow> rewind_anchor mem text offset
         | b # bs \<Rightarrow> last (b # bs))) \<and>
    rewind_anchor mem text offset =
      (utflite_prev_char mem text ^^ 128) (utflite_prev_char mem text offset)"
  using prev_grapheme_rescan_eq [OF assms, of mem]
  by (simp add: prev_grapheme_rescan_def rewind_anchor_def)

text \<open>\<open>e\<close>, U+0301 and \<open>x\<close>: from the end of the text the previous boundary is the
  start of \<open>x\<close>.\<close>

theorem prev_grapheme_rewind_rescan_witness:
  "utflite_prev_char (buffer_at 1 [0x65, 0xCC, 0x81, 0x78]) 1 4 = 3 \<and>
   rewind_anchor (buffer_at 1 [0x65, 0xCC, 0x81, 0x78]) 1 4 = 0 \<and>
   boundaries_before (buffer_at 1 [0x65, 0xCC, 0x81, 0x78]) 1 4 0 = [3] \<and>
   utflite_prev_grapheme (buffer_at 1 [0x65, 0xCC, 0x81, 0x78]) 1 4 = 3"
proof -
  have ev: "utflite_prev_char (buffer_at 1 [0x65, 0xCC, 0x81, 0x78]) 1 4 = 3"
    "prev_grapheme_rewind (buffer_at 1 [0x65, 0xCC, 0x81, 0x78]) 1 3
       GRAPHEME_MAX_BACKTRACK = 0"
    "boundaries_before (buffer_at 1 [0x65, 0xCC, 0x81, 0x78]) 1 4 0 = [3]"
    by code_simp+
  have anchor: "rewind_anchor (buffer_at 1 [0x65, 0xCC, 0x81, 0x78]) 1 4 = 0"
    by (simp add: rewind_anchor_loop ev)
  show ?thesis
    using prev_grapheme_rewind_rescan [of 1 4 "buffer_at 1 [0x65, 0xCC, 0x81, 0x78]"]
    by (simp add: ev anchor NULL_def)
qed

subsection \<open>Two inputs on which the description of the specification fails\<close>

lemma combining_grave_properties:
  "get_gcb 0x300 = GCB_EXTEND" "is_extended_pictographic 0x300 = 0"
  "is_incb_consonant 0x300 = 0" "is_incb_linker 0x300 = 0"
  by code_simp+

lemma long_cluster_mark:
  assumes "odd off" and "1 \<le> off" and "off + 2 \<le> 261"
  shows "utflite_decode long_cluster (1 + off) (261 - off) = (0x300, 2)"
proof -
  have b0: "long_cluster (1 + off) = 0xCC"
    using assms by (simp add: long_cluster_def; presburger?)
  have b1: "long_cluster (2 + off) = 0x80"
    using assms by (simp add: long_cluster_def; presburger?)
  have dl: "declared_length (long_cluster (1 + off)) = Some 2"
    by (simp add: b0 declared_length_def)
  have v: "sequence_value long_cluster (1 + off) 2 = 0x300"
    by (simp add: sequence_value_def b0 b1)
  show ?thesis
    using decode_multibyte [of "261 - off" "1 + off" long_cluster 2] assms dl v
    by (simp add: b0 b1 NULL_def int_range_1_2 is_continuation_def overlong_def
        surrogate_def)
qed

lemma long_cluster_loop:
  "odd off \<Longrightarrow> 1 \<le> off \<Longrightarrow> off \<le> 261 \<Longrightarrow>
   next_grapheme_loop long_cluster 1 261 off GCB_EXTEND 0 0 0 = 261"
proof (induction "nat (261 - off)" arbitrary: off rule: less_induct)
  case less
  show ?case
  proof (cases "off = 261")
    case True
    then show ?thesis
      by (simp add: next_grapheme_loop.simps [of long_cluster 1 261 261])
  next
    case False
    with less.prems have le: "off + 2 \<le> 261"
      by presburger
    have d: "utflite_decode long_cluster (1 + off) (261 - off) = (0x300, 2)"
      using long_cluster_mark [OF less.prems(1,2) le] .
    have "next_grapheme_loop long_cluster 1 261 off GCB_EXTEND 0 0 0 =
        next_grapheme_loop long_cluster 1 261 (off + 2) GCB_EXTEND 0 0 0"
      using le
      by (simp add: next_grapheme_loop.simps [of long_cluster 1 261 off] d Let_def
          combining_grave_properties is_grapheme_break_def)
    moreover have "next_grapheme_loop long_cluster 1 261 (off + 2) GCB_EXTEND 0 0 0 = 261"
      using less.prems le by (intro less.hyps) simp_all
    ultimately show ?thesis by simp
  qed
qed

lemma long_cluster_next_grapheme: "utflite_next_grapheme long_cluster 1 261 3 = 261"
proof -
  have d: "utflite_decode long_cluster (1 + 3) (261 - 3) = (0x300, 2)"
    by (rule long_cluster_mark) simp_all
  have "next_grapheme_loop long_cluster 1 261 5 GCB_EXTEND 0 0 0 = 261"
    by (rule long_cluster_loop) simp_all
  with d show ?thesis
    by (simp add: utflite_next_grapheme_def NULL_def Let_def combining_grave_properties)
qed

lemma long_cluster_rewind:
  "utflite_prev_char long_cluster 1 261 = 259" "rewind_anchor long_cluster 1 261 = 3"
proof -
  show pc: "utflite_prev_char long_cluster 1 261 = 259"
    by code_simp
  have "prev_grapheme_rewind long_cluster 1 259 GRAPHEME_MAX_BACKTRACK = 3"
    by code_simp
  then show "rewind_anchor long_cluster 1 261 = 3"
    by (simp add: rewind_anchor_loop pc)
qed

lemma long_cluster_boundaries: "boundaries_before long_cluster 1 261 3 = []"
  by (simp add: boundaries_before.simps [of long_cluster 1 261 3]
      long_cluster_next_grapheme)

text \<open>The claim as stated fails twice.  On the long cluster the rescan from the anchor
  (offset 3) finds no boundary before offset 261, and the code returns the anchor, not 0.
  On the malformed text \<open>a 0x80 0x80\<close> the previous codepoint boundary of offset 3 is 0
  (two continuation bytes are skipped), and the code returns 0 without rescanning,
  although the rescan from 0 finds the boundaries 1 and 2.\<close>

theorem prev_grapheme_spec_counterexample:
  "utflite_prev_grapheme long_cluster 1 261 = 3 \<and>
   prev_grapheme_spec long_cluster 1 261 = 0 \<and>
   utflite_prev_grapheme (buffer_at 1 [0x61, 0x80, 0x80]) 1 3 = 0 \<and>
   prev_grapheme_spec (buffer_at 1 [0x61, 0x80, 0x80]) 1 3 = 2"
proof -
  have "utflite_prev_grapheme long_cluster 1 261 = prev_grapheme_rescan long_cluster 1 261"
    by (rule prev_grapheme_rescan_eq) (simp_all add: NULL_def)
  then have "utflite_prev_grapheme long_cluster 1 261 = 3"
    by (simp add: prev_grapheme_rescan_def long_cluster_rewind long_cluster_boundaries)
  moreover have "prev_grapheme_spec long_cluster 1 261 = 0"
    by (simp add: prev_grapheme_spec_def long_cluster_rewind long_cluster_boundaries)
  moreover have "utflite_prev_grapheme (buffer_at 1 [0x61, 0x80, 0x80]) 1 3 = 0"
    by code_simp
  moreover have "prev_grapheme_spec (buffer_at 1 [0x61, 0x80, 0x80]) 1 3 = 2"
  proof -
    have ev: "utflite_prev_char (buffer_at 1 [0x61, 0x80, 0x80]) 1 3 = 0"
      "prev_grapheme_rewind (buffer_at 1 [0x61, 0x80, 0x80]) 1 0 GRAPHEME_MAX_BACKTRACK = 0"
      "boundaries_before (buffer_at 1 [0x61, 0x80, 0x80]) 1 3 0 = [1, 2]"
      by code_simp+
    then show ?thesis
      by (simp add: prev_grapheme_spec_def rewind_anchor_loop)
  qed
  ultimately show ?thesis by simp
qed

end
